theory Spec2Isabelle
  imports Complex_Main
begin

section \<open>Scalars: IEEE-754 values\<close>

text \<open>
  Tensors of the preprocessor hold \<open>float32\<close> scalars, and its Python parameters
  (\<open>threshold\<close>, \<open>random_coef\<close>, \<open>ratio\<close>, ...) are Python floats. Both are modelled by
  \<open>ieee\<close>: a finite value (a rational), the two infinities, or NaN. The sign of zero and
  the payload of a NaN are not represented. A \<open>float32\<close> is an \<open>ieee\<close> value that
  \<open>to_float32\<close> leaves unchanged; every \<open>float32\<close> operation rounds its exact result with
  \<open>round32\<close> (round to nearest, ties to even, 24 significant bits, exponents -126..127,
  gradual underflow, overflow to infinity).
\<close>

datatype ieee = Fin rat | PInf | NInf | NaN

definition pow2 :: "int \<Rightarrow> rat" where
  "pow2 e = (if 0 \<le> e then 2 ^ nat e else 1 / 2 ^ nat (- e))"

definition round_half_even :: "rat \<Rightarrow> int" where
  "round_half_even x =
     (let f = \<lfloor>x\<rfloor>; d = x - of_int f
      in if d < 1 / 2 then f else if 1 / 2 < d then f + 1
         else if even f then f else f + 1)"

text \<open>
  \<open>binade n e a\<close> searches downwards from \<open>e\<close>, for at most \<open>n\<close> steps, for the largest
  exponent whose power of two is at most \<open>a\<close>; started at 127 with 253 steps it stops at
  -126, the exponent of the subnormal numbers.
\<close>

fun binade :: "nat \<Rightarrow> int \<Rightarrow> rat \<Rightarrow> int" where
  "binade 0 e a = e"
| "binade (Suc n) e a = (if pow2 e \<le> a then e else binade n (e - 1) a)"

definition round32 :: "rat \<Rightarrow> ieee" where
  "round32 x =
     (if x = 0 then Fin 0
      else let a = \<bar>x\<bar>;
               e = binade 253 127 a;
               q = pow2 (e - 23);
               y = of_int (round_half_even (a / q)) * q
           in if pow2 128 \<le> y then (if 0 < x then PInf else NInf)
              else Fin (if 0 < x then y else - y))"

fun to_float32 :: "ieee \<Rightarrow> ieee" where
  "to_float32 (Fin x) = round32 x"
| "to_float32 v = v"

fun is_nan :: "ieee \<Rightarrow> bool" where
  "is_nan NaN = True"
| "is_nan _ = False"

text \<open>The difference, the sum and the product of \<open>float32\<close> scalars, rounded to \<open>float32\<close>.\<close>

fun fsub :: "ieee \<Rightarrow> ieee \<Rightarrow> ieee" where
  "fsub NaN _ = NaN"
| "fsub _ NaN = NaN"
| "fsub (Fin x) (Fin y) = round32 (x - y)"
| "fsub PInf PInf = NaN"
| "fsub NInf NInf = NaN"
| "fsub PInf _ = PInf"
| "fsub NInf _ = NInf"
| "fsub (Fin x) PInf = NInf"
| "fsub (Fin x) NInf = PInf"

fun fadd :: "ieee \<Rightarrow> ieee \<Rightarrow> ieee" where
  "fadd NaN _ = NaN"
| "fadd _ NaN = NaN"
| "fadd (Fin x) (Fin y) = round32 (x + y)"
| "fadd PInf NInf = NaN"
| "fadd NInf PInf = NaN"
| "fadd PInf _ = PInf"
| "fadd NInf _ = NInf"
| "fadd (Fin x) PInf = PInf"
| "fadd (Fin x) NInf = NInf"

fun fsign :: "ieee \<Rightarrow> int" where
  "fsign (Fin x) = sgn \<lfloor>if 0 < x then 1 else if x < 0 then -1 else (0::rat)\<rfloor>"
| "fsign PInf = 1"
| "fsign NInf = -1"
| "fsign NaN = 0"

fun fmul :: "ieee \<Rightarrow> ieee \<Rightarrow> ieee" where
  "fmul NaN _ = NaN"
| "fmul _ NaN = NaN"
| "fmul (Fin x) (Fin y) = round32 (x * y)"
| "fmul a b =
     (if fsign a * fsign b = 0 then NaN else if 0 < fsign a * fsign b then PInf else NInf)"

text \<open>
  Comparisons (\<open>tf.greater\<close>, Python's \<open><\<close>): every comparison with NaN is false.
\<close>

fun flt :: "ieee \<Rightarrow> ieee \<Rightarrow> bool" where
  "flt NaN _ = False"
| "flt _ NaN = False"
| "flt (Fin x) (Fin y) = (x < y)"
| "flt _ NInf = False"
| "flt NInf _ = True"
| "flt PInf _ = False"
| "flt (Fin x) PInf = True"

definition fgt :: "ieee \<Rightarrow> ieee \<Rightarrow> bool" where
  "fgt a b = flt b a"

text \<open>
  \<open>tf.clip_by_value t lo hi\<close> is \<open>maximum (minimum t hi) lo\<close>; a NaN stays a NaN.
\<close>

definition clip_by_value :: "ieee \<Rightarrow> ieee \<Rightarrow> ieee \<Rightarrow> ieee" where
  "clip_by_value t lo hi =
     (if is_nan t then NaN
      else let m = (if flt hi t then hi else t) in if flt m lo then lo else m)"

text \<open>
  The kernels of the tensor library run with subnormal numbers flushed to zero: an
  operand below the smallest normal \<open>float32\<close>, \<open>2^-126\<close>, counts as zero, and a result
  below it becomes zero. \<open>tf_subtract\<close>, \<open>tf_add\<close>, \<open>tf_multiply\<close> and \<open>tf_greater\<close> are
  the operations with the flush. The flips compute \<open>1 - x\<close> and compare a draw with \<open>0.5\<close>:
  there the flush changes nothing (the difference of 1 and a \<open>float32\<close> is never
  subnormal, a subnormal \<open>x\<close> gives 1 with or without it, and a subnormal draw is below
  \<open>0.5\<close> as zero is), and they are written with \<open>fsub\<close> and \<open>fgt\<close>.
\<close>

definition flush_denormal :: "ieee \<Rightarrow> ieee" where
  "flush_denormal v =
     (case v of Fin x \<Rightarrow> if \<bar>x\<bar> < pow2 (- 126) then Fin 0 else Fin x | _ \<Rightarrow> v)"

definition tf_subtract :: "ieee \<Rightarrow> ieee \<Rightarrow> ieee" where
  "tf_subtract a b = flush_denormal (fsub (flush_denormal a) (flush_denormal b))"

definition tf_add :: "ieee \<Rightarrow> ieee \<Rightarrow> ieee" where
  "tf_add a b = flush_denormal (fadd (flush_denormal a) (flush_denormal b))"

definition tf_multiply :: "ieee \<Rightarrow> ieee \<Rightarrow> ieee" where
  "tf_multiply a b = flush_denormal (fmul (flush_denormal a) (flush_denormal b))"

definition tf_greater :: "ieee \<Rightarrow> ieee \<Rightarrow> bool" where
  "tf_greater a b = fgt (flush_denormal a) (flush_denormal b)"

section \<open>The cache of random variables\<close>

text \<open>
  The function identifiers and the selector keys are the constants of
  \<open>preprocessor_cache.PreprocessorCache\<close> that \<open>core/preprocessor.py\<close> names.
\<close>

datatype function_id =
    SELECTOR | SELECTOR_TUPLES | HORIZONTAL_FLIP | VERTICAL_FLIP | ROTATION90
  | PIXEL_VALUE_SCALE | IMAGE_SCALE | RGB_TO_GRAY | ADJUST_BRIGHTNESS | ADJUST_CONTRAST
  | ADJUST_HUE | ADJUST_SATURATION | STRICT_CROP_IMAGE | CROP_IMAGE | PAD_IMAGE
  | CROP_TO_ASPECT_RATIO | PAD_TO_ASPECT_RATIO | ADD_BLACK_PATCH | BLACK_PATCHES

text \<open>
  A key is the default \<open>''\<close> or another string, a number (an index, or a value of
  \<open>min_object_covered\<close>), or one of the selector constants.
\<close>

datatype cache_key =
    Key_str string | Key_num ieee
  | SSD_CROP_SELECTOR_ID | SSD_CROP_PAD_SELECTOR_ID | RESIZE_METHOD

type_synonym box = "ieee \<times> ieee \<times> ieee \<times> ieee"

text \<open>
  What a generator returns and the cache stores: a scalar \<open>float32\<close> draw, an \<open>int32\<close>
  draw, a tuple of integer draws, a tensor of draws, or the triple
  \<open>(begin, size, bboxes)\<close> of \<open>tf.image.sample_distorted_bounding_box\<close>.
\<close>

datatype rand_var =
    Rand_float ieee
  | Rand_int int
  | Rand_ints "int list"
  | Rand_floats "ieee list"
  | Rand_bbox "int \<times> int \<times> int" "int \<times> int \<times> int" box

type_synonym preprocessor_cache = "function_id \<times> cache_key \<rightharpoonup> rand_var"

text \<open>
  Modelled from the spec: the class \<open>PreprocessorCache\<close> of \<open>core/preprocessor_cache.py\<close>
  is not among the sources. The spec describes it as a map from
  \<open>(operation_identifier, sub_key)\<close> to the previously generated value, mutated only by
  insertion; \<open>get\<close> answers \<open>None\<close> for an absent entry.
\<close>

definition cache_get ::
  "preprocessor_cache \<Rightarrow> function_id \<Rightarrow> cache_key \<Rightarrow> rand_var option" where
  "cache_get c function_id key = c (function_id, key)"

definition cache_update ::
  "preprocessor_cache \<Rightarrow> function_id \<Rightarrow> cache_key \<Rightarrow> rand_var \<Rightarrow> preprocessor_cache" where
  "cache_update c function_id key var = c((function_id, key) \<mapsto> var)"

text \<open>
  \<open>_get_or_create_preprocess_rand_vars\<close>. The random source of the tensor library is the
  explicit state \<open>'r\<close>: a generator takes it and returns its draw and the next state. The
  cache argument is \<open>None\<close> or a cache object; the object is updated in place, so the
  function returns the cache next to the variable.
\<close>

type_synonym 'r generator = "'r \<Rightarrow> rand_var \<times> 'r"

definition get_or_create_preprocess_rand_vars ::
  "'r generator \<Rightarrow> function_id \<Rightarrow> preprocessor_cache option \<Rightarrow> cache_key \<Rightarrow> 'r
     \<Rightarrow> rand_var \<times> preprocessor_cache option \<times> 'r" where
  "get_or_create_preprocess_rand_vars generator_func function_id preprocess_vars_cache key r =
     (case preprocess_vars_cache of
        Some c \<Rightarrow>
          (case cache_get c function_id key of
             None \<Rightarrow>
               (let (var, r') = generator_func r
                in (var, Some (cache_update c function_id key var), r'))
           | Some var \<Rightarrow> (var, Some c, r))
      | None \<Rightarrow> (let (var, r') = generator_func r in (var, None, r')))"

section \<open>Operations as programs over the random source\<close>

text \<open>
  An operation of the preprocessor computes with tensors and draws random variables. A
  draw is either taken through \<open>_get_or_create_preprocess_rand_vars\<close> (\<open>Cached\<close>) or
  directly from the tensor library (\<open>Fresh\<close>); the continuation receives the variable.
\<close>

datatype ('a, 'r) prog =
    Return 'a
  | Cached "'r generator" function_id cache_key "rand_var \<Rightarrow> ('a, 'r) prog"
  | Fresh "'r generator" "rand_var \<Rightarrow> ('a, 'r) prog"

primrec run ::
  "('a, 'r) prog \<Rightarrow> preprocessor_cache option \<Rightarrow> 'r
     \<Rightarrow> 'a \<times> preprocessor_cache option \<times> 'r" where
  "run (Return a) = (\<lambda>cache r. (a, cache, r))"
| "run (Cached g function_id key k) =
     (\<lambda>cache r.
        let (var, cache', r') = get_or_create_preprocess_rand_vars g function_id cache key r
        in run (k var) cache' r')"
| "run (Fresh g k) = (\<lambda>cache r. let (var, r') = g r in run (k var) cache r')"

primrec and_then :: "('a, 'r) prog \<Rightarrow> ('a \<Rightarrow> ('b, 'r) prog) \<Rightarrow> ('b, 'r) prog" where
  "and_then (Return a) f = f a"
| "and_then (Cached g function_id key k) f =
     Cached g function_id key (\<lambda>var. and_then (k var) f)"
| "and_then (Fresh g k) f = Fresh g (\<lambda>var. and_then (k var) f)"

text \<open>An operation is cache-aware when none of its draws bypasses the cache.\<close>

primrec cache_aware :: "('a, 'r) prog \<Rightarrow> bool" where
  "cache_aware (Return a) = True"
| "cache_aware (Cached g function_id key k) = (\<forall>var. cache_aware (k var))"
| "cache_aware (Fresh g k) = False"

text \<open>An operation is deterministic when it draws nothing.\<close>

primrec draws_nothing :: "('a, 'r) prog \<Rightarrow> bool" where
  "draws_nothing (Return a) = True"
| "draws_nothing (Cached g function_id key k) = False"
| "draws_nothing (Fresh g k) = False"

section \<open>Errors and tensors\<close>

datatype error =
    ValueError string
  | TypeError string
  | IndexError string
  | InvalidArgumentError string

text \<open>
  An exception of Python (raised while the graph of a branch or of a case is built) ends
  the whole call; an error of the tensor library belongs to the branch that is executed.
\<close>

fun python_exception :: "error \<Rightarrow> bool" where
  "python_exception (InvalidArgumentError _) = False"
| "python_exception _ = True"

definition raised :: "error + 'a \<Rightarrow> bool" where
  "raised x = (case x of Inl e \<Rightarrow> python_exception e | Inr a \<Rightarrow> False)"

text \<open>
  The tensors of the operations, by rank: an image is \<open>[height, width, channels]\<close>, boxes
  are rows \<open>[ymin, xmin, ymax, xmax]\<close>, masks are \<open>[num_instances, height, width]\<close>,
  keypoints are \<open>[num_instances, num_keypoints, 2]\<close> with a point as \<open>(y, x)\<close>, labels
  are \<open>int32\<close>, weights and confidences are \<open>[num_instances]\<close> and multiclass scores are
  \<open>[num_instances, num_classes]\<close>. The variable \<open>img\<close> stands for the source's \<open>image\<close>. An optional argument that is \<open>None\<close> in the source is
  \<open>None\<close> here, and a result tuple that leaves an output out has \<open>None\<close> in its place.
\<close>

type_synonym image = "ieee list list list"
type_synonym masks = "ieee list list list"
type_synonym keypoints = "(ieee \<times> ieee) list list"

definition bind_error :: "error + 'a \<Rightarrow> ('a \<Rightarrow> error + 'b) \<Rightarrow> error + 'b" where
  "bind_error x f = (case x of Inl e \<Rightarrow> Inl e | Inr a \<Rightarrow> f a)"

text \<open>
  \<open>tf.where\<close> on a rank-1 boolean tensor, squeezed: the indices of the true entries, in
  increasing order. \<open>tf.gather\<close> selects rows by index and fails on an index out of range.
\<close>

definition tf_where :: "bool list \<Rightarrow> nat list" where
  "tf_where condition = filter (\<lambda>i. condition ! i) [0..<length condition]"

definition gather :: "'a list \<Rightarrow> nat list \<Rightarrow> error + 'a list" where
  "gather params indices =
     (if list_all (\<lambda>i. i < length params) indices then Inr (map (\<lambda>i. params ! i) indices)
      else Inl (InvalidArgumentError ''indices out of range''))"

fun gather_optional :: "'a list option \<Rightarrow> nat list \<Rightarrow> error + 'a list option" where
  "gather_optional None indices = Inr None"
| "gather_optional (Some params) indices =
     bind_error (gather params indices) (\<lambda>rows. Inr (Some rows))"

section \<open>Retaining boxes above a threshold\<close>

text \<open>
  \<open>retain_boxes_above_threshold\<close>. The comparison \<open>label_weights > threshold\<close> is
  \<open>tf.greater\<close> of the weights and of the Python float converted to a \<open>float32\<close>
  tensor.
\<close>

definition retain_boxes_above_threshold ::
  "box list \<Rightarrow> int list \<Rightarrow> ieee list \<Rightarrow> ieee list option \<Rightarrow> ieee list list option
     \<Rightarrow> masks option \<Rightarrow> keypoints option \<Rightarrow> ieee
     \<Rightarrow> error + (box list \<times> int list \<times> ieee list \<times> ieee list option
                 \<times> ieee list list option \<times> masks option \<times> keypoints option)" where
  "retain_boxes_above_threshold boxes labels label_weights label_confidences
      multiclass_scores masks keypoints threshold =
     (let indices =
            tf_where (map (\<lambda>w. tf_greater w (to_float32 threshold) \<or> is_nan w)
                        label_weights)
      in bind_error (gather boxes indices) (\<lambda>retained_boxes.
         bind_error (gather labels indices) (\<lambda>retained_labels.
         bind_error (gather label_weights indices) (\<lambda>retained_label_weights.
         bind_error (gather_optional label_confidences indices) (\<lambda>retained_label_confidences.
         bind_error (gather_optional multiclass_scores indices) (\<lambda>retained_multiclass_scores.
         bind_error (gather_optional masks indices) (\<lambda>retained_masks.
         bind_error (gather_optional keypoints indices) (\<lambda>retained_keypoints.
           Inr (retained_boxes, retained_labels, retained_label_weights,
                retained_label_confidences, retained_multiclass_scores, retained_masks,
                retained_keypoints)))))))))"

section \<open>Flips\<close>

text \<open>
  \<open>tf.split\<close> of an \<open>[N, 4]\<close> tensor into its four columns and \<open>tf.concat\<close> of four
  columns along axis 1.
\<close>

definition split_boxes :: "box list \<Rightarrow> ieee list \<times> ieee list \<times> ieee list \<times> ieee list" where
  "split_boxes boxes =
     (map (\<lambda>(ymin, xmin, ymax, xmax). ymin) boxes,
      map (\<lambda>(ymin, xmin, ymax, xmax). xmin) boxes,
      map (\<lambda>(ymin, xmin, ymax, xmax). ymax) boxes,
      map (\<lambda>(ymin, xmin, ymax, xmax). xmax) boxes)"

definition concat_boxes :: "ieee list \<Rightarrow> ieee list \<Rightarrow> ieee list \<Rightarrow> ieee list \<Rightarrow> box list" where
  "concat_boxes c0 c1 c2 c3 = zip c0 (zip c1 (zip c2 c3))"

definition flip_boxes_left_right :: "box list \<Rightarrow> box list" where
  "flip_boxes_left_right boxes =
     (let (ymin, xmin, ymax, xmax) = split_boxes boxes;
          flipped_xmin = map (fsub (Fin 1)) xmax;
          flipped_xmax = map (fsub (Fin 1)) xmin
      in concat_boxes ymin flipped_xmin ymax flipped_xmax)"

definition flip_boxes_up_down :: "box list \<Rightarrow> box list" where
  "flip_boxes_up_down boxes =
     (let (ymin, xmin, ymax, xmax) = split_boxes boxes;
          flipped_ymin = map (fsub (Fin 1)) ymax;
          flipped_ymax = map (fsub (Fin 1)) ymin
      in concat_boxes flipped_ymin xmin flipped_ymax xmax)"

text \<open>\<open>masks[:, :, ::-1]\<close> and \<open>masks[:, ::-1, :]\<close>.\<close>

definition flip_masks_left_right :: "masks \<Rightarrow> masks" where
  "flip_masks_left_right masks = map (map rev) masks"

definition flip_masks_up_down :: "masks \<Rightarrow> masks" where
  "flip_masks_up_down masks = map rev masks"

text \<open>
  \<open>tf.image.flip_left_right\<close> reverses the width axis of an image and
  \<open>tf.image.flip_up_down\<close> its height axis.
\<close>

definition flip_left_right :: "image \<Rightarrow> image" where
  "flip_left_right img = map rev img"

definition flip_up_down :: "image \<Rightarrow> image" where
  "flip_up_down img = rev img"

text \<open>
  \<open>random_horizontal_flip\<close> and \<open>random_vertical_flip\<close>. \<open>random_uniform\<close> is the generator
  \<open>functools.partial(tf.random_uniform, [], seed=seed)\<close>; \<open>flip_horizontal\<close> and
  \<open>flip_vertical\<close> are the functions of \<open>keypoint_ops\<close>, taken as parameters.
\<close>

type_synonym flip_result = "image \<times> box list option \<times> masks option \<times> keypoints option"

definition random_horizontal_flip ::
  "'r generator \<Rightarrow> (keypoints \<Rightarrow> ieee \<Rightarrow> int list \<Rightarrow> keypoints)
     \<Rightarrow> image \<Rightarrow> box list option \<Rightarrow> masks option \<Rightarrow> keypoints option \<Rightarrow> int list option
     \<Rightarrow> (error + flip_result, 'r) prog" where
  "random_horizontal_flip random_uniform flip_horizontal img boxes masks keypoints
      keypoint_flip_permutation =
     (if keypoints \<noteq> None \<and> keypoint_flip_permutation = None
      then Return (Inl (ValueError
             ''keypoints are provided but keypoints_flip_permutation is not provided''))
      else Cached random_uniform HORIZONTAL_FLIP (Key_str '''')
        (\<lambda>var. case var of
           Rand_float u \<Rightarrow>
             (let do_a_flip_random = fgt u (Fin (1 / 2))
              in Return (Inr
                   (if do_a_flip_random then flip_left_right img else img,
                    map_option
                      (\<lambda>b. if do_a_flip_random then flip_boxes_left_right b else b) boxes,
                    map_option
                      (\<lambda>m. if do_a_flip_random then flip_masks_left_right m else m) masks,
                    (case (keypoints, keypoint_flip_permutation) of
                       (Some k, Some permutation) \<Rightarrow>
                         Some (if do_a_flip_random
                               then flip_horizontal k (Fin (1 / 2)) permutation else k)
                     | _ \<Rightarrow> None))))
         | _ \<Rightarrow> Return (Inl (TypeError ''the cached variable is not a scalar float''))))"

definition random_vertical_flip ::
  "'r generator \<Rightarrow> (keypoints \<Rightarrow> ieee \<Rightarrow> int list \<Rightarrow> keypoints)
     \<Rightarrow> image \<Rightarrow> box list option \<Rightarrow> masks option \<Rightarrow> keypoints option \<Rightarrow> int list option
     \<Rightarrow> (error + flip_result, 'r) prog" where
  "random_vertical_flip random_uniform flip_vertical img boxes masks keypoints
      keypoint_flip_permutation =
     (if keypoints \<noteq> None \<and> keypoint_flip_permutation = None
      then Return (Inl (ValueError
             ''keypoints are provided but keypoints_flip_permutation is not provided''))
      else Cached random_uniform VERTICAL_FLIP (Key_str '''')
        (\<lambda>var. case var of
           Rand_float u \<Rightarrow>
             (let do_a_flip_random = fgt u (Fin (1 / 2))
              in Return (Inr
                   (if do_a_flip_random then flip_up_down img else img,
                    map_option
                      (\<lambda>b. if do_a_flip_random then flip_boxes_up_down b else b) boxes,
                    map_option
                      (\<lambda>m. if do_a_flip_random then flip_masks_up_down m else m) masks,
                    (case (keypoints, keypoint_flip_permutation) of
                       (Some k, Some permutation) \<Rightarrow>
                         Some (if do_a_flip_random
                               then flip_vertical k (Fin (1 / 2)) permutation else k)
                     | _ \<Rightarrow> None))))
         | _ \<Rightarrow> Return (Inl (TypeError ''the cached variable is not a scalar float''))))"

text \<open>
  A second application of a flip to the outputs of a first one, with the same keypoint
  permutation.
\<close>

definition flip_again ::
  "(image \<Rightarrow> box list option \<Rightarrow> masks option \<Rightarrow> keypoints option \<Rightarrow> int list option
      \<Rightarrow> (error + flip_result, 'r) prog)
     \<Rightarrow> int list option \<Rightarrow> error + flip_result \<Rightarrow> (error + flip_result, 'r) prog" where
  "flip_again flip keypoint_flip_permutation result =
     (case result of
        Inl e \<Rightarrow> Return (Inl e)
      | Inr (img, boxes, masks, keypoints) \<Rightarrow>
          flip img boxes masks keypoints keypoint_flip_permutation)"

section \<open>Random crops\<close>

text \<open>
  \<open>tf.slice\<close>: along each axis \<open>begin\<close> must lie within the axis, and \<open>size\<close> (here \<open>sz\<close>) is either
  \<open>-1\<close>, for all that remains, or a length that fits; anything else is an error of the
  tensor library.
\<close>

definition slice_dim :: "'a list \<Rightarrow> int \<Rightarrow> int \<Rightarrow> error + 'a list" where
  "slice_dim xs begin sz =
     (if begin < 0 \<or> int (length xs) < begin
      then Inl (InvalidArgumentError ''slice begin out of range'')
      else if sz = -1 then Inr (drop (nat begin) xs)
      else if sz < 0 \<or> int (length xs) < begin + sz
      then Inl (InvalidArgumentError ''slice size out of range'')
      else Inr (take (nat sz) (drop (nat begin) xs)))"

fun map_errors :: "('a \<Rightarrow> error + 'b) \<Rightarrow> 'a list \<Rightarrow> error + 'b list" where
  "map_errors f [] = Inr []"
| "map_errors f (x # xs) =
     bind_error (f x) (\<lambda>y. bind_error (map_errors f xs) (\<lambda>ys. Inr (y # ys)))"

definition slice2 :: "'a list list \<Rightarrow> int \<times> int \<Rightarrow> int \<times> int \<Rightarrow> error + 'a list list" where
  "slice2 t begin sz =
     bind_error (slice_dim t (fst begin) (fst sz))
       (map_errors (\<lambda>row. slice_dim row (snd begin) (snd sz)))"

definition slice3 ::
  "'a list list list \<Rightarrow> int \<times> int \<times> int \<Rightarrow> int \<times> int \<times> int \<Rightarrow> error + 'a list list list" where
  "slice3 t begin sz =
     bind_error (slice_dim t (fst begin) (fst sz))
       (map_errors (\<lambda>plane. slice2 plane (snd begin) (snd sz)))"

text \<open>\<open>tf.shape\<close> of an image and \<open>tf.clip_by_value\<close> on boxes.\<close>

definition tf_shape :: "image \<Rightarrow> nat list" where
  "tf_shape img =
     [length img,
      (case img of [] \<Rightarrow> 0 | row # _ \<Rightarrow> length row),
      (case img of (pixel # _) # _ \<Rightarrow> length pixel | _ \<Rightarrow> 0)]"

definition clip_boxes_by_value :: "box list \<Rightarrow> ieee \<Rightarrow> ieee \<Rightarrow> box list" where
  "clip_boxes_by_value boxes clip_value_min clip_value_max =
     map (\<lambda>(ymin, xmin, ymax, xmax).
            (clip_by_value ymin clip_value_min clip_value_max,
             clip_by_value xmin clip_value_min clip_value_max,
             clip_by_value ymax clip_value_min clip_value_max,
             clip_by_value xmax clip_value_min clip_value_max)) boxes"

text \<open>
  What the crops use and the sources do not hold: the generators of the tensor library
  (\<open>tf.image.sample_distorted_bounding_box\<close> with \<open>max_attempts=100\<close> and
  \<open>use_image_if_no_bounding_boxes=True\<close>, and \<open>tf.random_uniform\<close> for a scalar and for a
  selector below \<open>maxval\<close>), the two tests by which \<open>box_list_ops\<close> prunes a box against a
  window, and the coordinate maps of \<open>box_list_ops\<close> and \<open>keypoint_ops\<close>, which act on
  each instance by itself. They are parameters of the model.
\<close>

record 'r externals =
  sample_distorted_bounding_box ::
    "nat list \<Rightarrow> box list \<Rightarrow> ieee \<Rightarrow> ieee \<times> ieee \<Rightarrow> ieee \<times> ieee \<Rightarrow> 'r generator"
  random_uniform :: "'r generator"
  random_uniform_int :: "nat \<Rightarrow> 'r generator"
  completely_outside_window :: "box \<Rightarrow> box \<Rightarrow> bool"
  overlaps_window :: "box \<Rightarrow> box \<Rightarrow> ieee \<Rightarrow> bool"
  box_change_coordinate_frame :: "box \<Rightarrow> box \<Rightarrow> box"
  keypoints_change_coordinate_frame :: "(ieee \<times> ieee) list \<Rightarrow> box \<Rightarrow> (ieee \<times> ieee) list"
  keypoints_prune_outside_window :: "(ieee \<times> ieee) list \<Rightarrow> box \<Rightarrow> (ieee \<times> ieee) list"

text \<open>
  Modelled from the spec: the class \<open>BoxList\<close> of \<open>core/box_list.py\<close> and the functions
  \<open>prune_completely_outside_window\<close>, \<open>prune_non_overlapping_boxes\<close> and
  \<open>change_coordinate_frame\<close> of \<open>core/box_list_ops.py\<close> are not among the sources. By the
  spec a crop to a window first drops the boxes entirely outside the window, then the
  remaining boxes whose overlap with the window is below \<open>overlap_thresh\<close>, then remaps
  the surviving boxes into the frame of the window; a box list carries its per-box fields
  with it, and each pruning returns the pruned list together with the indices it kept.
\<close>

record box_list =
  bl_boxes :: "box list"
  bl_labels :: "int list"
  bl_label_weights :: "ieee list option"
  bl_label_confidences :: "ieee list option"
  bl_multiclass_scores :: "ieee list list option"

definition box_list_gather :: "box_list \<Rightarrow> nat list \<Rightarrow> error + box_list" where
  "box_list_gather boxlist indices =
     bind_error (gather (bl_boxes boxlist) indices) (\<lambda>boxes.
     bind_error (gather (bl_labels boxlist) indices) (\<lambda>labels.
     bind_error (gather_optional (bl_label_weights boxlist) indices) (\<lambda>label_weights.
     bind_error (gather_optional (bl_label_confidences boxlist) indices) (\<lambda>label_confidences.
     bind_error (gather_optional (bl_multiclass_scores boxlist) indices) (\<lambda>multiclass_scores.
       Inr \<lparr>bl_boxes = boxes, bl_labels = labels, bl_label_weights = label_weights,
            bl_label_confidences = label_confidences,
            bl_multiclass_scores = multiclass_scores\<rparr>)))))"

definition prune_completely_outside_window ::
  "'r externals \<Rightarrow> box_list \<Rightarrow> box \<Rightarrow> error + box_list \<times> nat list" where
  "prune_completely_outside_window env boxlist window =
     (let valid_indices =
            tf_where (map (\<lambda>b. \<not> completely_outside_window env b window) (bl_boxes boxlist))
      in bind_error (box_list_gather boxlist valid_indices)
           (\<lambda>pruned. Inr (pruned, valid_indices)))"

definition prune_non_overlapping_boxes ::
  "'r externals \<Rightarrow> box_list \<Rightarrow> box \<Rightarrow> ieee \<Rightarrow> error + box_list \<times> nat list" where
  "prune_non_overlapping_boxes env boxlist window min_overlap =
     (let keep_inds =
            tf_where (map (\<lambda>b. overlaps_window env b window min_overlap) (bl_boxes boxlist))
      in bind_error (box_list_gather boxlist keep_inds)
           (\<lambda>pruned. Inr (pruned, keep_inds)))"

definition change_coordinate_frame :: "'r externals \<Rightarrow> box_list \<Rightarrow> box \<Rightarrow> box_list" where
  "change_coordinate_frame env boxlist window =
     boxlist\<lparr>bl_boxes := map (\<lambda>b. box_change_coordinate_frame env b window) (bl_boxes boxlist)\<rparr>"

type_synonym crop_result =
  "image \<times> box list \<times> int list \<times> ieee list option \<times> ieee list option
     \<times> ieee list list option \<times> masks option \<times> keypoints option"

text \<open>
  \<open>_strict_random_crop_image\<close>, in two parts: \<open>crop_to_sample\<close> is the body of the function
  from the unpacking of the sampled triple \<open>(im_box_begin, im_box_size, im_box)\<close> on.
\<close>

definition crop_to_sample ::
  "'r externals \<Rightarrow> image \<Rightarrow> box list \<Rightarrow> int list \<Rightarrow> ieee list option \<Rightarrow> ieee list option
     \<Rightarrow> ieee list list option \<Rightarrow> masks option \<Rightarrow> keypoints option \<Rightarrow> ieee \<Rightarrow> bool
     \<Rightarrow> int \<times> int \<times> int \<Rightarrow> int \<times> int \<times> int \<Rightarrow> box \<Rightarrow> error + crop_result" where
  "crop_to_sample env img boxes labels label_weights label_confidences multiclass_scores
      masks keypoints overlap_thresh clip_boxes im_box_begin im_box_size im_box =
     bind_error (slice3 img im_box_begin im_box_size) (\<lambda>new_image.
     (let boxlist = \<lparr>bl_boxes = boxes, bl_labels = labels, bl_label_weights = label_weights,
                     bl_label_confidences = label_confidences,
                     bl_multiclass_scores = multiclass_scores\<rparr>
      in bind_error (prune_completely_outside_window env boxlist im_box)
           (\<lambda>(boxlist, inside_window_ids).
         bind_error (prune_non_overlapping_boxes env boxlist im_box overlap_thresh)
           (\<lambda>(overlapping_boxlist, keep_ids).
         (let new_labels = bl_labels overlapping_boxlist;
              new_boxlist = change_coordinate_frame env overlapping_boxlist im_box;
              new_boxes = bl_boxes new_boxlist;
              new_boxes = (if clip_boxes then clip_boxes_by_value new_boxes (Fin 0) (Fin 1)
                           else new_boxes)
          in bind_error
               (case masks of
                  None \<Rightarrow> Inr None
                | Some m \<Rightarrow>
                    bind_error (gather m inside_window_ids)
                      (\<lambda>masks_of_boxes_inside_window.
                    bind_error (gather masks_of_boxes_inside_window keep_ids)
                      (\<lambda>masks_of_boxes_completely_inside_window.
                    bind_error
                      (slice3 masks_of_boxes_completely_inside_window
                         (0, fst im_box_begin, fst (snd im_box_begin))
                         (-1, fst im_box_size, fst (snd im_box_size)))
                      (\<lambda>new_masks. Inr (Some new_masks)))))
               (\<lambda>new_masks.
             bind_error
               (case keypoints of
                  None \<Rightarrow> Inr None
                | Some k \<Rightarrow>
                    bind_error (gather k inside_window_ids)
                      (\<lambda>keypoints_of_boxes_inside_window.
                    bind_error (gather keypoints_of_boxes_inside_window keep_ids)
                      (\<lambda>keypoints_of_boxes_completely_inside_window.
                    (let new_keypoints =
                           map (\<lambda>kp. keypoints_change_coordinate_frame env kp im_box)
                             keypoints_of_boxes_completely_inside_window;
                         new_keypoints =
                           (if clip_boxes
                            then map (\<lambda>kp. keypoints_prune_outside_window env kp
                                              (Fin 0, Fin 0, Fin 1, Fin 1)) new_keypoints
                            else new_keypoints)
                     in Inr (Some new_keypoints)))))
               (\<lambda>new_keypoints.
                  Inr (new_image, new_boxes, new_labels,
                       bl_label_weights overlapping_boxlist,
                       bl_label_confidences overlapping_boxlist,
                       bl_multiclass_scores overlapping_boxlist,
                       new_masks, new_keypoints))))))))"

definition strict_random_crop_image ::
  "'r externals \<Rightarrow> image \<Rightarrow> box list \<Rightarrow> int list \<Rightarrow> ieee list option \<Rightarrow> ieee list option
     \<Rightarrow> ieee list list option \<Rightarrow> masks option \<Rightarrow> keypoints option
     \<Rightarrow> ieee \<Rightarrow> ieee \<times> ieee \<Rightarrow> ieee \<times> ieee \<Rightarrow> ieee \<Rightarrow> bool
     \<Rightarrow> (error + crop_result, 'r) prog" where
  "strict_random_crop_image env img boxes labels label_weights label_confidences
      multiclass_scores masks keypoints min_object_covered aspect_ratio_range area_range
      overlap_thresh clip_boxes =
     (let image_shape = tf_shape img;
          boxes_expanded = clip_boxes_by_value boxes (Fin 0) (Fin 1);
          generator_func =
            sample_distorted_bounding_box env image_shape boxes_expanded min_object_covered
              aspect_ratio_range area_range
      in Cached generator_func STRICT_CROP_IMAGE (Key_num min_object_covered)
           (\<lambda>var. case var of
              Rand_bbox im_box_begin im_box_size im_box \<Rightarrow>
                Return (crop_to_sample env img boxes labels label_weights label_confidences
                          multiclass_scores masks keypoints overlap_thresh clip_boxes
                          im_box_begin im_box_size im_box)
            | _ \<Rightarrow> Return (Inl (TypeError ''the cached variable is not a sampled box''))))"

text \<open>\<open>sys.float_info.min\<close>, the smallest positive normal double.\<close>

definition float_info_min :: ieee where
  "float_info_min = Fin (1 / 2 ^ 1022)"

text \<open>
  \<open>tf.cond(pred, true_fn, false_fn)\<close> calls both branch functions while it builds the
  graph, \<open>true_fn\<close> first: the draws that a branch takes through the cache are taken
  whatever \<open>pred\<close> is, and an exception of Python raised by a branch ends the call. The
  value of the conditional is the result of the branch that \<open>pred\<close> selects.
\<close>

definition tf_cond ::
  "bool \<Rightarrow> (error + 'a, 'r) prog \<Rightarrow> (error + 'a, 'r) prog \<Rightarrow> (error + 'a, 'r) prog" where
  "tf_cond pred true_fn false_fn =
     and_then true_fn
       (\<lambda>res_t.
          if raised res_t then Return res_t
          else and_then false_fn
                 (\<lambda>res_f.
                    if raised res_f then Return res_f
                    else Return (if pred then res_t else res_f)))"

text \<open>
  \<open>random_crop_image\<close>. The test \<open>random_coef < sys.float_info.min\<close> compares Python
  floats; \<open>tf.greater\<close> compares the draw with \<open>random_coef\<close> converted to \<open>float32\<close>, and
  \<open>tf.cond\<close> chooses between the strict crop and \<open>lambda: tuple(outputs)\<close>.
\<close>

definition random_crop_image ::
  "'r externals \<Rightarrow> image \<Rightarrow> box list \<Rightarrow> int list \<Rightarrow> ieee list option \<Rightarrow> ieee list option
     \<Rightarrow> ieee list list option \<Rightarrow> masks option \<Rightarrow> keypoints option
     \<Rightarrow> ieee \<Rightarrow> ieee \<times> ieee \<Rightarrow> ieee \<times> ieee \<Rightarrow> ieee \<Rightarrow> bool \<Rightarrow> ieee
     \<Rightarrow> (error + crop_result, 'r) prog" where
  "random_crop_image env img boxes labels label_weights label_confidences multiclass_scores
      masks keypoints min_object_covered aspect_ratio_range area_range overlap_thresh
      clip_boxes random_coef =
     (let strict_random_crop_image_fn =
            strict_random_crop_image env img boxes labels label_weights label_confidences
              multiclass_scores masks keypoints min_object_covered aspect_ratio_range
              area_range overlap_thresh clip_boxes
      in if flt random_coef float_info_min then strict_random_crop_image_fn
         else Cached (random_uniform env) CROP_IMAGE (Key_str [])
           (\<lambda>var. case var of
              Rand_float u \<Rightarrow>
                (let do_a_crop_random = tf_greater u (to_float32 random_coef);
                     outputs = (img, boxes, labels, label_weights, label_confidences,
                                multiclass_scores, masks, keypoints)
                 in tf_cond do_a_crop_random strict_random_crop_image_fn
                      (Return (Inr outputs)))
            | _ \<Rightarrow> Return (Inl (TypeError ''the cached variable is not a scalar float''))))"

section \<open>Random selection among cases\<close>

text \<open>
  The loop \<open>for case in range(num_cases)\<close> of \<open>_apply_with_random_selector_tuples\<close>: \<open>func\<close>
  is called for every case in turn, and the outputs are collected.
\<close>

fun for_cases ::
  "(nat \<Rightarrow> (error + 'y, 'r) prog) \<Rightarrow> nat list \<Rightarrow> (error + (error + 'y) list, 'r) prog" where
  "for_cases func [] = Return (Inr [])"
| "for_cases func (case_index # cases) =
     and_then (func case_index)
       (\<lambda>output.
          case output of
            Inl e \<Rightarrow>
              if python_exception e then Return (Inl e)
              else and_then (for_cases func cases)
                     (\<lambda>rest. Return (bind_error rest (\<lambda>outputs. Inr (output # outputs))))
          | Inr y \<Rightarrow>
              and_then (for_cases func cases)
                (\<lambda>rest. Return (bind_error rest (\<lambda>outputs. Inr (output # outputs)))))"

text \<open>
  \<open>control_flow_ops.switch\<close> passes the inputs to the case that equals \<open>rand_sel\<close>, and
  \<open>control_flow_ops.merge\<close> returns the output of that case. Without any case \<open>merge\<close>
  has no input, and a selector that equals no case leaves no output to fetch.
\<close>

definition merge :: "(error + 'y) list \<Rightarrow> int \<Rightarrow> error + 'y" where
  "merge outputs rand_sel =
     (if outputs = [] then Inl (ValueError ''merge needs at least one input'')
      else if 0 \<le> rand_sel \<and> rand_sel < int (length outputs) then outputs ! nat rand_sel
      else Inl (InvalidArgumentError ''no branch was selected''))"

definition apply_with_random_selector_tuples ::
  "'r externals \<Rightarrow> 'x \<Rightarrow> ('x \<Rightarrow> nat \<Rightarrow> (error + 'y, 'r) prog) \<Rightarrow> nat \<Rightarrow> cache_key
     \<Rightarrow> (error + 'y, 'r) prog" where
  "apply_with_random_selector_tuples env x func num_cases key =
     Cached (random_uniform_int env num_cases) SELECTOR_TUPLES key
       (\<lambda>var. case var of
          Rand_int rand_sel \<Rightarrow>
            and_then (for_cases (func x) [0..<num_cases])
              (\<lambda>outputs. Return (bind_error outputs (\<lambda>tuples. merge tuples rand_sel)))
        | _ \<Rightarrow> Return (Inl (TypeError ''the cached variable is not a scalar integer'')))"

definition index_tuple :: "'a list \<Rightarrow> nat \<Rightarrow> error + 'a" where
  "index_tuple xs i =
     (if i < length xs then Inr (xs ! i) else Inl (IndexError ''tuple index out of range''))"

text \<open>\<open>ssd_random_crop\<close> with its local function \<open>random_crop_selector\<close>.\<close>

definition random_crop_selector ::
  "'r externals \<Rightarrow> ieee list \<Rightarrow> (ieee \<times> ieee) list \<Rightarrow> (ieee \<times> ieee) list \<Rightarrow> ieee list
     \<Rightarrow> bool list \<Rightarrow> ieee list \<Rightarrow> crop_result \<Rightarrow> nat \<Rightarrow> (error + crop_result, 'r) prog" where
  "random_crop_selector env min_object_covered aspect_ratio_range area_range overlap_thresh
      clip_boxes random_coef selected_result index =
     (case selected_result of
        (img, boxes, labels, selected_label_weights, selected_label_confidences,
         selected_multiclass_scores, selected_masks, selected_keypoints) \<Rightarrow>
          (case index_tuple min_object_covered index of Inl e \<Rightarrow> Return (Inl e) | Inr moc \<Rightarrow>
           case index_tuple aspect_ratio_range index of Inl e \<Rightarrow> Return (Inl e) | Inr arr \<Rightarrow>
           case index_tuple area_range index of Inl e \<Rightarrow> Return (Inl e) | Inr ar \<Rightarrow>
           case index_tuple overlap_thresh index of Inl e \<Rightarrow> Return (Inl e) | Inr ot \<Rightarrow>
           case index_tuple clip_boxes index of Inl e \<Rightarrow> Return (Inl e) | Inr cb \<Rightarrow>
           case index_tuple random_coef index of Inl e \<Rightarrow> Return (Inl e) | Inr rc \<Rightarrow>
             random_crop_image env img boxes labels selected_label_weights
               selected_label_confidences selected_multiclass_scores selected_masks
               selected_keypoints moc arr ar ot cb rc))"

definition ssd_random_crop ::
  "'r externals \<Rightarrow> image \<Rightarrow> box list \<Rightarrow> int list \<Rightarrow> ieee list option \<Rightarrow> ieee list option
     \<Rightarrow> ieee list list option \<Rightarrow> masks option \<Rightarrow> keypoints option
     \<Rightarrow> ieee list \<Rightarrow> (ieee \<times> ieee) list \<Rightarrow> (ieee \<times> ieee) list \<Rightarrow> ieee list \<Rightarrow> bool list
     \<Rightarrow> ieee list \<Rightarrow> (error + crop_result, 'r) prog" where
  "ssd_random_crop env img boxes labels label_weights label_confidences multiclass_scores
      masks keypoints min_object_covered aspect_ratio_range area_range overlap_thresh
      clip_boxes random_coef =
     apply_with_random_selector_tuples env
       (img, boxes, labels, label_weights, label_confidences, multiclass_scores, masks,
        keypoints)
       (random_crop_selector env min_object_covered aspect_ratio_range area_range
          overlap_thresh clip_boxes random_coef)
       (length min_object_covered) SSD_CROP_SELECTOR_ID"

text \<open>The default presets of \<open>ssd_random_crop\<close>.\<close>

definition ssd_min_object_covered :: "ieee list" where
  "ssd_min_object_covered =
     [Fin 0, Fin (1 / 10), Fin (3 / 10), Fin (1 / 2), Fin (7 / 10), Fin (9 / 10), Fin 1]"

definition ssd_aspect_ratio_range :: "(ieee \<times> ieee) list" where
  "ssd_aspect_ratio_range = replicate 7 (Fin (1 / 2), Fin 2)"

definition ssd_area_range :: "(ieee \<times> ieee) list" where
  "ssd_area_range = replicate 7 (Fin (1 / 10), Fin 1)"

definition ssd_overlap_thresh :: "ieee list" where
  "ssd_overlap_thresh =
     [Fin 0, Fin (1 / 10), Fin (3 / 10), Fin (1 / 2), Fin (7 / 10), Fin (9 / 10), Fin 1]"

definition ssd_clip_boxes :: "bool list" where
  "ssd_clip_boxes = replicate 7 True"

definition ssd_random_coef :: "ieee list" where
  "ssd_random_coef = replicate 7 (Fin (15 / 100))"

text \<open>
  The rows that survive the two prunings of a crop to \<open>window\<close>, as indices into the
  input boxes: those of the boxes not completely outside the window, and among these
  those of the boxes that overlap the window enough.
\<close>

definition surviving_indices :: "'r externals \<Rightarrow> box list \<Rightarrow> box \<Rightarrow> ieee \<Rightarrow> nat list" where
  "surviving_indices env boxes window overlap_thresh =
     (let inside = filter (\<lambda>i. \<not> completely_outside_window env (boxes ! i) window)
                     [0..<length boxes];
          keep = filter (\<lambda>j. overlaps_window env (boxes ! (inside ! j)) window overlap_thresh)
                   [0..<length inside]
      in map (\<lambda>j. inside ! j) keep)"

section \<open>Jittering boxes\<close>

text \<open>
  \<open>random_jitter_boxes\<close> has no cache argument. \<open>tf.map_fn\<close> builds \<open>random_jitter_box\<close>
  once, so \<open>tf.random_uniform\<close> is called once, directly, in a call of
  \<open>random_jitter_boxes\<close>, and what it returns draws four new numbers in every iteration:
  \<open>random_uniform_box ratio seed n\<close> is the generator
  \<open>tf.random_uniform([1, 1, 4], minval=-ratio, maxval=ratio, dtype=tf.float32, seed=seed)\<close>
  with the numbers of \<open>n\<close> iterations, four after four. \<open>jitter_rows\<close> is the iteration over
  the boxes.
\<close>

definition random_jitter_box :: "box \<Rightarrow> ieee list \<Rightarrow> error + box" where
  "random_jitter_box b rand_numbers =
     (case (b, rand_numbers) of
        ((ymin, xmin, ymax, xmax), [r0, r1, r2, r3]) \<Rightarrow>
          (let box_width = tf_subtract xmax xmin;
               box_height = tf_subtract ymax ymin
           in Inr (clip_by_value (tf_add ymin (tf_multiply box_height r0)) (Fin 0) (Fin 1),
                   clip_by_value (tf_add xmin (tf_multiply box_width r1)) (Fin 0) (Fin 1),
                   clip_by_value (tf_add ymax (tf_multiply box_height r2)) (Fin 0) (Fin 1),
                   clip_by_value (tf_add xmax (tf_multiply box_width r3)) (Fin 0) (Fin 1)))
      | _ \<Rightarrow> Inl (ValueError ''the random numbers are not of shape [1, 1, 4]''))"

fun jitter_rows :: "box list \<Rightarrow> ieee list \<Rightarrow> error + box list" where
  "jitter_rows [] rand_numbers = Inr []"
| "jitter_rows (b # boxes) rand_numbers =
     bind_error (random_jitter_box b (take 4 rand_numbers)) (\<lambda>jittered_box.
     bind_error (jitter_rows boxes (drop 4 rand_numbers)) (\<lambda>distorted_boxes.
       Inr (jittered_box # distorted_boxes)))"

definition random_jitter_boxes ::
  "(ieee \<Rightarrow> int option \<Rightarrow> nat \<Rightarrow> 'r generator) \<Rightarrow> box list \<Rightarrow> ieee \<Rightarrow> int option
     \<Rightarrow> (error + box list, 'r) prog" where
  "random_jitter_boxes random_uniform_box boxes ratio seed =
     Fresh (random_uniform_box ratio seed (length boxes))
       (\<lambda>var. case var of
          Rand_floats rand_numbers \<Rightarrow> Return (jitter_rows boxes rand_numbers)
        | _ \<Rightarrow> Return (Inl (TypeError ''the draw is not a float tensor'')))"

section \<open>The preprocess function\<close>

text \<open>
  At the interface of \<open>preprocess\<close> a tensor is its static shape and its values in
  row-major order. The names of \<open>fields.InputDataFields\<close> that the preprocessor uses are
  the constructors of \<open>input_data_field\<close>; \<open>tensor_dict\<close> maps them to tensors.
\<close>

record 'a tensor =
  t_shape :: "nat list"
  t_values :: "'a list"

datatype input_data_field =
    F_image | F_groundtruth_boxes | F_groundtruth_classes | F_groundtruth_weights
  | F_groundtruth_confidences | F_multiclass_scores | F_groundtruth_instance_masks
  | F_groundtruth_keypoints | F_groundtruth_image_classes | F_other string

type_synonym 'a tensor_dict = "input_data_field \<rightharpoonup> 'a tensor"

text \<open>
  An option of \<open>preprocess_options\<close> is a function and its dictionary of keyword
  arguments. A function is known by its name; \<open>fn_accepts_cache\<close> tells whether
  \<open>preprocess_vars_cache\<close> is among the arguments of its signature, and \<open>fn_call\<close> is the
  function applied to the positional arguments and the keyword arguments, returning the
  list of its results (a single result is the list of one). The keyword arguments are
  those of the option; the cache is not one of them: a function that is handed the cache
  is run with it.
\<close>

datatype kwarg = Kw_float ieee | Kw_int int | Kw_int_list "int list"

type_synonym kwargs = "(string \<times> kwarg) list"

record ('a, 'r) preprocess_fn =
  fn_name :: string
  fn_accepts_cache :: bool
  fn_call :: "'a tensor option list \<Rightarrow> kwargs \<Rightarrow> (error + 'a tensor list, 'r) prog"

type_synonym func_arg_map = "string \<rightharpoonup> input_data_field option list"

definition get_default_func_arg_map ::
  "bool \<Rightarrow> bool \<Rightarrow> bool \<Rightarrow> bool \<Rightarrow> bool \<Rightarrow> func_arg_map" where
  "get_default_func_arg_map include_label_weights include_label_confidences
      include_multiclass_scores include_instance_masks include_keypoints =
     (let groundtruth_label_weights =
            (if include_label_weights then Some F_groundtruth_weights else None);
          groundtruth_label_confidences =
            (if include_label_confidences then Some F_groundtruth_confidences else None);
          multiclass_scores =
            (if include_multiclass_scores then Some F_multiclass_scores else None);
          groundtruth_instance_masks =
            (if include_instance_masks then Some F_groundtruth_instance_masks else None);
          groundtruth_keypoints =
            (if include_keypoints then Some F_groundtruth_keypoints else None)
      in map_of
        [(''normalize_image'', [Some F_image]),
         (''random_horizontal_flip'',
            [Some F_image, Some F_groundtruth_boxes, groundtruth_instance_masks,
             groundtruth_keypoints]),
         (''random_vertical_flip'',
            [Some F_image, Some F_groundtruth_boxes, groundtruth_instance_masks,
             groundtruth_keypoints]),
         (''random_rotation90'',
            [Some F_image, Some F_groundtruth_boxes, groundtruth_instance_masks,
             groundtruth_keypoints]),
         (''random_pixel_value_scale'', [Some F_image]),
         (''random_image_scale'', [Some F_image, groundtruth_instance_masks]),
         (''random_rgb_to_gray'', [Some F_image]),
         (''random_adjust_brightness'', [Some F_image]),
         (''random_adjust_contrast'', [Some F_image]),
         (''random_adjust_hue'', [Some F_image]),
         (''random_adjust_saturation'', [Some F_image]),
         (''random_distort_color'', [Some F_image]),
         (''random_jitter_boxes'', [Some F_groundtruth_boxes]),
         (''random_crop_image'',
            [Some F_image, Some F_groundtruth_boxes, Some F_groundtruth_classes,
             groundtruth_label_weights, groundtruth_label_confidences, multiclass_scores,
             groundtruth_instance_masks, groundtruth_keypoints]),
         (''random_pad_image'', [Some F_image, Some F_groundtruth_boxes]),
         (''random_crop_pad_image'',
            [Some F_image, Some F_groundtruth_boxes, Some F_groundtruth_classes,
             groundtruth_label_weights, groundtruth_label_confidences, multiclass_scores]),
         (''random_crop_to_aspect_ratio'',
            [Some F_image, Some F_groundtruth_boxes, Some F_groundtruth_classes,
             groundtruth_label_weights, groundtruth_label_confidences, multiclass_scores,
             groundtruth_instance_masks, groundtruth_keypoints]),
         (''random_pad_to_aspect_ratio'',
            [Some F_image, Some F_groundtruth_boxes, groundtruth_instance_masks,
             groundtruth_keypoints]),
         (''random_black_patches'', [Some F_image]),
         (''retain_boxes_above_threshold'',
            [Some F_groundtruth_boxes, Some F_groundtruth_classes, groundtruth_label_weights,
             groundtruth_label_confidences, multiclass_scores, groundtruth_instance_masks,
             groundtruth_keypoints]),
         (''image_to_float'', [Some F_image]),
         (''random_resize_method'', [Some F_image]),
         (''resize_to_range'', [Some F_image, groundtruth_instance_masks]),
         (''resize_to_min_dimension'', [Some F_image, groundtruth_instance_masks]),
         (''scale_boxes_to_pixel_coordinates'',
            [Some F_image, Some F_groundtruth_boxes, groundtruth_keypoints]),
         (''resize_image'', [Some F_image, groundtruth_instance_masks]),
         (''subtract_channel_mean'', [Some F_image]),
         (''one_hot_encoding'', [Some F_groundtruth_image_classes]),
         (''rgb_to_gray'', [Some F_image]),
         (''ssd_random_crop'',
            [Some F_image, Some F_groundtruth_boxes, Some F_groundtruth_classes,
             groundtruth_label_weights, groundtruth_label_confidences, multiclass_scores,
             groundtruth_instance_masks, groundtruth_keypoints]),
         (''ssd_random_crop_pad'',
            [Some F_image, Some F_groundtruth_boxes, Some F_groundtruth_classes,
             groundtruth_label_weights, groundtruth_label_confidences, multiclass_scores]),
         (''ssd_random_crop_fixed_aspect_ratio'',
            [Some F_image, Some F_groundtruth_boxes, Some F_groundtruth_classes,
             groundtruth_label_weights, groundtruth_label_confidences, multiclass_scores,
             groundtruth_instance_masks, groundtruth_keypoints]),
         (''ssd_random_crop_pad_fixed_aspect_ratio'',
            [Some F_image, Some F_groundtruth_boxes, Some F_groundtruth_classes,
             groundtruth_label_weights, groundtruth_label_confidences, multiclass_scores,
             groundtruth_instance_masks, groundtruth_keypoints]),
         (''convert_class_logits_to_softmax'', [multiclass_scores])])"

text \<open>
  \<open>tf.squeeze(images, axis=0)\<close> needs a first dimension of size one;
  \<open>tf.expand_dims(image, 0)\<close> adds one.
\<close>

definition squeeze_axis_0 :: "'a tensor \<Rightarrow> error + 'a tensor" where
  "squeeze_axis_0 t =
     (case t_shape t of
        d # ds \<Rightarrow>
          if d = 1 then Inr (t\<lparr>t_shape := ds\<rparr>)
          else Inl (ValueError ''Can not squeeze dim[0], expected a dimension of 1'')
      | [] \<Rightarrow> Inl (ValueError ''Can not squeeze dim[0] of a scalar''))"

definition expand_dims_0 :: "'a tensor \<Rightarrow> 'a tensor" where
  "expand_dims_0 t = t\<lparr>t_shape := 1 # t_shape t\<rparr>"

definition get_arg :: "'a tensor_dict \<Rightarrow> input_data_field option \<Rightarrow> 'a tensor option" where
  "get_arg tensor_dict key = (case key of None \<Rightarrow> None | Some k \<Rightarrow> tensor_dict k)"

text \<open>
  The call \<open>func(*args, **params)\<close>: the shared cache is put into the keyword arguments
  only when there is one and the signature of the function has the argument; a function
  that is not given the cache runs without one, and the shared cache stays as it is.
  The entry \<open>params['preprocess_vars_cache']\<close> stays in the dictionary of the option after
  the call. A later call that hands the same cache object writes the same entry again, so
  calls that share one cache are covered; a call with no cache after a call with one
  would still find the entry, and is not.
\<close>

definition call_func ::
  "('a, 'r) preprocess_fn \<Rightarrow> 'a tensor option list \<Rightarrow> kwargs \<Rightarrow> preprocessor_cache option
     \<Rightarrow> 'r \<Rightarrow> (error + 'a tensor list) \<times> preprocessor_cache option \<times> 'r" where
  "call_func func args params preprocess_vars_cache r =
     (if preprocess_vars_cache \<noteq> None \<and> fn_accepts_cache func
      then run (fn_call func args params) preprocess_vars_cache r
      else (let (results, unused, r') = run (fn_call func args params) None r
            in (results, preprocess_vars_cache, r')))"

text \<open>\<open>for res, arg_name in zip(results, arg_names): tensor_dict[arg_name] = res\<close>.\<close>

fun write_results ::
  "'a tensor_dict \<Rightarrow> ('a tensor \<times> input_data_field) list \<Rightarrow> 'a tensor_dict" where
  "write_results tensor_dict [] = tensor_dict"
| "write_results tensor_dict ((res, arg_name) # rest) =
     write_results (tensor_dict(arg_name \<mapsto> res)) rest"

text \<open>
  \<open>preprocess\<close> writes into the dictionary it is given and returns that dictionary. The
  outcome of a call is the exception it raised, if any, with the dictionary as the call
  left it: two calls on one dictionary object are two calls of which the second starts
  from the dictionary of the first outcome.
\<close>

type_synonym 'a outcome = "error option \<times> 'a tensor_dict"

text \<open>
  The loop over \<open>preprocess_options\<close>. In the source the message about a missing
  argument also names the argument.
\<close>

fun preprocess_loop ::
  "'a tensor_dict \<Rightarrow> (('a, 'r) preprocess_fn \<times> kwargs) list \<Rightarrow> func_arg_map
     \<Rightarrow> preprocessor_cache option \<Rightarrow> 'r
     \<Rightarrow> 'a outcome \<times> preprocessor_cache option \<times> 'r" where
  "preprocess_loop tensor_dict [] func_arg_map preprocess_vars_cache r =
     ((None, tensor_dict), preprocess_vars_cache, r)"
| "preprocess_loop tensor_dict ((func, params) # options) func_arg_map preprocess_vars_cache r =
     (case func_arg_map (fn_name func) of
        None \<Rightarrow>
          ((Some (ValueError (''The function '' @ fn_name func
                               @ '' does not exist in func_arg_map'')), tensor_dict),
           preprocess_vars_cache, r)
      | Some arg_names \<Rightarrow>
          (case filter (\<lambda>a. tensor_dict a = None)
                  (map the (filter (\<lambda>a. a \<noteq> None) arg_names)) of
             a # missing \<Rightarrow>
               ((Some (ValueError (''The function '' @ fn_name func
                                    @ '' requires an argument'')), tensor_dict),
                preprocess_vars_cache, r)
           | [] \<Rightarrow>
               (let args = map (get_arg tensor_dict) arg_names;
                    (results, cache', r') = call_func func args params preprocess_vars_cache r
                in case results of
                     Inl e \<Rightarrow> ((Some e, tensor_dict), cache', r')
                   | Inr results \<Rightarrow>
                       (let arg_names = map the (filter (\<lambda>a. a \<noteq> None) arg_names)
                        in preprocess_loop (write_results tensor_dict (zip results arg_names))
                             options func_arg_map cache' r'))))"

text \<open>
  \<open>preprocess\<close>. Without a \<open>func_arg_map\<close> the default one is used, with its default
  flags. The image is squeezed in the dictionary before the loop and expanded again after
  it; an exception leaves the dictionary as it is at that moment.
\<close>

definition preprocess ::
  "'a tensor_dict \<Rightarrow> (('a, 'r) preprocess_fn \<times> kwargs) list \<Rightarrow> func_arg_map option
     \<Rightarrow> preprocessor_cache option \<Rightarrow> 'r
     \<Rightarrow> 'a outcome \<times> preprocessor_cache option \<times> 'r" where
  "preprocess tensor_dict preprocess_options func_arg_map preprocess_vars_cache r =
     (let func_arg_map =
            (case func_arg_map of
               None \<Rightarrow> get_default_func_arg_map True False False False False
             | Some m \<Rightarrow> m);
          squeezed =
            (case tensor_dict F_image of
               None \<Rightarrow> Inr tensor_dict
             | Some images \<Rightarrow>
                 if length (t_shape images) \<noteq> 4
                 then Inl (ValueError ''images in tensor_dict should be rank 4'')
                 else bind_error (squeeze_axis_0 images)
                        (\<lambda>img. Inr (tensor_dict(F_image \<mapsto> img))))
      in case squeezed of
           Inl e \<Rightarrow> ((Some e, tensor_dict), preprocess_vars_cache, r)
         | Inr tensor_dict \<Rightarrow>
             (let ((exception, tensor_dict), cache', r') =
                    preprocess_loop tensor_dict preprocess_options func_arg_map
                      preprocess_vars_cache r
              in case exception of
                   Some e \<Rightarrow> ((Some e, tensor_dict), cache', r')
                 | None \<Rightarrow>
                     (case tensor_dict F_image of
                        None \<Rightarrow> ((None, tensor_dict), cache', r')
                      | Some img \<Rightarrow>
                          ((None, tensor_dict(F_image \<mapsto> expand_dims_0 img)), cache', r'))))"

text \<open>
  A program replays when, after a run with a cache, every run with a cache that extends
  the one it left returns the same result and leaves that cache as it is, whatever the
  state of the random source. A function is a cache-aware operation of \<open>preprocess\<close> when
  its calls replay, if \<open>preprocess\<close> hands it the cache, and draw nothing, if it does not.
\<close>

definition replayable :: "('a, 'r) prog \<Rightarrow> bool" where
  "replayable p =
     (\<forall>c r a c' r' d s.
        run p (Some c) r = (a, Some c', r') \<and> c' \<subseteq>\<^sub>m d
        \<longrightarrow> fst (run p (Some d) s) = a \<and> fst (snd (run p (Some d) s)) = Some d)"

definition cache_aware_fn :: "('a, 'r) preprocess_fn \<Rightarrow> bool" where
  "cache_aware_fn func =
     (\<forall>args params.
        if fn_accepts_cache func then replayable (fn_call func args params)
        else draws_nothing (fn_call func args params))"

section \<open>Operations at the interface of preprocess\<close>

text \<open>
  The operations take images, boxes, masks and keypoints; \<open>preprocess\<close> hands them
  tensors. \<open>unflatten k n\<close> cuts \<open>k\<close> rows of length \<open>n\<close> from row-major values.
\<close>

primrec unflatten :: "nat \<Rightarrow> nat \<Rightarrow> 'a list \<Rightarrow> 'a list list" where
  "unflatten 0 n xs = []"
| "unflatten (Suc k) n xs = take n xs # unflatten k n (drop n xs)"

definition rank3_of_tensor :: "'a tensor \<Rightarrow> error + 'a list list list" where
  "rank3_of_tensor t =
     (case t_shape t of
        [d0, d1, d2] \<Rightarrow>
          if length (t_values t) = d0 * d1 * d2
          then Inr (map (unflatten d1 d2) (unflatten d0 (d1 * d2) (t_values t)))
          else Inl (ValueError ''the values do not fill the shape'')
      | _ \<Rightarrow> Inl (ValueError ''a tensor of rank 3 is expected''))"

definition tensor_of_rank3 :: "nat list \<Rightarrow> 'a list list list \<Rightarrow> 'a tensor" where
  "tensor_of_rank3 shape x = \<lparr>t_shape = shape, t_values = concat (concat x)\<rparr>"

definition boxes_of_tensor :: "ieee tensor \<Rightarrow> error + box list" where
  "boxes_of_tensor t =
     (case t_shape t of
        [n, d] \<Rightarrow>
          if d = 4 \<and> length (t_values t) = n * 4
          then Inr (map (\<lambda>row. (row ! 0, row ! 1, row ! 2, row ! 3))
                      (unflatten n 4 (t_values t)))
          else Inl (ValueError ''boxes of shape [N, 4] are expected'')
      | _ \<Rightarrow> Inl (ValueError ''boxes of shape [N, 4] are expected''))"

definition tensor_of_boxes :: "nat list \<Rightarrow> box list \<Rightarrow> ieee tensor" where
  "tensor_of_boxes shape boxes =
     \<lparr>t_shape = shape,
      t_values = concat (map (\<lambda>(ymin, xmin, ymax, xmax). [ymin, xmin, ymax, xmax]) boxes)\<rparr>"

definition keypoints_of_tensor :: "ieee tensor \<Rightarrow> error + keypoints" where
  "keypoints_of_tensor t =
     (case t_shape t of
        [n, k, d] \<Rightarrow>
          if d = 2 \<and> length (t_values t) = n * k * 2
          then Inr (map (\<lambda>instance. map (\<lambda>point. (point ! 0, point ! 1))
                                        (unflatten k 2 instance))
                      (unflatten n (k * 2) (t_values t)))
          else Inl (ValueError ''keypoints of shape [N, K, 2] are expected'')
      | _ \<Rightarrow> Inl (ValueError ''keypoints of shape [N, K, 2] are expected''))"

definition tensor_of_keypoints :: "nat list \<Rightarrow> keypoints \<Rightarrow> ieee tensor" where
  "tensor_of_keypoints shape keypoints =
     \<lparr>t_shape = shape,
      t_values = concat (map (\<lambda>instance. concat (map (\<lambda>(y, x). [y, x]) instance)) keypoints)\<rparr>"

fun convert_optional :: "('t \<Rightarrow> error + 'x) \<Rightarrow> 't option \<Rightarrow> error + 'x option" where
  "convert_optional f None = Inr None"
| "convert_optional f (Some t) = bind_error (f t) (\<lambda>x. Inr (Some x))"

definition nth_arg :: "'t option list \<Rightarrow> nat \<Rightarrow> 't option" where
  "nth_arg args i = (if i < length args then args ! i else None)"

definition shape_of :: "'a tensor option \<Rightarrow> nat list" where
  "shape_of t = (case t of None \<Rightarrow> [] | Some x \<Rightarrow> t_shape x)"

text \<open>The keyword arguments \<open>seed\<close> and \<open>ratio\<close>, with their defaults.\<close>

definition kw_seed :: "kwargs \<Rightarrow> error + int option" where
  "kw_seed params =
     (case map_of params ''seed'' of
        None \<Rightarrow> Inr None
      | Some (Kw_int seed) \<Rightarrow> Inr (Some seed)
      | _ \<Rightarrow> Inl (TypeError ''seed is not an integer''))"

definition kw_ratio :: "kwargs \<Rightarrow> error + ieee" where
  "kw_ratio params =
     (case map_of params ''ratio'' of
        None \<Rightarrow> Inr (Fin (3602879701896397 / 2 ^ 56))
      | Some (Kw_float ratio) \<Rightarrow> Inr ratio
      | Some (Kw_int ratio) \<Rightarrow> Inr (Fin (of_int ratio))
      | _ \<Rightarrow> Inl (TypeError ''ratio is not a number''))"

text \<open>
  \<open>random_jitter_boxes(boxes, ratio=0.05, seed=None)\<close> as an option of \<open>preprocess\<close>: its
  signature has no \<open>preprocess_vars_cache\<close>. The default \<open>0.05\<close> is the double
  \<open>3602879701896397 / 2^56\<close>.
\<close>

definition random_jitter_boxes_fn ::
  "(ieee \<Rightarrow> int option \<Rightarrow> nat \<Rightarrow> 'r generator) \<Rightarrow> (ieee, 'r) preprocess_fn" where
  "random_jitter_boxes_fn random_uniform_box =
     \<lparr>fn_name = ''random_jitter_boxes'',
      fn_accepts_cache = False,
      fn_call =
        (\<lambda>args params.
           if \<not> list_all (\<lambda>(k, v). k \<in> {''ratio'', ''seed''}) params
           then Return (Inl (TypeError ''unexpected keyword argument''))
           else case args of
                  [Some boxes_tensor] \<Rightarrow>
                    (case bind_error (kw_ratio params) (\<lambda>ratio.
                          bind_error (kw_seed params) (\<lambda>seed.
                          bind_error (boxes_of_tensor boxes_tensor) (\<lambda>boxes.
                            Inr (ratio, seed, boxes)))) of
                       Inl e \<Rightarrow> Return (Inl e)
                     | Inr (ratio, seed, boxes) \<Rightarrow>
                         and_then (random_jitter_boxes random_uniform_box boxes ratio seed)
                           (\<lambda>result. Return (bind_error result (\<lambda>distorted_boxes.
                              Inr [tensor_of_boxes (t_shape boxes_tensor) distorted_boxes]))))
                | _ \<Rightarrow> Return (Inl (TypeError ''random_jitter_boxes: bad arguments'')))\<rparr>"

text \<open>
  \<open>random_horizontal_flip(image, boxes=None, masks=None, keypoints=None,
  keypoint_flip_permutation=None, seed=None, preprocess_vars_cache=None)\<close> as an option of
  \<open>preprocess\<close>: the tensors are the positional arguments, the permutation and the seed
  are keyword arguments. \<open>random_uniform_scalar seed\<close> is the generator
  \<open>functools.partial(tf.random_uniform, [], seed=seed)\<close>.
\<close>

definition random_horizontal_flip_fn ::
  "(int option \<Rightarrow> 'r generator) \<Rightarrow> (keypoints \<Rightarrow> ieee \<Rightarrow> int list \<Rightarrow> keypoints)
     \<Rightarrow> (ieee, 'r) preprocess_fn" where
  "random_horizontal_flip_fn random_uniform_scalar flip_horizontal =
     \<lparr>fn_name = ''random_horizontal_flip'',
      fn_accepts_cache = True,
      fn_call =
        (\<lambda>args params.
           if \<not> list_all (\<lambda>(k, v). k \<in> {''keypoint_flip_permutation'', ''seed''}) params
              \<or> 4 < length args
           then Return (Inl (TypeError ''random_horizontal_flip: bad arguments''))
           else
             case (nth_arg args 0, map_of params ''keypoint_flip_permutation'') of
               (None, p) \<Rightarrow> Return (Inl (ValueError ''image is None''))
             | (Some image_tensor, Some (Kw_float x)) \<Rightarrow>
                 Return (Inl (TypeError ''the permutation is not a list of integers''))
             | (Some image_tensor, Some (Kw_int x)) \<Rightarrow>
                 Return (Inl (TypeError ''the permutation is not a list of integers''))
             | (Some image_tensor, p) \<Rightarrow>
                 (case bind_error (kw_seed params) (\<lambda>seed.
                       bind_error (rank3_of_tensor image_tensor) (\<lambda>img.
                       bind_error (convert_optional boxes_of_tensor (nth_arg args 1)) (\<lambda>boxes.
                       bind_error (convert_optional rank3_of_tensor (nth_arg args 2)) (\<lambda>masks.
                       bind_error (convert_optional keypoints_of_tensor (nth_arg args 3))
                         (\<lambda>keypoints. Inr (seed, img, boxes, masks, keypoints)))))) of
                    Inl e \<Rightarrow> Return (Inl e)
                  | Inr (seed, img, boxes, masks, keypoints) \<Rightarrow>
                      and_then
                        (random_horizontal_flip (random_uniform_scalar seed) flip_horizontal
                           img boxes masks keypoints
                           (case p of Some (Kw_int_list permutation) \<Rightarrow> Some permutation
                            | _ \<Rightarrow> None))
                        (\<lambda>result. Return (bind_error result
                           (\<lambda>(img, boxes, masks, keypoints).
                              Inr ([tensor_of_rank3 (t_shape image_tensor) img]
                                   @ (case boxes of None \<Rightarrow> []
                                      | Some b \<Rightarrow>
                                          [tensor_of_boxes (shape_of (nth_arg args 1)) b])
                                   @ (case masks of None \<Rightarrow> []
                                      | Some m \<Rightarrow>
                                          [tensor_of_rank3 (shape_of (nth_arg args 2)) m])
                                   @ (case keypoints of None \<Rightarrow> []
                                      | Some k \<Rightarrow>
                                          [tensor_of_keypoints (shape_of (nth_arg args 3))
                                             k])))))))\<rparr>"

section \<open>Well-typed caches and generators\<close>

text \<open>
  The cache is one dictionary for variables of every kind. The crops store a scalar float
  under \<open>CROP_IMAGE\<close> and a sampled box under \<open>STRICT_CROP_IMAGE\<close>, which is what the
  generators of the tensor library return for them; a cache and generators of this form
  are well-typed. A result is \<open>runtime_only\<close> when it is a value or an error of the tensor
  library, and not an exception of Python.
\<close>

definition well_typed_cache :: "preprocessor_cache \<Rightarrow> bool" where
  "well_typed_cache c =
     (\<forall>key var.
        (cache_get c CROP_IMAGE key = Some var \<longrightarrow> (\<exists>u. var = Rand_float u))
        \<and> (cache_get c STRICT_CROP_IMAGE key = Some var \<longrightarrow>
             (\<exists>im_box_begin im_box_size im_box.
                var = Rand_bbox im_box_begin im_box_size im_box)))"

definition well_typed_externals :: "'r externals \<Rightarrow> bool" where
  "well_typed_externals env =
     ((\<forall>r. \<exists>u. fst (random_uniform env r) = Rand_float u)
      \<and> (\<forall>image_shape boxes min_object_covered aspect_ratio_range area_range r.
           \<exists>im_box_begin im_box_size im_box.
             fst (sample_distorted_bounding_box env image_shape boxes min_object_covered
                    aspect_ratio_range area_range r)
             = Rand_bbox im_box_begin im_box_size im_box))"

definition runtime_only :: "error + 'a \<Rightarrow> bool" where
  "runtime_only x = (\<forall>e. x = Inl e \<longrightarrow> \<not> python_exception e)"

section \<open>A concrete setting\<close>

text \<open>
  A setting in which the operations can be evaluated. The random source is a counter; the
  box sampler always returns the top-left pixel of the image as the window
  \<open>[0, 0, 0.5, 0.5]\<close>, the uniform generator returns \<open>0.75\<close> and the selector generator
  \<open>0\<close>. A box is outside a window when it ends before the window begins or begins after it
  ends; a box overlaps a window enough when it ends within the height of the window, or
  when no more than half an overlap is asked for; the coordinate maps are the identity.
\<close>

definition example_externals :: "nat externals" where
  "example_externals =
     \<lparr>sample_distorted_bounding_box =
        (\<lambda>image_shape boxes min_object_covered aspect_ratio_range area_range n.
           (Rand_bbox (0, 0, 0) (1, 1, -1) (Fin 0, Fin 0, Fin (1 / 2), Fin (1 / 2)), Suc n)),
      random_uniform = (\<lambda>n. (Rand_float (Fin (3 / 4)), Suc n)),
      random_uniform_int = (\<lambda>maxval n. (Rand_int 0, Suc n)),
      completely_outside_window =
        (\<lambda>(ymin, xmin, ymax, xmax) (win_ymin, win_xmin, win_ymax, win_xmax).
           \<not> flt ymin win_ymax \<or> \<not> flt xmin win_xmax
           \<or> \<not> flt win_ymin ymax \<or> \<not> flt win_xmin xmax),
      overlaps_window =
        (\<lambda>(ymin, xmin, ymax, xmax) (win_ymin, win_xmin, win_ymax, win_xmax) min_overlap.
           \<not> flt win_ymax ymax \<or> \<not> flt (Fin (1 / 2)) min_overlap),
      box_change_coordinate_frame = (\<lambda>b window. b),
      keypoints_change_coordinate_frame = (\<lambda>kp window. kp),
      keypoints_prune_outside_window = (\<lambda>kp window. kp)\<rparr>"

definition example_image :: image where
  "example_image = [[[Fin 1], [Fin 2]], [[Fin 3], [Fin 4]]]"

definition example_boxes :: "box list" where
  "example_boxes =
     [(Fin (1 / 2), Fin (1 / 2), Fin 1, Fin 1),
      (Fin 0, Fin 0, Fin (1 / 4), Fin (1 / 4)),
      (Fin (3 / 4), Fin 0, Fin 1, Fin (1 / 4)),
      (Fin (1 / 4), Fin (1 / 4), Fin (3 / 4), Fin (3 / 4))]"

definition example_masks :: masks where
  "example_masks =
     [[[Fin 0, Fin 0], [Fin 0, Fin 1]],
      [[Fin 1, Fin 0], [Fin 0, Fin 0]],
      [[Fin 0, Fin 0], [Fin 1, Fin 0]],
      [[Fin 1, Fin 1], [Fin 1, Fin 1]]]"

definition example_keypoints :: keypoints where
  "example_keypoints =
     [[(Fin (3 / 4), Fin (3 / 4))], [(Fin 0, Fin (1 / 4))], [(NaN, NaN)],
      [(Fin (1 / 2), Fin (1 / 2))]]"


text \<open>
  For \<open>preprocess\<close>: a batch of one image of two pixels with one box, a horizontal flip
  with the generators of the setting, and a jitter whose generator returns numbers within
  the ratio that depend on the state of the random source: \<open>0.125\<close> at an odd state when
  the ratio allows it, and \<open>0\<close> otherwise. The jitter is used with the ratio \<open>0.25\<close>.
\<close>

definition image_and_boxes :: "ieee list \<Rightarrow> ieee list \<Rightarrow> ieee tensor_dict" where
  "image_and_boxes pixels coordinates =
     [F_image \<mapsto> \<lparr>t_shape = [1, 1, 2, 1], t_values = pixels\<rparr>,
      F_groundtruth_boxes \<mapsto> \<lparr>t_shape = [1, 4], t_values = coordinates\<rparr>]"

definition example_tensor_dict :: "ieee tensor_dict" where
  "example_tensor_dict =
     image_and_boxes [Fin 100, Fin 50] [Fin 0, Fin 0, Fin (1 / 2), Fin (1 / 2)]"


definition unbatched_tensor_dict :: "ieee tensor_dict" where
  "unbatched_tensor_dict =
     [F_image \<mapsto> \<lparr>t_shape = [1, 2, 1], t_values = [Fin 100, Fin 50]\<rparr>,
      F_groundtruth_boxes \<mapsto>
        \<lparr>t_shape = [1, 4], t_values = [Fin 0, Fin 0, Fin (1 / 2), Fin (1 / 2)]\<rparr>]"

definition example_uniform_box :: "ieee \<Rightarrow> int option \<Rightarrow> nat \<Rightarrow> nat generator" where
  "example_uniform_box ratio seed n s =
     (Rand_floats
        (replicate (4 * n) (if odd s \<and> flt (Fin (1 / 8)) ratio then Fin (1 / 8) else Fin 0)),
      Suc s)"

definition example_flip_fn :: "(ieee, nat) preprocess_fn" where
  "example_flip_fn =
     random_horizontal_flip_fn (\<lambda>seed. random_uniform example_externals)
       (\<lambda>keypoints center permutation. keypoints)"

definition example_jitter_fn :: "(ieee, nat) preprocess_fn" where
  "example_jitter_fn = random_jitter_boxes_fn example_uniform_box"

definition example_jitter_params :: kwargs where
  "example_jitter_params = [(''ratio'', Kw_float (Fin (1 / 4)))]"

definition flip_cache :: preprocessor_cache where
  "flip_cache = [(HORIZONTAL_FLIP, Key_str '''') \<mapsto> Rand_float (Fin (3 / 4))]"

section \<open>Rounding: evaluation\<close>

text \<open>
  The search of \<open>binade\<close> finds the binade of a value that has one, so \<open>round32\<close> can be
  evaluated by naming the exponent.
\<close>

lemma pow2_power_int: "pow2 e = power_int 2 e"
  by (simp add: pow2_def power_int_def field_simps)

lemma pow2_pos: "0 < pow2 e"
  by (simp add: pow2_def)

lemma pow2_less_imp: "pow2 a < pow2 b \<Longrightarrow> a < b"
proof (rule ccontr)
  assume "pow2 a < pow2 b" and "\<not> a < b"
  then have "power_int (2::rat) b \<le> power_int 2 a"
    by (intro power_int_increasing) simp_all
  with \<open>pow2 a < pow2 b\<close> show False
    by (simp add: pow2_power_int)
qed

lemma floor_rat_numeral: "\<lfloor>numeral a / numeral b :: rat\<rfloor> = numeral a div numeral b"
  using floor_divide_of_int_eq [of "numeral a" "numeral b", where ?'a = rat] by simp

lemma binade_found:
  "pow2 e \<le> a \<Longrightarrow> a < pow2 (e + 1) \<Longrightarrow> e \<le> E \<Longrightarrow> E - int n \<le> e \<Longrightarrow> binade n E a = e"
proof (induction n arbitrary: E)
  case 0
  then show ?case by simp
next
  case (Suc n)
  show ?case
  proof (cases "pow2 E \<le> a")
    case True
    with Suc.prems(2) have "pow2 E < pow2 (e + 1)" by simp
    then have "E < e + 1" by (rule pow2_less_imp)
    with Suc.prems(3) True show ?thesis by simp
  next
    case False
    with Suc.prems(1) have "pow2 e < pow2 E" by simp
    then have "e < E" by (rule pow2_less_imp)
    with Suc.prems False Suc.IH [of "E - 1"] show ?thesis by simp
  qed
qed

lemma round32_normal:
  assumes "- 126 \<le> e" "e \<le> 127" "pow2 e \<le> \<bar>x\<bar>" "\<bar>x\<bar> < pow2 (e + 1)"
  shows "round32 x =
           (let q = pow2 (e - 23); y = of_int (round_half_even (\<bar>x\<bar> / q)) * q
            in if pow2 128 \<le> y then (if 0 < x then PInf else NInf)
               else Fin (if 0 < x then y else - y))"
proof -
  have b: "binade 253 127 \<bar>x\<bar> = e"
    using assms by (intro binade_found) simp_all
  have "x \<noteq> 0"
    using assms(3) pow2_pos [of e] by auto
  then show ?thesis
    unfolding round32_def Let_def b by simp
qed

lemma round32_quarter: "round32 (1 / 4) = Fin (1 / 4)"
  by (simp add: round32_normal [where e = "- 2"] pow2_def round_half_even_def Let_def floor_rat_numeral)
lemma round32_three_quarters: "round32 (3 / 4) = Fin (3 / 4)"
  by (simp add: round32_normal [where e = "- 1"] pow2_def round_half_even_def Let_def floor_rat_numeral)
lemma round32_one: "round32 1 = Fin 1"
  by (simp add: round32_normal [where e = 0] pow2_def round_half_even_def Let_def floor_rat_numeral)
lemma round32_tiny: "round32 (1 / 2 ^ 30) = Fin (1 / 2 ^ 30)"
  by (simp add: round32_normal [where e = "- 30"] pow2_def round_half_even_def Let_def floor_rat_numeral)
lemma round32_below_one: "round32 (1 - 1 / 2 ^ 30) = Fin 1"
  by (simp add: round32_normal [where e = "- 1"] pow2_def round_half_even_def Let_def floor_rat_numeral)
lemma round32_half: "round32 (1 / 2) = Fin (1 / 2)"
  by (simp add: round32_normal [where e = "- 1"] pow2_def round_half_even_def Let_def floor_rat_numeral)

lemma pow2_mono: "a \<le> b \<Longrightarrow> pow2 a \<le> pow2 b"
  unfolding pow2_power_int by (intro power_int_increasing) simp_all

lemma binade_bottom: "a < pow2 (E - int n + 1) \<Longrightarrow> binade n E a = E - int n"
proof (induction n arbitrary: E)
  case 0
  then show ?case by simp
next
  case (Suc n)
  have "pow2 (E - int (Suc n) + 1) \<le> pow2 E"
    by (rule pow2_mono) simp
  with Suc.prems have "\<not> pow2 E \<le> a"
    by simp
  moreover have "binade n (E - 1) a = E - 1 - int n"
    using Suc.prems by (intro Suc.IH) (simp add: algebra_simps)
  ultimately show ?case
    by simp
qed

lemma round32_subnormal:
  assumes "x \<noteq> 0" "\<bar>x\<bar> < pow2 (- 126)"
  shows "round32 x =
           (let q = pow2 (- 149); y = of_int (round_half_even (\<bar>x\<bar> / q)) * q
            in if pow2 128 \<le> y then (if 0 < x then PInf else NInf)
               else Fin (if 0 < x then y else - y))"
proof -
  have "\<bar>x\<bar> < pow2 (- 125)"
    using assms(2) pow2_mono [of "- 126" "- 125"] by simp
  then have b: "binade 253 127 \<bar>x\<bar> = - 126"
    using binade_bottom [of "\<bar>x\<bar>" 127 253] by simp
  show ?thesis
    unfolding round32_def Let_def b using assms(1) by simp
qed

lemma round32_zero: "round32 0 = Fin 0"
  by (simp add: round32_def)
lemma round32_sixteenth: "round32 (1 / 16) = Fin (1 / 16)"
  by (simp add: round32_normal [where e = "- 4"] pow2_def round_half_even_def Let_def floor_rat_numeral)
lemma round32_nine_sixteenths: "round32 (9 / 16) = Fin (9 / 16)"
  by (simp add: round32_normal [where e = "- 1"] pow2_def round_half_even_def Let_def floor_rat_numeral)
lemma round32_seventeen_sixteenths: "round32 (17 / 16) = Fin (17 / 16)"
  by (simp add: round32_normal [where e = 0] pow2_def round_half_even_def Let_def floor_rat_numeral)
lemma round32_tenth: "round32 (1 / 10) = Fin (13421773 / 2 ^ 27)"
  by (simp add: round32_normal [where e = "- 4"] pow2_def round_half_even_def Let_def floor_rat_numeral)
lemma round32_double_tenth: "round32 (3602879701896397 / 2 ^ 55) = Fin (13421773 / 2 ^ 27)"
  by (simp add: round32_normal [where e = "- 4"] pow2_def round_half_even_def Let_def floor_rat_numeral)
lemma round32_float_tenth: "round32 (13421773 / 2 ^ 27) = Fin (13421773 / 2 ^ 27)"
  by (simp add: round32_normal [where e = "- 4"] pow2_def round_half_even_def Let_def floor_rat_numeral)
lemma round32_least: "round32 (1 / 2 ^ 149) = Fin (1 / 2 ^ 149)"
  by (simp add: round32_subnormal pow2_def round_half_even_def Let_def floor_rat_numeral)
lemma round32_least_normal: "round32 (1 / 2 ^ 126) = Fin (1 / 2 ^ 126)"
  by (simp add: round32_normal [where e = "- 126"] pow2_def round_half_even_def Let_def floor_rat_numeral)

lemma tf_greater_half: "tf_greater u (Fin (1 / 2)) = fgt u (Fin (1 / 2))"
  by (cases u) (auto simp: tf_greater_def flush_denormal_def fgt_def pow2_def)

lemma flush_denormal_idem: "flush_denormal (flush_denormal v) = flush_denormal v"
  by (cases v) (simp_all add: flush_denormal_def pow2_def)

section \<open>The get-or-create contract\<close>

text \<open>
  C2. With no cache the generator is always invoked. With a cache, a present entry is
  returned unchanged, without a draw and without an update; an absent entry is generated,
  stored under \<open>(function_id, key)\<close> and returned. Hence whatever the first access
  returned, a second access with the resulting cache and the same identifier and key
  returns the same variable, whatever its generator and random state, and changes nothing.
\<close>

theorem get_or_create_contract:
  "get_or_create_preprocess_rand_vars g f None k r = (fst (g r), None, snd (g r))
   \<and> (cache_get c f k = Some v \<longrightarrow>
        get_or_create_preprocess_rand_vars g f (Some c) k r = (v, Some c, r))
   \<and> (cache_get c f k = None \<longrightarrow>
        get_or_create_preprocess_rand_vars g f (Some c) k r =
          (fst (g r), Some (cache_update c f k (fst (g r))), snd (g r)))
   \<and> (get_or_create_preprocess_rand_vars g f (Some c) k r = (w, cache', r') \<longrightarrow>
        get_or_create_preprocess_rand_vars h f cache' k s = (w, cache', s))"
  by (auto simp: get_or_create_preprocess_rand_vars_def cache_get_def cache_update_def
           split: option.splits prod.splits)

theorem get_or_create_contract_witness:
  "cache_get Map.empty HORIZONTAL_FLIP (Key_str '''') = None
   \<and> get_or_create_preprocess_rand_vars
        (\<lambda>n::nat. (Rand_float (Fin (1 / 4)), Suc n)) HORIZONTAL_FLIP (Some Map.empty)
        (Key_str '''') 0
      = (Rand_float (Fin (1 / 4)),
         Some (cache_update Map.empty HORIZONTAL_FLIP (Key_str '''') (Rand_float (Fin (1 / 4)))),
         Suc 0)
   \<and> get_or_create_preprocess_rand_vars
        (\<lambda>n::nat. (Rand_float (Fin (3 / 4)), Suc n)) HORIZONTAL_FLIP
        (Some (cache_update Map.empty HORIZONTAL_FLIP (Key_str '''') (Rand_float (Fin (1 / 4)))))
        (Key_str '''') 7
      = (Rand_float (Fin (1 / 4)),
         Some (cache_update Map.empty HORIZONTAL_FLIP (Key_str '''') (Rand_float (Fin (1 / 4)))),
         7)"
proof -
  let ?g = "\<lambda>n::nat. (Rand_float (Fin (1 / 4)), Suc n)"
  let ?h = "\<lambda>n::nat. (Rand_float (Fin (3 / 4)), Suc n)"
  have absent: "cache_get Map.empty HORIZONTAL_FLIP (Key_str '''') = None"
    by (simp add: cache_get_def)
  note c = get_or_create_contract
    [where g = ?g and f = HORIZONTAL_FLIP and k = "Key_str ''''" and c = Map.empty
       and r = 0 and h = ?h and s = 7
       and w = "Rand_float (Fin (1 / 4))"
       and cache' = "Some (cache_update Map.empty HORIZONTAL_FLIP (Key_str '''')
                             (Rand_float (Fin (1 / 4))))"
       and r' = "Suc 0"]
  from c absent have first:
    "get_or_create_preprocess_rand_vars ?g HORIZONTAL_FLIP (Some Map.empty) (Key_str '''') 0
     = (Rand_float (Fin (1 / 4)),
        Some (cache_update Map.empty HORIZONTAL_FLIP (Key_str '''') (Rand_float (Fin (1 / 4)))),
        Suc 0)"
    by simp
  with c absent show ?thesis by simp
qed

section \<open>Flips: properties\<close>

lemma flip_boxes_left_right_rows:
  "flip_boxes_left_right boxes =
     map (\<lambda>(ymin, xmin, ymax, xmax). (ymin, fsub (Fin 1) xmax, ymax, fsub (Fin 1) xmin)) boxes"
  by (induction boxes)
     (auto simp: flip_boxes_left_right_def split_boxes_def concat_boxes_def)

lemma flip_boxes_left_right_twice:
  "flip_boxes_left_right (flip_boxes_left_right boxes) =
     map (\<lambda>(ymin, xmin, ymax, xmax).
            (ymin, fsub (Fin 1) (fsub (Fin 1) xmin), ymax, fsub (Fin 1) (fsub (Fin 1) xmax)))
       boxes"
  by (simp add: flip_boxes_left_right_rows comp_def case_prod_beta)

lemma map_eq_self_iff: "map f xs = xs \<longleftrightarrow> (\<forall>x\<in>set xs. f x = x)"
  by (induction xs) auto

lemma flip_left_right_twice: "flip_left_right (flip_left_right img) = img"
  by (simp add: flip_left_right_def comp_def)

lemma flip_masks_left_right_twice: "flip_masks_left_right (flip_masks_left_right m) = m"
  by (simp add: flip_masks_left_right_def comp_def)

lemma exact_complement_involutive:
  "round32 a = Fin a \<Longrightarrow> round32 (1 - a) = Fin (1 - a)
     \<Longrightarrow> fsub (Fin 1) (fsub (Fin 1) (Fin a)) = Fin a"
  by simp

text \<open>
  C4, as stated, fails: the box \<open>[0, 2^-30, 1, 1]\<close> holds \<open>float32\<close> values, its \<open>xmin\<close>
  flips to \<open>1 - 2^-30\<close>, which rounds to \<open>1\<close>, and flips back to \<open>0\<close>.
\<close>

theorem horizontal_flip_twice_counterexample: 
  "to_float32 (Fin (1 / 2 ^ 30)) = Fin (1 / 2 ^ 30)
   \<and> flip_boxes_left_right (flip_boxes_left_right [(Fin 0, Fin (1 / 2 ^ 30), Fin 1, Fin 1)])
       \<noteq> [(Fin 0, Fin (1 / 2 ^ 30), Fin 1, Fin 1)]"
  using round32_tiny round32_below_one round32_one
  by (simp add: flip_boxes_left_right_def split_boxes_def concat_boxes_def round32_def)

lemma run_cached_hit:
  "cache_get c f k = Some v \<Longrightarrow> run (Cached g f k cont) (Some c) r = run (cont v) (Some c) r"
  by (simp add: get_or_create_preprocess_rand_vars_def)

lemma run_and_then:
  "run (and_then p f) cache r = (case run p cache r of (a, cache', r') \<Rightarrow> run (f a) cache' r')"
  by (induction p arbitrary: cache r) (auto split: prod.splits)

lemma get_or_create_hit:
  "cache_get c f k = Some v \<Longrightarrow>
     get_or_create_preprocess_rand_vars g f (Some c) k r = (v, Some c, r)"
  by (simp add: get_or_create_preprocess_rand_vars_def)

lemma run_random_horizontal_flip_forced:
  assumes "cache_get c HORIZONTAL_FLIP (Key_str []) = Some (Rand_float u)"
    and "fgt u (Fin (1 / 2))"
    and "keypoints \<noteq> None \<longrightarrow> perm \<noteq> None"
  shows "run (random_horizontal_flip g fh img boxes masks keypoints perm) (Some c) r
         = (Inr (flip_left_right img,
                 map_option flip_boxes_left_right boxes,
                 map_option flip_masks_left_right masks,
                 (case perm of None \<Rightarrow> None
                  | Some p \<Rightarrow> map_option (\<lambda>k. fh k (Fin (1 / 2)) p) keypoints)),
            Some c, r)"
  using assms
  by (cases keypoints; cases perm)
     (simp_all add: random_horizontal_flip_def get_or_create_hit)

lemma horizontal_flip_forced_twice:
  assumes "cache_get c HORIZONTAL_FLIP (Key_str []) = Some (Rand_float u)"
    and "fgt u (Fin (1 / 2))"
    and "keypoints \<noteq> None \<longrightarrow> perm \<noteq> None"
  shows "run (and_then (random_horizontal_flip g fh img boxes masks keypoints perm)
                (flip_again (random_horizontal_flip g fh) perm)) (Some c) r
         = (Inr (img,
                 map_option (\<lambda>b. flip_boxes_left_right (flip_boxes_left_right b)) boxes,
                 masks,
                 (case perm of None \<Rightarrow> None
                  | Some p \<Rightarrow> map_option (\<lambda>k. fh (fh k (Fin (1 / 2)) p) (Fin (1 / 2)) p) keypoints)),
            Some c, r)"
proof -
  let ?kp = "case perm of None \<Rightarrow> None
             | Some p \<Rightarrow> map_option (\<lambda>k. fh k (Fin (1 / 2)) p) keypoints"
  have ok: "?kp \<noteq> None \<longrightarrow> perm \<noteq> None"
    by (cases perm) simp_all
  have second:
    "run (random_horizontal_flip g fh (flip_left_right img)
            (map_option flip_boxes_left_right boxes) (map_option flip_masks_left_right masks)
            ?kp perm) (Some c) r
     = (Inr (flip_left_right (flip_left_right img),
             map_option flip_boxes_left_right (map_option flip_boxes_left_right boxes),
             map_option flip_masks_left_right (map_option flip_masks_left_right masks),
             (case perm of None \<Rightarrow> None
              | Some p \<Rightarrow> map_option (\<lambda>k. fh k (Fin (1 / 2)) p) ?kp)),
        Some c, r)"
    by (rule run_random_horizontal_flip_forced [OF assms(1) assms(2) ok])
  have first:
    "run (random_horizontal_flip g fh img boxes masks keypoints perm) (Some c) r
     = (Inr (flip_left_right img, map_option flip_boxes_left_right boxes,
             map_option flip_masks_left_right masks, ?kp), Some c, r)"
    by (rule run_random_horizontal_flip_forced [OF assms])
  have "run (and_then (random_horizontal_flip g fh img boxes masks keypoints perm)
               (flip_again (random_horizontal_flip g fh) perm)) (Some c) r
        = run (random_horizontal_flip g fh (flip_left_right img)
                 (map_option flip_boxes_left_right boxes)
                 (map_option flip_masks_left_right masks) ?kp perm) (Some c) r"
    by (simp add: run_and_then first flip_again_def)
  also note second
  finally show ?thesis
    by (cases perm)
       (simp_all add: flip_left_right_twice flip_masks_left_right_twice
          option.map_comp comp_def option.map_ident)
qed


lemma flip_boxes_left_right_twice_iff:
  "flip_boxes_left_right (flip_boxes_left_right boxes) = boxes \<longleftrightarrow>
     (\<forall>(ymin, xmin, ymax, xmax) \<in> set boxes.
        fsub (Fin 1) (fsub (Fin 1) xmin) = xmin \<and> fsub (Fin 1) (fsub (Fin 1) xmax) = xmax)"
  unfolding flip_boxes_left_right_twice map_eq_self_iff by auto

text \<open>
  C4, amended. The horizontal flip maps every row \<open>[ymin, xmin, ymax, xmax]\<close> to
  \<open>[ymin, 1 - xmax, ymax, 1 - xmin]\<close>, the subtraction being that of \<open>float32\<close>, and leaves
  the y-coordinates unchanged. Two flips return the original boxes exactly if and only if
  \<open>1 - (1 - x) = x\<close> holds in \<open>float32\<close> for every x-coordinate, which is the case whenever
  \<open>x\<close> is a finite \<open>float32\<close> and \<open>1 - x\<close> is one too. \<open>random_horizontal_flip\<close> applied
  twice, the cached draw forcing the flip both times, returns the image and the masks
  exactly, the boxes flipped twice, and the keypoints flipped twice by \<open>keypoint_ops\<close>.
\<close>

theorem horizontal_flip_round_trip:
  "flip_boxes_left_right boxes =
     map (\<lambda>(ymin, xmin, ymax, xmax). (ymin, fsub (Fin 1) xmax, ymax, fsub (Fin 1) xmin)) boxes
   \<and> (flip_boxes_left_right (flip_boxes_left_right boxes) = boxes \<longleftrightarrow>
        (\<forall>(ymin, xmin, ymax, xmax) \<in> set boxes.
           fsub (Fin 1) (fsub (Fin 1) xmin) = xmin \<and> fsub (Fin 1) (fsub (Fin 1) xmax) = xmax))
   \<and> (round32 a = Fin a \<and> round32 (1 - a) = Fin (1 - a) \<longrightarrow>
        fsub (Fin 1) (fsub (Fin 1) (Fin a)) = Fin a)
   \<and> (cache_get c HORIZONTAL_FLIP (Key_str []) = Some (Rand_float u) \<and> fgt u (Fin (1 / 2))
        \<and> (keypoints \<noteq> None \<longrightarrow> perm \<noteq> None) \<longrightarrow>
        run (and_then (random_horizontal_flip g fh img (Some boxes) masks keypoints perm)
               (flip_again (random_horizontal_flip g fh) perm)) (Some c) r
        = (Inr (img, Some (flip_boxes_left_right (flip_boxes_left_right boxes)), masks,
                (case perm of None \<Rightarrow> None
                 | Some p \<Rightarrow>
                     map_option (\<lambda>k. fh (fh k (Fin (1 / 2)) p) (Fin (1 / 2)) p) keypoints)),
           Some c, r))"
  using flip_boxes_left_right_rows [of boxes] flip_boxes_left_right_twice_iff [of boxes]
    exact_complement_involutive [of a]
    horizontal_flip_forced_twice [of c u keypoints perm g fh img "Some boxes" masks r]
  by simp

theorem horizontal_flip_round_trip_witness:
  "cache_get [(HORIZONTAL_FLIP, Key_str []) \<mapsto> Rand_float (Fin (3 / 4))] HORIZONTAL_FLIP
      (Key_str []) = Some (Rand_float (Fin (3 / 4)))
   \<and> fgt (Fin (3 / 4)) (Fin (1 / 2))
   \<and> round32 (1 / 4) = Fin (1 / 4) \<and> round32 (1 - 1 / 4) = Fin (1 - 1 / 4)
   \<and> round32 (3 / 4) = Fin (3 / 4) \<and> round32 (1 - 3 / 4) = Fin (1 - 3 / 4)
   \<and> flip_boxes_left_right [(Fin (1 / 4), Fin (1 / 4), Fin (3 / 4), Fin (3 / 4))]
       = [(Fin (1 / 4), Fin (1 / 4), Fin (3 / 4), Fin (3 / 4))]
   \<and> run (and_then
            (random_horizontal_flip (\<lambda>n::nat. (Rand_float (Fin 0), Suc n)) (\<lambda>k t p. k)
               [[[Fin 100], [Fin 50]]]
               (Some [(Fin (1 / 4), Fin (1 / 4), Fin (3 / 4), Fin (3 / 4))]) None None None)
            (flip_again
               (random_horizontal_flip (\<lambda>n::nat. (Rand_float (Fin 0), Suc n)) (\<lambda>k t p. k))
               None))
        (Some [(HORIZONTAL_FLIP, Key_str []) \<mapsto> Rand_float (Fin (3 / 4))]) 0
      = (Inr ([[[Fin 100], [Fin 50]]],
              Some [(Fin (1 / 4), Fin (1 / 4), Fin (3 / 4), Fin (3 / 4))], None, None),
         Some [(HORIZONTAL_FLIP, Key_str []) \<mapsto> Rand_float (Fin (3 / 4))], 0)"
proof -
  let ?c = "[(HORIZONTAL_FLIP, Key_str []) \<mapsto> Rand_float (Fin (3 / 4))]"
  let ?b = "[(Fin (1 / 4), Fin (1 / 4), Fin (3 / 4), Fin (3 / 4))]"
  have hit: "cache_get ?c HORIZONTAL_FLIP (Key_str []) = Some (Rand_float (Fin (3 / 4)))"
    by (simp add: cache_get_def)
  have gt: "fgt (Fin (3 / 4)) (Fin (1 / 2))"
    by (simp add: fgt_def)
  have q: "round32 (1 / 4) = Fin (1 / 4)" "round32 (3 / 4) = Fin (3 / 4)"
    by (rule round32_quarter, rule round32_three_quarters)
  note t1 = horizontal_flip_round_trip
    [where boxes = ?b and a = "1 / 4" and c = ?c and u = "Fin (3 / 4)"
       and keypoints = None and perm = None
       and g = "\<lambda>n::nat. (Rand_float (Fin 0), Suc n)" and fh = "\<lambda>k t p. k"
       and img = "[[[Fin 100], [Fin 50]]]" and masks = None and r = 0]
  note t2 = horizontal_flip_round_trip
    [where boxes = ?b and a = "3 / 4" and c = ?c and u = "Fin (3 / 4)"
       and keypoints = None and perm = None
       and g = "\<lambda>n::nat. (Rand_float (Fin 0), Suc n)" and fh = "\<lambda>k t p. k"
       and img = "[[[Fin 100], [Fin 50]]]" and masks = None and r = 0]
  from t1 t2 hit gt q show ?thesis
    by simp
qed

text \<open>
  C6. When keypoints are supplied without a flip permutation, \<open>random_horizontal_flip\<close>
  and \<open>random_vertical_flip\<close> are the program that returns the \<open>ValueError\<close>: it contains
  no draw, so running it leaves the cache and the random source as they were.
\<close>

theorem flips_reject_missing_permutation:
  "keypoints \<noteq> None \<longrightarrow>
     random_horizontal_flip g fh img boxes masks keypoints None
       = Return (Inl (ValueError
           ''keypoints are provided but keypoints_flip_permutation is not provided''))
     \<and> run (random_horizontal_flip g fh img boxes masks keypoints None) cache r
       = (Inl (ValueError
            ''keypoints are provided but keypoints_flip_permutation is not provided''),
          cache, r)
     \<and> random_vertical_flip g fv img boxes masks keypoints None
       = Return (Inl (ValueError
           ''keypoints are provided but keypoints_flip_permutation is not provided''))
     \<and> run (random_vertical_flip g fv img boxes masks keypoints None) cache r
       = (Inl (ValueError
            ''keypoints are provided but keypoints_flip_permutation is not provided''),
          cache, r)"
  by (simp add: random_horizontal_flip_def random_vertical_flip_def)

theorem flips_reject_missing_permutation_witness:
  "Some [[(Fin (1 / 2), NaN)]] \<noteq> (None :: keypoints option)
   \<and> run (random_horizontal_flip (\<lambda>n::nat. (Rand_float (Fin (3 / 4)), Suc n)) (\<lambda>k t p. k)
            [[[Fin 1]]] None None (Some [[(Fin (1 / 2), NaN)]]) None) (Some Map.empty) 0
       = (Inl (ValueError
            ''keypoints are provided but keypoints_flip_permutation is not provided''),
          Some Map.empty, 0)
   \<and> run (random_vertical_flip (\<lambda>n::nat. (Rand_float (Fin (3 / 4)), Suc n)) (\<lambda>k t p. k)
            [[[Fin 1]]] None None (Some [[(Fin (1 / 2), NaN)]]) None) (Some Map.empty) 0
       = (Inl (ValueError
            ''keypoints are provided but keypoints_flip_permutation is not provided''),
          Some Map.empty, 0)"
  using flips_reject_missing_permutation
    [where keypoints = "Some [[(Fin (1 / 2), NaN)]]"
       and g = "\<lambda>n::nat. (Rand_float (Fin (3 / 4)), Suc n)"
       and fh = "\<lambda>k t p. k" and fv = "\<lambda>k t p. k" and img = "[[[Fin 1]]]"
       and boxes = None and masks = None and cache = "Some Map.empty" and r = 0]
  by simp

section \<open>Retaining boxes above a threshold: properties\<close>

lemma gather_in_range:
  "\<forall>i\<in>set indices. i < length params \<Longrightarrow>
     gather params indices = Inr (map (\<lambda>i. params ! i) indices)"
  by (simp add: gather_def list_all_iff)

lemma gather_optional_in_range:
  "\<forall>xs. params = Some xs \<longrightarrow> (\<forall>i\<in>set indices. i < length xs) \<Longrightarrow>
     gather_optional params indices = Inr (map_option (\<lambda>xs. map (\<lambda>i. xs ! i) indices) params)"
  by (cases params) (simp_all add: gather_in_range bind_error_def)

lemma tf_where_map:
  "tf_where (map P xs) = filter (\<lambda>i. P (xs ! i)) [0..<length xs]"
  unfolding tf_where_def by (rule filter_cong) simp_all

lemma tf_where_bound: "i \<in> set (tf_where bs) \<Longrightarrow> i < length bs"
  by (simp add: tf_where_def)

lemma retain_boxes_above_threshold_general:
  assumes "length label_weights \<le> length boxes" "length label_weights \<le> length labels"
    and "\<forall>xs. label_confidences = Some xs \<longrightarrow> length label_weights \<le> length xs"
    and "\<forall>xs. multiclass_scores = Some xs \<longrightarrow> length label_weights \<le> length xs"
    and "\<forall>xs. masks = Some xs \<longrightarrow> length label_weights \<le> length xs"
    and "\<forall>xs. keypoints = Some xs \<longrightarrow> length label_weights \<le> length xs"
    and "indices = filter (\<lambda>i. tf_greater (label_weights ! i) (to_float32 threshold)
                                \<or> is_nan (label_weights ! i)) [0..<length label_weights]"
  shows "retain_boxes_above_threshold boxes labels label_weights label_confidences
       multiclass_scores masks keypoints threshold
     = Inr (map (\<lambda>i. boxes ! i) indices, map (\<lambda>i. labels ! i) indices,
            map (\<lambda>i. label_weights ! i) indices,
            map_option (\<lambda>xs. map (\<lambda>i. xs ! i) indices) label_confidences,
            map_option (\<lambda>xs. map (\<lambda>i. xs ! i) indices) multiclass_scores,
            map_option (\<lambda>xs. map (\<lambda>i. xs ! i) indices) masks,
            map_option (\<lambda>xs. map (\<lambda>i. xs ! i) indices) keypoints)"
proof -
  let ?w = "tf_where (map (\<lambda>w. tf_greater w (to_float32 threshold) \<or> is_nan w)
                        label_weights)"
  have idx: "?w = indices"
    using assms(7) by (simp add: tf_where_map)
  have bound: "\<forall>i\<in>set indices. i < length label_weights"
    using assms(7) by simp
  have g1: "gather boxes indices = Inr (map (\<lambda>i. boxes ! i) indices)"
    and g2: "gather labels indices = Inr (map (\<lambda>i. labels ! i) indices)"
    and g3: "gather label_weights indices = Inr (map (\<lambda>i. label_weights ! i) indices)"
    using assms(1,2) bound by (auto intro!: gather_in_range)
  have o1: "gather_optional label_confidences indices
              = Inr (map_option (\<lambda>xs. map (\<lambda>i. xs ! i) indices) label_confidences)"
    and o2: "gather_optional multiclass_scores indices
              = Inr (map_option (\<lambda>xs. map (\<lambda>i. xs ! i) indices) multiclass_scores)"
    and o3: "gather_optional masks indices
              = Inr (map_option (\<lambda>xs. map (\<lambda>i. xs ! i) indices) masks)"
    and o4: "gather_optional keypoints indices
              = Inr (map_option (\<lambda>xs. map (\<lambda>i. xs ! i) indices) keypoints)"
    using assms(3-6) bound by (auto intro!: gather_optional_in_range)
  show ?thesis
    unfolding retain_boxes_above_threshold_def Let_def idx
    by (simp add: g1 g2 g3 o1 o2 o3 o4 bind_error_def)
qed

text \<open>
  C7, as stated, fails, because the comparison is not that of the two numbers. The
  threshold is converted to \<open>float32\<close>: the weight \<open>float32(0.1)\<close>, which is
  \<open>13421773 / 2^27\<close> and above the Python float \<open>0.1\<close>, the double
  \<open>3602879701896397 / 2^55\<close>, is dropped at the threshold \<open>0.1\<close>. And \<open>tf.greater\<close>
  counts a subnormal weight as zero: of the weights \<open>[0, 2^-149, 2^-126]\<close> the threshold
  \<open>0.0\<close> keeps index 2 only, although \<open>2^-149\<close> is a \<open>float32\<close> above zero.
\<close>

theorem retain_boxes_above_threshold_counterexample:
  "to_float32 (Fin (13421773 / 2 ^ 27)) = Fin (13421773 / 2 ^ 27)
   \<and> fgt (Fin (13421773 / 2 ^ 27)) (Fin (3602879701896397 / 2 ^ 55))
   \<and> retain_boxes_above_threshold [(Fin 0, Fin 0, Fin 1, Fin 1)] [1]
        [Fin (13421773 / 2 ^ 27)] None None None None
        (Fin (3602879701896397 / 2 ^ 55))
      = Inr ([], [], [], None, None, None, None)
   \<and> to_float32 (Fin (1 / 2 ^ 149)) = Fin (1 / 2 ^ 149)
   \<and> fgt (Fin (1 / 2 ^ 149)) (Fin 0)
   \<and> retain_boxes_above_threshold
        [(Fin 0, Fin 0, Fin 1, Fin 1), (Fin 0, Fin 0, Fin (1 / 2), Fin (1 / 2)),
         (Fin (1 / 2), Fin (1 / 2), Fin 1, Fin 1)] [1, 2, 3]
        [Fin 0, Fin (1 / 2 ^ 149), Fin (1 / 2 ^ 126)] None None None None (Fin 0)
      = Inr ([(Fin (1 / 2), Fin (1 / 2), Fin 1, Fin 1)], [3], [Fin (1 / 2 ^ 126)],
             None, None, None, None)"
proof -
  have "retain_boxes_above_threshold [(Fin 0, Fin 0, Fin 1, Fin 1)] [1]
          [Fin (13421773 / 2 ^ 27)] None None None None
          (Fin (3602879701896397 / 2 ^ 55))
        = Inr ([], [], [], None, None, None, None)"
    by (subst retain_boxes_above_threshold_general [where indices = "[]"])
       (use round32_double_tenth in
          \<open>simp_all add: tf_greater_def flush_denormal_def fgt_def pow2_def\<close>)
  moreover have "retain_boxes_above_threshold
        [(Fin 0, Fin 0, Fin 1, Fin 1), (Fin 0, Fin 0, Fin (1 / 2), Fin (1 / 2)),
         (Fin (1 / 2), Fin (1 / 2), Fin 1, Fin 1)] [1, 2, 3]
        [Fin 0, Fin (1 / 2 ^ 149), Fin (1 / 2 ^ 126)] None None None None (Fin 0)
      = Inr ([(Fin (1 / 2), Fin (1 / 2), Fin 1, Fin 1)], [3], [Fin (1 / 2 ^ 126)],
             None, None, None, None)"
    by (subst retain_boxes_above_threshold_general [where indices = "[2]"])
       (simp_all add: round32_zero tf_greater_def flush_denormal_def fgt_def pow2_def upt_rec
          nth_Cons')
  ultimately show ?thesis
    using round32_float_tenth round32_least by (simp add: fgt_def)
qed

text \<open>
  C7, amended. When every supplied array has a row for each label weight,
  \<open>retain_boxes_above_threshold\<close> keeps exactly the indices \<open>i\<close>, in increasing order, for
  which \<open>tf.greater\<close> holds of \<open>label_weights[i]\<close> and the threshold converted to
  \<open>float32\<close>, or \<open>label_weights[i]\<close> is NaN, and selects these same rows of the boxes, the
  labels, the label weights and every optional array that is supplied. \<open>tf.greater\<close> is
  the comparison of the two numbers when the threshold is a \<open>float32\<close> and neither of
  them is subnormal. With the weights \<open>[0.0, 0.5, NaN]\<close> and the threshold \<open>0.0\<close> index 0
  is dropped and indices 1 and 2 are kept.
\<close>

theorem retain_boxes_above_threshold_selection:
  "(length label_weights \<le> length boxes \<and> length label_weights \<le> length labels
      \<and> (\<forall>xs. label_confidences = Some xs \<longrightarrow> length label_weights \<le> length xs)
      \<and> (\<forall>xs. multiclass_scores = Some xs \<longrightarrow> length label_weights \<le> length xs)
      \<and> (\<forall>xs. masks = Some xs \<longrightarrow> length label_weights \<le> length xs)
      \<and> (\<forall>xs. keypoints = Some xs \<longrightarrow> length label_weights \<le> length xs)
     \<longrightarrow>
     retain_boxes_above_threshold boxes labels label_weights label_confidences
       multiclass_scores masks keypoints threshold
     = (let indices = filter (\<lambda>i. tf_greater (label_weights ! i) (to_float32 threshold)
                                     \<or> is_nan (label_weights ! i)) [0..<length label_weights]
        in Inr (map (\<lambda>i. boxes ! i) indices, map (\<lambda>i. labels ! i) indices,
                map (\<lambda>i. label_weights ! i) indices,
                map_option (\<lambda>xs. map (\<lambda>i. xs ! i) indices) label_confidences,
                map_option (\<lambda>xs. map (\<lambda>i. xs ! i) indices) multiclass_scores,
                map_option (\<lambda>xs. map (\<lambda>i. xs ! i) indices) masks,
                map_option (\<lambda>xs. map (\<lambda>i. xs ! i) indices) keypoints)))
   \<and> (to_float32 threshold = threshold \<and> flush_denormal threshold = threshold
        \<and> flush_denormal w = w
      \<longrightarrow> tf_greater w (to_float32 threshold) = fgt w threshold)
   \<and> retain_boxes_above_threshold [b0, b1, b2] [l0, l1, l2] [Fin 0, Fin (1 / 2), NaN]
       None None None None (Fin 0)
     = Inr ([b1, b2], [l1, l2], [Fin (1 / 2), NaN], None, None, None, None)"
proof (intro conjI impI)
  assume "length label_weights \<le> length boxes \<and> length label_weights \<le> length labels
      \<and> (\<forall>xs. label_confidences = Some xs \<longrightarrow> length label_weights \<le> length xs)
      \<and> (\<forall>xs. multiclass_scores = Some xs \<longrightarrow> length label_weights \<le> length xs)
      \<and> (\<forall>xs. masks = Some xs \<longrightarrow> length label_weights \<le> length xs)
      \<and> (\<forall>xs. keypoints = Some xs \<longrightarrow> length label_weights \<le> length xs)"
  then show "retain_boxes_above_threshold boxes labels label_weights label_confidences
       multiclass_scores masks keypoints threshold
     = (let indices = filter (\<lambda>i. tf_greater (label_weights ! i) (to_float32 threshold)
                                     \<or> is_nan (label_weights ! i)) [0..<length label_weights]
        in Inr (map (\<lambda>i. boxes ! i) indices, map (\<lambda>i. labels ! i) indices,
                map (\<lambda>i. label_weights ! i) indices,
                map_option (\<lambda>xs. map (\<lambda>i. xs ! i) indices) label_confidences,
                map_option (\<lambda>xs. map (\<lambda>i. xs ! i) indices) multiclass_scores,
                map_option (\<lambda>xs. map (\<lambda>i. xs ! i) indices) masks,
                map_option (\<lambda>xs. map (\<lambda>i. xs ! i) indices) keypoints))"
    unfolding Let_def by (intro retain_boxes_above_threshold_general) simp_all
next
  assume "to_float32 threshold = threshold \<and> flush_denormal threshold = threshold
        \<and> flush_denormal w = w"
  then show "tf_greater w (to_float32 threshold) = fgt w threshold"
    by (simp add: tf_greater_def)
next
  show "retain_boxes_above_threshold [b0, b1, b2] [l0, l1, l2] [Fin 0, Fin (1 / 2), NaN]
       None None None None (Fin 0)
     = Inr ([b1, b2], [l1, l2], [Fin (1 / 2), NaN], None, None, None, None)"
    by (subst retain_boxes_above_threshold_general [where indices = "[1, 2]"])
       (simp_all add: round32_def tf_greater_def flush_denormal_def pow2_def fgt_def upt_rec
          nth_Cons')
qed

theorem retain_boxes_above_threshold_selection_witness:
  "to_float32 (Fin 0) = Fin 0 \<and> flush_denormal (Fin 0) = Fin 0
   \<and> flush_denormal (Fin (1 / 2)) = Fin (1 / 2)
   \<and> tf_greater (Fin (1 / 2)) (to_float32 (Fin 0))
   \<and> retain_boxes_above_threshold
     [(Fin 0, Fin 0, Fin (1 / 2), Fin (1 / 2)), (Fin 0, Fin 0, Fin 1, Fin 1),
      (Fin (1 / 4), Fin (1 / 4), Fin 1, Fin 1)]
     [1, 2, 3] [Fin 0, Fin (1 / 2), NaN] (Some [Fin 1, Fin (1 / 4), Fin (3 / 4)]) None
     (Some [[[Fin 0]], [[Fin 1]], [[Fin 0]]]) None (Fin 0)
   = Inr ([(Fin 0, Fin 0, Fin 1, Fin 1), (Fin (1 / 4), Fin (1 / 4), Fin 1, Fin 1)],
          [2, 3], [Fin (1 / 2), NaN], Some [Fin (1 / 4), Fin (3 / 4)], None,
          Some [[[Fin 1]], [[Fin 0]]], None)"
  using retain_boxes_above_threshold_selection
      [where boxes = "[(Fin 0, Fin 0, Fin (1 / 2), Fin (1 / 2)), (Fin 0, Fin 0, Fin 1, Fin 1),
                       (Fin (1 / 4), Fin (1 / 4), Fin 1, Fin 1)]"
         and labels = "[1, 2, 3]" and label_weights = "[Fin 0, Fin (1 / 2), NaN]"
         and label_confidences = "Some [Fin 1, Fin (1 / 4), Fin (3 / 4)]"
         and multiclass_scores = None and masks = "Some [[[Fin 0]], [[Fin 1]], [[Fin 0]]]"
         and keypoints = None and threshold = "Fin 0" and w = "Fin (1 / 2)"]
  by (simp add: round32_def tf_greater_def flush_denormal_def pow2_def fgt_def upt_rec
        nth_Cons')

section \<open>Errors of the tensor library\<close>

lemma raised_iff: "raised x \<longleftrightarrow> \<not> runtime_only x"
  by (cases x) (simp_all add: raised_def runtime_only_def)

lemma runtime_only_Inr: "runtime_only (Inr a)"
  by (simp add: runtime_only_def)

lemma runtime_only_bind:
  "runtime_only x \<Longrightarrow> (\<And>a. runtime_only (f a)) \<Longrightarrow> runtime_only (bind_error x f)"
  by (cases x) (simp_all add: runtime_only_def bind_error_def)

lemma runtime_only_slice_dim: "runtime_only (slice_dim xs b s)"
  by (simp add: runtime_only_def slice_dim_def)

lemma runtime_only_map_errors:
  "(\<And>x. runtime_only (f x)) \<Longrightarrow> runtime_only (map_errors f xs)"
  by (induction xs) (auto intro!: runtime_only_bind runtime_only_Inr)

lemma runtime_only_slice2: "runtime_only (slice2 t b s)"
  unfolding slice2_def
  by (intro runtime_only_bind runtime_only_slice_dim runtime_only_map_errors)

lemma runtime_only_slice3: "runtime_only (slice3 t b s)"
  unfolding slice3_def
  by (intro runtime_only_bind runtime_only_slice_dim runtime_only_map_errors
        runtime_only_slice2)

lemma runtime_only_gather: "runtime_only (gather xs is)"
  by (simp add: runtime_only_def gather_def)

lemma runtime_only_gather_optional: "runtime_only (gather_optional xo is)"
  by (cases xo) (auto intro!: runtime_only_bind runtime_only_Inr runtime_only_gather)

lemma runtime_only_box_list_gather: "runtime_only (box_list_gather bl is)"
  unfolding box_list_gather_def
  by (intro runtime_only_bind runtime_only_Inr runtime_only_gather
        runtime_only_gather_optional)

lemma runtime_only_crop_to_sample:
  "runtime_only (crop_to_sample env img boxes labels lw lc ms masks kps ot clip b s w)"
  unfolding crop_to_sample_def prune_completely_outside_window_def
    prune_non_overlapping_boxes_def Let_def
  by (intro runtime_only_bind runtime_only_slice3 runtime_only_box_list_gather)
     (auto intro!: runtime_only_bind runtime_only_Inr runtime_only_gather
        runtime_only_slice3 runtime_only_box_list_gather split: option.splits prod.splits)

lemma run_tf_cond:
  "run (tf_cond pred true_fn false_fn) cache r
   = (case run true_fn cache r of
        (res_t, cache1, r1) \<Rightarrow>
          if raised res_t then (res_t, cache1, r1)
          else (case run false_fn cache1 r1 of
                  (res_f, cache2, r2) \<Rightarrow>
                    if raised res_f then (res_f, cache2, r2)
                    else (if pred then res_t else res_f, cache2, r2)))"
  by (simp add: tf_cond_def run_and_then split: prod.splits)

section \<open>Random crops: properties\<close>

lemma run_strict_cache:
  assumes "run (strict_random_crop_image env img boxes labels lw lc ms masks kps moc arr ar ot
                  clip) (Some c) r = (res, cache', r')"
  shows "\<exists>c'. cache' = Some c' \<and> (\<forall>f k. f \<noteq> STRICT_CROP_IMAGE \<longrightarrow> cache_get c' f k = cache_get c f k)"
  using assms
  by (auto simp: strict_random_crop_image_def Let_def get_or_create_preprocess_rand_vars_def
        cache_get_def cache_update_def split: option.splits prod.splits rand_var.splits)

lemma not_tf_greater_one: "flt u (Fin 1) \<Longrightarrow> \<not> tf_greater u (Fin 1)"
  by (cases u) (simp_all add: tf_greater_def flush_denormal_def fgt_def pow2_def)

lemma run_strict_sampled:
  assumes "get_or_create_preprocess_rand_vars
             (sample_distorted_bounding_box env (tf_shape img)
                (clip_boxes_by_value boxes (Fin 0) (Fin 1)) moc arr ar)
             STRICT_CROP_IMAGE cache (Key_num moc) r
           = (Rand_bbox im_box_begin im_box_size im_box, cache', r')"
  shows "run (strict_random_crop_image env img boxes labels lw lc ms masks kps moc arr ar ot
                clip) cache r
         = (crop_to_sample env img boxes labels lw lc ms masks kps ot clip im_box_begin
              im_box_size im_box, cache', r')"
  using assms by (simp add: strict_random_crop_image_def Let_def)

text \<open>
  C5, as stated, fails for a positive \<open>random_coef\<close> below \<open>sys.float_info.min\<close>: with the
  smallest positive double \<open>2^-1074\<close> no scalar draw is made; the only entry the run adds
  to an empty cache is the sampled box of the strict crop.
\<close>

theorem random_crop_image_subnormal_counterexample:
  "flt (Fin 0) (Fin (1 / 2 ^ 1074))
   \<and> random_crop_image example_externals example_image example_boxes [1, 2, 3, 4] None None
        None None None (Fin 1) (Fin (1 / 2), Fin 2) (Fin (1 / 10), Fin 1) (Fin (3 / 10)) True
        (Fin (1 / 2 ^ 1074))
     = strict_random_crop_image example_externals example_image example_boxes [1, 2, 3, 4]
        None None None None None (Fin 1) (Fin (1 / 2), Fin 2) (Fin (1 / 10), Fin 1)
        (Fin (3 / 10)) True
   \<and> snd (run (random_crop_image example_externals example_image example_boxes [1, 2, 3, 4]
                  None None None None None (Fin 1) (Fin (1 / 2), Fin 2) (Fin (1 / 10), Fin 1)
                  (Fin (3 / 10)) True (Fin (1 / 2 ^ 1074))) (Some Map.empty) 0)
     = (Some [(STRICT_CROP_IMAGE, Key_num (Fin 1)) \<mapsto>
               Rand_bbox (0, 0, 0) (1, 1, -1) (Fin 0, Fin 0, Fin (1 / 2), Fin (1 / 2))],
        Suc 0)"
  by (simp add: random_crop_image_def float_info_min_def strict_random_crop_image_def
        Let_def get_or_create_preprocess_rand_vars_def cache_get_def cache_update_def
        example_externals_def)

text \<open>
  C5, amended. \<open>random_crop_image\<close> with \<open>random_coef\<close> below \<open>sys.float_info.min\<close>, which
  includes \<open>0\<close>, is the strict crop itself: the scalar draw is not made, and running it
  leaves every entry of \<open>CROP_IMAGE\<close> in the cache as it was. Otherwise one uniform draw
  is taken through the cache under \<open>CROP_IMAGE\<close>, and the strict crop is built whatever
  the draw is, which takes its sampled box through the cache under \<open>STRICT_CROP_IMAGE\<close>;
  an exception raised while it is built is the result. The draw is then compared with
  \<open>random_coef\<close> by \<open>tf.greater\<close> in \<open>float32\<close>: the result is that of the strict crop
  when the draw is greater, and every input unchanged when it is not. With
  \<open>random_coef = 1\<close>, a draw below 1, as \<open>tf.random_uniform\<close> makes them, and a sampled box
  for the strict crop, the inputs are returned unchanged, and the cache and the random
  source are as the two draws leave them.
\<close>

theorem random_crop_image_bypass:
  "flt (Fin 0) float_info_min
   \<and> (flt random_coef float_info_min \<longrightarrow>
        random_crop_image env img boxes labels lw lc ms masks kps moc arr ar ot clip random_coef
        = strict_random_crop_image env img boxes labels lw lc ms masks kps moc arr ar ot clip)
   \<and> (flt random_coef float_info_min
        \<and> run (random_crop_image env img boxes labels lw lc ms masks kps moc arr ar ot clip
                 random_coef) (Some c) r = (res, Some c', r')
        \<longrightarrow> cache_get c' CROP_IMAGE k = cache_get c CROP_IMAGE k)
   \<and> (\<not> flt random_coef float_info_min \<longrightarrow>
        run (random_crop_image env img boxes labels lw lc ms masks kps moc arr ar ot clip
               random_coef) cache r
        = (let (var, cache1, r1) =
                 get_or_create_preprocess_rand_vars (random_uniform env) CROP_IMAGE cache
                   (Key_str []) r
           in case var of
                Rand_float u \<Rightarrow>
                  (let (cropped, cache2, r2) =
                         run (strict_random_crop_image env img boxes labels lw lc ms masks
                                kps moc arr ar ot clip) cache1 r1
                   in (if raised cropped \<or> tf_greater u (to_float32 random_coef)
                       then cropped
                       else Inr (img, boxes, labels, lw, lc, ms, masks, kps),
                       cache2, r2))
              | _ \<Rightarrow> (Inl (TypeError ''the cached variable is not a scalar float''),
                       cache1, r1)))
   \<and> (get_or_create_preprocess_rand_vars (random_uniform env) CROP_IMAGE cache (Key_str []) r
          = (Rand_float u, cache', r')
        \<and> flt u (Fin 1)
        \<and> get_or_create_preprocess_rand_vars
             (sample_distorted_bounding_box env (tf_shape img)
                (clip_boxes_by_value boxes (Fin 0) (Fin 1)) moc arr ar)
             STRICT_CROP_IMAGE cache' (Key_num moc) r'
          = (Rand_bbox im_box_begin im_box_size im_box, cache'', r'')
        \<longrightarrow>
        run (random_crop_image env img boxes labels lw lc ms masks kps moc arr ar ot clip
               (Fin 1)) cache r
        = (Inr (img, boxes, labels, lw, lc, ms, masks, kps), cache'', r''))"
proof (intro conjI impI)
  show "flt (Fin 0) float_info_min"
    by (simp add: float_info_min_def)
next
  assume "flt random_coef float_info_min"
  then show "random_crop_image env img boxes labels lw lc ms masks kps moc arr ar ot clip
               random_coef
             = strict_random_crop_image env img boxes labels lw lc ms masks kps moc arr ar ot
                 clip"
    by (simp add: random_crop_image_def)
next
  assume a: "flt random_coef float_info_min
        \<and> run (random_crop_image env img boxes labels lw lc ms masks kps moc arr ar ot clip
                 random_coef) (Some c) r = (res, Some c', r')"
  then have f: "flt random_coef float_info_min"
    and rr: "run (random_crop_image env img boxes labels lw lc ms masks kps moc arr ar ot clip
                 random_coef) (Some c) r = (res, Some c', r')"
    by simp_all
  from rr have "run (strict_random_crop_image env img boxes labels lw lc ms masks kps moc arr ar
                    ot clip) (Some c) r = (res, Some c', r')"
    by (simp add: random_crop_image_def Let_def f)
  from run_strict_cache [OF this] show "cache_get c' CROP_IMAGE k = cache_get c CROP_IMAGE k"
    by simp
next
  assume "\<not> flt random_coef float_info_min"
  then show "run (random_crop_image env img boxes labels lw lc ms masks kps moc arr ar ot clip
               random_coef) cache r
        = (let (var, cache1, r1) =
                 get_or_create_preprocess_rand_vars (random_uniform env) CROP_IMAGE cache
                   (Key_str []) r
           in case var of
                Rand_float u \<Rightarrow>
                  (let (cropped, cache2, r2) =
                         run (strict_random_crop_image env img boxes labels lw lc ms masks
                                kps moc arr ar ot clip) cache1 r1
                   in (if raised cropped \<or> tf_greater u (to_float32 random_coef)
                       then cropped
                       else Inr (img, boxes, labels, lw, lc, ms, masks, kps),
                       cache2, r2))
              | _ \<Rightarrow> (Inl (TypeError ''the cached variable is not a scalar float''),
                       cache1, r1))"
    by (simp add: random_crop_image_def Let_def run_tf_cond raised_def
          split: prod.splits rand_var.splits)
next
  assume a: "get_or_create_preprocess_rand_vars (random_uniform env) CROP_IMAGE cache
               (Key_str []) r = (Rand_float u, cache', r')
        \<and> flt u (Fin 1)
        \<and> get_or_create_preprocess_rand_vars
             (sample_distorted_bounding_box env (tf_shape img)
                (clip_boxes_by_value boxes (Fin 0) (Fin 1)) moc arr ar)
             STRICT_CROP_IMAGE cache' (Key_num moc) r'
          = (Rand_bbox im_box_begin im_box_size im_box, cache'', r'')"
  then have g: "get_or_create_preprocess_rand_vars (random_uniform env) CROP_IMAGE cache
                  (Key_str []) r = (Rand_float u, cache', r')"
    and u: "flt u (Fin 1)"
    and s: "get_or_create_preprocess_rand_vars
             (sample_distorted_bounding_box env (tf_shape img)
                (clip_boxes_by_value boxes (Fin 0) (Fin 1)) moc arr ar)
             STRICT_CROP_IMAGE cache' (Key_num moc) r'
          = (Rand_bbox im_box_begin im_box_size im_box, cache'', r'')"
    by simp_all
  have m: "\<not> flt (Fin 1) float_info_min"
    by (simp add: float_info_min_def)
  have nr: "\<not> raised (crop_to_sample env img boxes labels lw lc ms masks kps ot clip
                         im_box_begin im_box_size im_box)"
    by (simp add: raised_iff runtime_only_crop_to_sample)
  from not_tf_greater_one [OF u] have ng: "\<not> tf_greater u (to_float32 (Fin 1))"
    by (simp add: round32_one)
  show "run (random_crop_image env img boxes labels lw lc ms masks kps moc arr ar ot clip
               (Fin 1)) cache r
        = (Inr (img, boxes, labels, lw, lc, ms, masks, kps), cache'', r'')"
    using m g ng nr
    by (simp add: random_crop_image_def Let_def run_tf_cond run_strict_sampled [OF s]
          raised_def)
qed

theorem random_crop_image_bypass_witness:
  "get_or_create_preprocess_rand_vars (random_uniform example_externals) CROP_IMAGE
       (Some Map.empty) (Key_str []) 0
     = (Rand_float (Fin (3 / 4)),
        Some [(CROP_IMAGE, Key_str []) \<mapsto> Rand_float (Fin (3 / 4))], Suc 0)
   \<and> flt (Fin (3 / 4)) (Fin 1)
   \<and> get_or_create_preprocess_rand_vars
        (sample_distorted_bounding_box example_externals (tf_shape example_image)
           (clip_boxes_by_value example_boxes (Fin 0) (Fin 1)) (Fin 1) (Fin (1 / 2), Fin 2)
           (Fin (1 / 10), Fin 1))
        STRICT_CROP_IMAGE (Some [(CROP_IMAGE, Key_str []) \<mapsto> Rand_float (Fin (3 / 4))])
        (Key_num (Fin 1)) (Suc 0)
     = (Rand_bbox (0, 0, 0) (1, 1, -1) (Fin 0, Fin 0, Fin (1 / 2), Fin (1 / 2)),
        Some [(CROP_IMAGE, Key_str []) \<mapsto> Rand_float (Fin (3 / 4)),
              (STRICT_CROP_IMAGE, Key_num (Fin 1)) \<mapsto>
                Rand_bbox (0, 0, 0) (1, 1, -1) (Fin 0, Fin 0, Fin (1 / 2), Fin (1 / 2))],
        Suc (Suc 0))
   \<and> run (random_crop_image example_externals example_image example_boxes [1, 2, 3, 4] None
            None None None None (Fin 1) (Fin (1 / 2), Fin 2) (Fin (1 / 10), Fin 1)
            (Fin (3 / 10)) True (Fin 1)) (Some Map.empty) 0
     = (Inr (example_image, example_boxes, [1, 2, 3, 4], None, None, None, None, None),
        Some [(CROP_IMAGE, Key_str []) \<mapsto> Rand_float (Fin (3 / 4)),
              (STRICT_CROP_IMAGE, Key_num (Fin 1)) \<mapsto>
                Rand_bbox (0, 0, 0) (1, 1, -1) (Fin 0, Fin 0, Fin (1 / 2), Fin (1 / 2))],
        Suc (Suc 0))
   \<and> flt (Fin 0) float_info_min
   \<and> random_crop_image example_externals example_image example_boxes [1, 2, 3, 4] None
        None None None None (Fin 1) (Fin (1 / 2), Fin 2) (Fin (1 / 10), Fin 1)
        (Fin (3 / 10)) True (Fin 0)
     = strict_random_crop_image example_externals example_image example_boxes [1, 2, 3, 4]
        None None None None None (Fin 1) (Fin (1 / 2), Fin 2) (Fin (1 / 10), Fin 1)
        (Fin (3 / 10)) True"
proof -
  have g: "get_or_create_preprocess_rand_vars (random_uniform example_externals) CROP_IMAGE
       (Some Map.empty) (Key_str []) 0
     = (Rand_float (Fin (3 / 4)),
        Some [(CROP_IMAGE, Key_str []) \<mapsto> Rand_float (Fin (3 / 4))], Suc 0)"
    by (simp add: get_or_create_preprocess_rand_vars_def cache_get_def cache_update_def
          example_externals_def)
  have l: "flt (Fin (3 / 4)) (Fin 1)"
    by simp
  have s: "get_or_create_preprocess_rand_vars
        (sample_distorted_bounding_box example_externals (tf_shape example_image)
           (clip_boxes_by_value example_boxes (Fin 0) (Fin 1)) (Fin 1) (Fin (1 / 2), Fin 2)
           (Fin (1 / 10), Fin 1))
        STRICT_CROP_IMAGE (Some [(CROP_IMAGE, Key_str []) \<mapsto> Rand_float (Fin (3 / 4))])
        (Key_num (Fin 1)) (Suc 0)
     = (Rand_bbox (0, 0, 0) (1, 1, -1) (Fin 0, Fin 0, Fin (1 / 2), Fin (1 / 2)),
        Some [(CROP_IMAGE, Key_str []) \<mapsto> Rand_float (Fin (3 / 4)),
              (STRICT_CROP_IMAGE, Key_num (Fin 1)) \<mapsto>
                Rand_bbox (0, 0, 0) (1, 1, -1) (Fin 0, Fin 0, Fin (1 / 2), Fin (1 / 2))],
        Suc (Suc 0))"
    by (simp add: get_or_create_preprocess_rand_vars_def cache_get_def cache_update_def
          example_externals_def)
  note t = random_crop_image_bypass
    [where env = example_externals and img = example_image and boxes = example_boxes
       and labels = "[1, 2, 3, 4]" and lw = None and lc = None and ms = None and masks = None
       and kps = None and moc = "Fin 1" and arr = "(Fin (1 / 2), Fin 2)"
       and ar = "(Fin (1 / 10), Fin 1)" and ot = "Fin (3 / 10)" and clip = True
       and random_coef = "Fin 0" and cache = "Some Map.empty" and r = 0
       and u = "Fin (3 / 4)"
       and cache' = "Some [(CROP_IMAGE, Key_str []) \<mapsto> Rand_float (Fin (3 / 4))]"
       and r' = "Suc 0"
       and im_box_begin = "(0, 0, 0)" and im_box_size = "(1, 1, -1)"
       and im_box = "(Fin 0, Fin 0, Fin (1 / 2), Fin (1 / 2))"
       and cache'' =
         "Some [(CROP_IMAGE, Key_str []) \<mapsto> Rand_float (Fin (3 / 4)),
                (STRICT_CROP_IMAGE, Key_num (Fin 1)) \<mapsto>
                  Rand_bbox (0, 0, 0) (1, 1, -1) (Fin 0, Fin 0, Fin (1 / 2), Fin (1 / 2))]"
       and r'' = "Suc (Suc 0)"]
  from t g l s show ?thesis
    by simp
qed

section \<open>Strict random crop: index alignment\<close>

lemma bind_error_Inr:
  "bind_error x f = Inr y \<longleftrightarrow> (\<exists>a. x = Inr a \<and> f a = Inr y)"
  by (cases x) (simp_all add: bind_error_def)

lemma gather_Inr:
  "gather xs is = Inr ys \<longleftrightarrow> (\<forall>i\<in>set is. i < length xs) \<and> ys = map (\<lambda>i. xs ! i) is"
  by (auto simp: gather_def list_all_iff)

lemma gather_optional_Inr:
  "gather_optional xo is = Inr yo \<longleftrightarrow>
     (\<forall>xs. xo = Some xs \<longrightarrow> (\<forall>i\<in>set is. i < length xs))
     \<and> yo = map_option (\<lambda>xs. map (\<lambda>i. xs ! i) is) xo"
  by (cases xo) (auto simp: bind_error_Inr gather_Inr)

lemma map_errors_Inr: "map_errors f xs = Inr ys \<longleftrightarrow> map f xs = map Inr ys"
proof (induction xs arbitrary: ys)
  case Nil
  then show ?case by auto
next
  case (Cons x xs)
  show ?case
    by (cases ys) (auto simp: bind_error_Inr Cons.IH)
qed

lemma box_list_gather_Inr:
  "box_list_gather bl is = Inr bl' \<Longrightarrow>
     (\<forall>i\<in>set is. i < length (bl_boxes bl))
     \<and> bl_boxes bl' = map (\<lambda>i. bl_boxes bl ! i) is
     \<and> bl_labels bl' = map (\<lambda>i. bl_labels bl ! i) is
     \<and> bl_label_weights bl' = map_option (\<lambda>xs. map (\<lambda>i. xs ! i) is) (bl_label_weights bl)
     \<and> bl_label_confidences bl'
         = map_option (\<lambda>xs. map (\<lambda>i. xs ! i) is) (bl_label_confidences bl)
     \<and> bl_multiclass_scores bl'
         = map_option (\<lambda>xs. map (\<lambda>i. xs ! i) is) (bl_multiclass_scores bl)"
  by (auto simp: box_list_gather_def bind_error_Inr gather_Inr gather_optional_Inr)

lemma map_nth_nth:
  "\<forall>j\<in>set js. j < length is \<Longrightarrow>
     map (\<lambda>j. map f is ! j) js = map (\<lambda>j. f (is ! j)) js"
  by simp

lemma crop_to_sample_alignment:
  assumes "crop_to_sample env img boxes labels lw lc ms masks kps ot clip begin sz window
           = Inr (new_image, new_boxes, new_labels, new_lw, new_lc, new_ms, new_masks, new_kps)"
  defines "s \<equiv> surviving_indices env boxes window ot"
  shows "new_boxes = map (\<lambda>i. (if clip then (\<lambda>b. hd (clip_boxes_by_value [b] (Fin 0) (Fin 1)))
                                else (\<lambda>b. b))
                               (box_change_coordinate_frame env (boxes ! i) window)) s"
    and "new_labels = map (\<lambda>i. labels ! i) s"
    and "new_lw = map_option (\<lambda>xs. map (\<lambda>i. xs ! i) s) lw"
    and "new_lc = map_option (\<lambda>xs. map (\<lambda>i. xs ! i) s) lc"
    and "new_ms = map_option (\<lambda>xs. map (\<lambda>i. xs ! i) s) ms"
    and "case masks of
           None \<Rightarrow> new_masks = None
         | Some m \<Rightarrow>
             (\<exists>nm. new_masks = Some nm
                \<and> map (\<lambda>i. slice2 (m ! i) (fst begin, fst (snd begin)) (fst sz, fst (snd sz))) s
                  = map Inr nm)"
    and "new_kps =
           map_option
             (\<lambda>k. map (\<lambda>i. (if clip
                             then (\<lambda>kp. keypoints_prune_outside_window env kp
                                          (Fin 0, Fin 0, Fin 1, Fin 1))
                             else (\<lambda>kp. kp))
                            (keypoints_change_coordinate_frame env (k ! i) window)) s) kps"
proof -
  let ?bl = "\<lparr>bl_boxes = boxes, bl_labels = labels, bl_label_weights = lw,
              bl_label_confidences = lc, bl_multiclass_scores = ms\<rparr>"
  let ?inside = "filter (\<lambda>i. \<not> completely_outside_window env (boxes ! i) window)
                   [0..<length boxes]"
  from assms(1) obtain bl1 inside bl2 keep nm nk where
    p1: "prune_completely_outside_window env ?bl window = Inr (bl1, inside)" and
    p2: "prune_non_overlapping_boxes env bl1 window ot = Inr (bl2, keep)" and
    m: "(case masks of None \<Rightarrow> Inr None
         | Some m \<Rightarrow>
             bind_error (gather m inside) (\<lambda>a.
             bind_error (gather a keep) (\<lambda>b.
             bind_error (slice3 b (0, fst begin, fst (snd begin)) (-1, fst sz, fst (snd sz)))
               (\<lambda>new_masks. Inr (Some new_masks))))) = Inr nm" and
    k: "(case kps of None \<Rightarrow> Inr None
         | Some k \<Rightarrow>
             bind_error (gather k inside) (\<lambda>a.
             bind_error (gather a keep) (\<lambda>b.
               (let new_keypoints = map (\<lambda>kp. keypoints_change_coordinate_frame env kp window) b;
                    new_keypoints =
                      (if clip
                       then map (\<lambda>kp. keypoints_prune_outside_window env kp
                                         (Fin 0, Fin 0, Fin 1, Fin 1)) new_keypoints
                       else new_keypoints)
                in Inr (Some new_keypoints))))) = Inr nk" and
    out: "new_boxes = (if clip
                       then clip_boxes_by_value
                              (bl_boxes (change_coordinate_frame env bl2 window)) (Fin 0) (Fin 1)
                       else bl_boxes (change_coordinate_frame env bl2 window))"
         "new_labels = bl_labels bl2" "new_lw = bl_label_weights bl2"
         "new_lc = bl_label_confidences bl2" "new_ms = bl_multiclass_scores bl2"
         "new_masks = nm" "new_kps = nk"
    unfolding crop_to_sample_def Let_def
    by (auto simp: bind_error_Inr split: prod.splits)
  have inside: "inside = ?inside"
    using p1 by (auto simp: prune_completely_outside_window_def Let_def bind_error_Inr
                   tf_where_map)
  have g1: "box_list_gather ?bl inside = Inr bl1"
    using p1 by (auto simp: prune_completely_outside_window_def Let_def bind_error_Inr)
  note f1 = box_list_gather_Inr [OF g1, simplified]
  have len1: "length (bl_boxes bl1) = length inside"
    using f1 by simp
  have keep: "keep = filter (\<lambda>j. overlaps_window env (boxes ! (inside ! j)) window ot)
                       [0..<length inside]"
  proof -
    have "keep = filter (\<lambda>j. overlaps_window env (bl_boxes bl1 ! j) window ot)
                   [0..<length (bl_boxes bl1)]"
      using p2 by (auto simp: prune_non_overlapping_boxes_def Let_def bind_error_Inr
                     tf_where_map)
    also have "\<dots> = filter (\<lambda>j. overlaps_window env (boxes ! (inside ! j)) window ot)
                      [0..<length inside]"
      unfolding len1 using f1 by (intro filter_cong) simp_all
    finally show ?thesis .
  qed
  have kb: "\<forall>j\<in>set keep. j < length inside"
    unfolding keep by simp
  have s: "s = map (\<lambda>j. inside ! j) keep"
    unfolding s_def surviving_indices_def Let_def inside [symmetric] keep [symmetric] ..
  have g2: "box_list_gather bl1 keep = Inr bl2"
    using p2 by (auto simp: prune_non_overlapping_boxes_def Let_def bind_error_Inr)
  note f2 = box_list_gather_Inr [OF g2]
  have b2: "bl_boxes bl2 = map (\<lambda>i. boxes ! i) s"
    using f1 f2 kb by (simp add: s comp_def)
  show "new_labels = map (\<lambda>i. labels ! i) s"
    using f1 f2 kb out by (simp add: s comp_def)
  show "new_lw = map_option (\<lambda>xs. map (\<lambda>i. xs ! i) s) lw"
    using f1 f2 kb out by (cases lw) (simp_all add: s comp_def)
  show "new_lc = map_option (\<lambda>xs. map (\<lambda>i. xs ! i) s) lc"
    using f1 f2 kb out by (cases lc) (simp_all add: s comp_def)
  show "new_ms = map_option (\<lambda>xs. map (\<lambda>i. xs ! i) s) ms"
    using f1 f2 kb out by (cases ms) (simp_all add: s comp_def)
  show "new_boxes = map (\<lambda>i. (if clip then (\<lambda>b. hd (clip_boxes_by_value [b] (Fin 0) (Fin 1)))
                                else (\<lambda>b. b))
                               (box_change_coordinate_frame env (boxes ! i) window)) s"
    using out(1) b2
    by (simp add: change_coordinate_frame_def clip_boxes_by_value_def comp_def)
  show "case masks of
           None \<Rightarrow> new_masks = None
         | Some m \<Rightarrow>
             (\<exists>nm. new_masks = Some nm
                \<and> map (\<lambda>i. slice2 (m ! i) (fst begin, fst (snd begin)) (fst sz, fst (snd sz))) s
                  = map Inr nm)"
  proof (cases masks)
    case None
    with m out show ?thesis by simp
  next
    case (Some mm)
    with m obtain nm' where
      nm: "nm = Some nm'" and
      sl: "slice3 (map (\<lambda>j. map (\<lambda>i. mm ! i) inside ! j) keep)
             (0, fst begin, fst (snd begin)) (-1, fst sz, fst (snd sz)) = Inr nm'"
      by (auto simp: bind_error_Inr gather_Inr)
    have "map (\<lambda>j. map (\<lambda>i. mm ! i) inside ! j) keep = map (\<lambda>i. mm ! i) s"
      using kb by (simp add: s comp_def)
    with sl have "map_errors (\<lambda>plane. slice2 plane (fst begin, fst (snd begin))
                                         (fst sz, fst (snd sz))) (map (\<lambda>i. mm ! i) s) = Inr nm'"
      by (simp add: slice3_def slice_dim_def bind_error_def)
    then show ?thesis
      using Some nm out by (simp add: map_errors_Inr comp_def)
  qed
  show "new_kps =
           map_option
             (\<lambda>k. map (\<lambda>i. (if clip
                             then (\<lambda>kp. keypoints_prune_outside_window env kp
                                          (Fin 0, Fin 0, Fin 1, Fin 1))
                             else (\<lambda>kp. kp))
                            (keypoints_change_coordinate_frame env (k ! i) window)) s) kps"
  proof (cases kps)
    case None
    with k out show ?thesis by simp
  next
    case (Some kk)
    have "map (\<lambda>j. map (\<lambda>i. kk ! i) inside ! j) keep = map (\<lambda>i. kk ! i) s"
      using kb by (simp add: s comp_def)
    with k Some out show ?thesis
      by (auto simp: bind_error_Inr gather_Inr Let_def comp_def)
  qed
qed


lemma surviving_indices_bound:
  "(\<forall>i\<in>set (surviving_indices env boxes window ot). i < length boxes)
   \<and> length (surviving_indices env boxes window ot) \<le> length boxes"
proof -
  let ?inside = "filter (\<lambda>i. \<not> completely_outside_window env (boxes ! i) window)
                   [0..<length boxes]"
  let ?keep = "filter (\<lambda>j. overlaps_window env (boxes ! (?inside ! j)) window ot)
                 [0..<length ?inside]"
  have i: "\<forall>i\<in>set ?inside. i < length boxes" by simp
  have "\<forall>j\<in>set ?keep. j < length ?inside" by simp
  then have a: "\<forall>j\<in>set ?keep. ?inside ! j < length boxes"
    using i nth_mem by blast
  have "length ?keep \<le> length [0..<length ?inside]" by (rule length_filter_le)
  also have "\<dots> = length ?inside" by simp
  also have "\<dots> \<le> length [0..<length boxes]" by (rule length_filter_le)
  finally have b: "length ?keep \<le> length boxes" by simp
  from a b show ?thesis
    unfolding surviving_indices_def Let_def by simp
qed

text \<open>
  C8. Whenever \<open>_strict_random_crop_image\<close> returns, for \<open>N\<close> input boxes and the sampled
  window: with \<open>M\<close> the number of rows surviving the two prunings (\<open>M \<le> N\<close>), the boxes,
  the labels and every optional output that is present (label weights, label confidences,
  multiclass scores, masks, keypoints) have exactly \<open>M\<close> rows, and row \<open>i\<close> of each of them
  comes from the input row of the \<open>i\<close>-th surviving index: the box remapped into the window
  (and clipped), the label, weight, confidence and scores as they were, the mask sliced to
  the window, the keypoints remapped (and pruned).
\<close>

theorem strict_random_crop_index_alignment:
  "get_or_create_preprocess_rand_vars
       (sample_distorted_bounding_box env (tf_shape img)
          (clip_boxes_by_value boxes (Fin 0) (Fin 1)) moc arr ar)
       STRICT_CROP_IMAGE cache (Key_num moc) r = (var, cache1, r1)
   \<and> run (strict_random_crop_image env img boxes labels lw lc ms masks kps moc arr ar ot clip)
         cache r
       = (Inr (new_image, new_boxes, new_labels, new_lw, new_lc, new_ms, new_masks, new_kps),
          cache', r')
   \<longrightarrow>
   (case var of
      Rand_bbox begin sz window \<Rightarrow>
        (let s = surviving_indices env boxes window ot; M = length s
           in M \<le> length boxes \<and> (\<forall>i\<in>set s. i < length boxes)
              \<and> length new_boxes = M \<and> length new_labels = M
              \<and> (\<forall>x. new_lw = Some x \<longrightarrow> length x = M)
              \<and> (\<forall>x. new_lc = Some x \<longrightarrow> length x = M)
              \<and> (\<forall>x. new_ms = Some x \<longrightarrow> length x = M)
              \<and> (\<forall>x. new_masks = Some x \<longrightarrow> length x = M)
              \<and> (\<forall>x. new_kps = Some x \<longrightarrow> length x = M)
              \<and> new_boxes
                  = map (\<lambda>i. (if clip then (\<lambda>b. hd (clip_boxes_by_value [b] (Fin 0) (Fin 1)))
                               else (\<lambda>b. b))
                              (box_change_coordinate_frame env (boxes ! i) window)) s
              \<and> new_labels = map (\<lambda>i. labels ! i) s
              \<and> new_lw = map_option (\<lambda>xs. map (\<lambda>i. xs ! i) s) lw
              \<and> new_lc = map_option (\<lambda>xs. map (\<lambda>i. xs ! i) s) lc
              \<and> new_ms = map_option (\<lambda>xs. map (\<lambda>i. xs ! i) s) ms
              \<and> (case masks of
                    None \<Rightarrow> new_masks = None
                  | Some m \<Rightarrow>
                      (\<exists>nm. new_masks = Some nm
                         \<and> map (\<lambda>i. slice2 (m ! i) (fst begin, fst (snd begin))
                                        (fst sz, fst (snd sz))) s
                           = map Inr nm))
              \<and> new_kps
                  = map_option
                      (\<lambda>k. map (\<lambda>i. (if clip
                                      then (\<lambda>kp. keypoints_prune_outside_window env kp
                                                   (Fin 0, Fin 0, Fin 1, Fin 1))
                                      else (\<lambda>kp. kp))
                                     (keypoints_change_coordinate_frame env (k ! i) window)) s)
                      kps)
    | _ \<Rightarrow> False)"
proof
  let ?g = "sample_distorted_bounding_box env (tf_shape img)
              (clip_boxes_by_value boxes (Fin 0) (Fin 1)) moc arr ar"
  let ?res = "Inr (new_image, new_boxes, new_labels, new_lw, new_lc, new_ms, new_masks, new_kps)"
  assume "get_or_create_preprocess_rand_vars ?g STRICT_CROP_IMAGE cache (Key_num moc) r
            = (var, cache1, r1)
          \<and> run (strict_random_crop_image env img boxes labels lw lc ms masks kps moc arr ar
                    ot clip) cache r = (?res, cache', r')"
  then have g: "get_or_create_preprocess_rand_vars ?g STRICT_CROP_IMAGE cache (Key_num moc) r
                  = (var, cache1, r1)"
    and a: "run (strict_random_crop_image env img boxes labels lw lc ms masks kps moc arr ar
                    ot clip) cache r = (?res, cache', r')"
    by simp_all
  from a g obtain bgn sz window where
    v: "var = Rand_bbox bgn sz window" and
    c: "crop_to_sample env img boxes labels lw lc ms masks kps ot clip bgn sz window = ?res"
    by (cases var) (simp_all add: strict_random_crop_image_def Let_def)
  note al = crop_to_sample_alignment [OF c]
  let ?s = "surviving_indices env boxes window ot"
  have lens: "length new_boxes = length ?s" "length new_labels = length ?s"
    "\<forall>x. new_lw = Some x \<longrightarrow> length x = length ?s"
    "\<forall>x. new_lc = Some x \<longrightarrow> length x = length ?s"
    "\<forall>x. new_ms = Some x \<longrightarrow> length x = length ?s"
    "\<forall>x. new_kps = Some x \<longrightarrow> length x = length ?s"
    using al(1-5,7) by auto
  have lm: "\<forall>x. new_masks = Some x \<longrightarrow> length x = length ?s"
  proof (cases masks)
    case None
    with al(6) show ?thesis by simp
  next
    case (Some m)
    with al(6) obtain nm where
      "new_masks = Some nm"
      "map (\<lambda>i. slice2 (m ! i) (fst bgn, fst (snd bgn)) (fst sz, fst (snd sz))) ?s
       = map Inr nm"
      by auto
    then show ?thesis
      using map_eq_imp_length_eq by fastforce
  qed
  show "case var of
      Rand_bbox begin sz window \<Rightarrow>
        (let s = surviving_indices env boxes window ot; M = length s
           in M \<le> length boxes \<and> (\<forall>i\<in>set s. i < length boxes)
              \<and> length new_boxes = M \<and> length new_labels = M
              \<and> (\<forall>x. new_lw = Some x \<longrightarrow> length x = M)
              \<and> (\<forall>x. new_lc = Some x \<longrightarrow> length x = M)
              \<and> (\<forall>x. new_ms = Some x \<longrightarrow> length x = M)
              \<and> (\<forall>x. new_masks = Some x \<longrightarrow> length x = M)
              \<and> (\<forall>x. new_kps = Some x \<longrightarrow> length x = M)
              \<and> new_boxes
                  = map (\<lambda>i. (if clip then (\<lambda>b. hd (clip_boxes_by_value [b] (Fin 0) (Fin 1)))
                               else (\<lambda>b. b))
                              (box_change_coordinate_frame env (boxes ! i) window)) s
              \<and> new_labels = map (\<lambda>i. labels ! i) s
              \<and> new_lw = map_option (\<lambda>xs. map (\<lambda>i. xs ! i) s) lw
              \<and> new_lc = map_option (\<lambda>xs. map (\<lambda>i. xs ! i) s) lc
              \<and> new_ms = map_option (\<lambda>xs. map (\<lambda>i. xs ! i) s) ms
              \<and> (case masks of
                    None \<Rightarrow> new_masks = None
                  | Some m \<Rightarrow>
                      (\<exists>nm. new_masks = Some nm
                         \<and> map (\<lambda>i. slice2 (m ! i) (fst begin, fst (snd begin))
                                        (fst sz, fst (snd sz))) s
                           = map Inr nm))
              \<and> new_kps
                  = map_option
                      (\<lambda>k. map (\<lambda>i. (if clip
                                      then (\<lambda>kp. keypoints_prune_outside_window env kp
                                                   (Fin 0, Fin 0, Fin 1, Fin 1))
                                      else (\<lambda>kp. kp))
                                     (keypoints_change_coordinate_frame env (k ! i) window)) s)
                      kps)
    | _ \<Rightarrow> False"
    unfolding v rand_var.case Let_def
    using surviving_indices_bound [of env boxes window ot] lens lm al
    by (intro conjI) simp_all
qed

lemma ex_tf_where_inside:
  "tf_where (map (\<lambda>b. \<not> completely_outside_window example_externals b
                          (Fin 0, Fin 0, Fin (1 / 2), Fin (1 / 2))) example_boxes) = [1, 3]"
  by (simp add: tf_where_def example_externals_def example_boxes_def upt_rec nth_Cons')

lemma ex_prune1:
  "prune_completely_outside_window example_externals
     \<lparr>bl_boxes = example_boxes, bl_labels = [1, 2, 3, 4],
      bl_label_weights = Some [Fin 1, Fin (1 / 2), Fin (1 / 4), NaN],
      bl_label_confidences = None, bl_multiclass_scores = None\<rparr>
     (Fin 0, Fin 0, Fin (1 / 2), Fin (1 / 2))
   = Inr (\<lparr>bl_boxes = [(Fin 0, Fin 0, Fin (1 / 4), Fin (1 / 4)),
                        (Fin (1 / 4), Fin (1 / 4), Fin (3 / 4), Fin (3 / 4))],
           bl_labels = [2, 4], bl_label_weights = Some [Fin (1 / 2), NaN],
           bl_label_confidences = None, bl_multiclass_scores = None\<rparr>, [1, 3])"
  unfolding prune_completely_outside_window_def Let_def box_list.select_convs
    ex_tf_where_inside
  by (simp add: box_list_gather_def gather_def bind_error_def example_boxes_def)

lemma ex_prune2:
  "prune_non_overlapping_boxes example_externals
     \<lparr>bl_boxes = [(Fin 0, Fin 0, Fin (1 / 4), Fin (1 / 4)),
                        (Fin (1 / 4), Fin (1 / 4), Fin (3 / 4), Fin (3 / 4))],
           bl_labels = [2, 4], bl_label_weights = Some [Fin (1 / 2), NaN],
           bl_label_confidences = None, bl_multiclass_scores = None\<rparr>
     (Fin 0, Fin 0, Fin (1 / 2), Fin (1 / 2)) (Fin (7 / 10))
   = Inr (\<lparr>bl_boxes = [(Fin 0, Fin 0, Fin (1 / 4), Fin (1 / 4))],
           bl_labels = [2], bl_label_weights = Some [Fin (1 / 2)],
           bl_label_confidences = None, bl_multiclass_scores = None\<rparr>, [0])"
  unfolding prune_non_overlapping_boxes_def Let_def
  by (simp add: tf_where_def example_externals_def upt_rec nth_Cons'
        box_list_gather_def gather_def bind_error_def)


lemma ex_slice_image:
  "slice3 example_image (0, 0, 0) (1, 1, -1) = Inr [[[Fin 1]]]"
  by (simp add: slice3_def slice2_def slice_dim_def bind_error_def example_image_def)

lemma ex_slice_masks:
  "slice3 [[[Fin 1, Fin 0], [Fin 0, Fin 0]]] (0, 0, 0) (-1, 1, 1) = Inr [[[Fin 1]]]"
  by (simp add: slice3_def slice2_def slice_dim_def bind_error_def)

lemma ex_gather_masks:
  "gather example_masks [1, 3] = Inr [[[Fin 1, Fin 0], [Fin 0, Fin 0]], [[Fin 1, Fin 1], [Fin 1, Fin 1]]]"
  "gather [[[Fin 1, Fin 0], [Fin 0, Fin 0]], [[Fin 1, Fin 1], [Fin 1, Fin 1]]] [0]
   = Inr [[[Fin 1, Fin 0], [Fin 0, Fin 0]]]"
  by (simp_all add: gather_def example_masks_def)

lemma ex_gather_keypoints:
  "gather example_keypoints [1, 3] = Inr [[(Fin 0, Fin (1 / 4))], [(Fin (1 / 2), Fin (1 / 2))]]"
  "gather [[(Fin 0, Fin (1 / 4))], [(Fin (1 / 2), Fin (1 / 2))]] [0] = Inr [[(Fin 0, Fin (1 / 4))]]"
  by (simp_all add: gather_def example_keypoints_def)

lemma ex_clip:
  "clip_boxes_by_value [(Fin 0, Fin 0, Fin (1 / 4), Fin (1 / 4))] (Fin 0) (Fin 1)
   = [(Fin 0, Fin 0, Fin (1 / 4), Fin (1 / 4))]"
  by (simp add: clip_boxes_by_value_def clip_by_value_def)

lemma example_crop_to_sample:
  "crop_to_sample example_externals example_image example_boxes [1, 2, 3, 4]
     (Some [Fin 1, Fin (1 / 2), Fin (1 / 4), NaN]) None None (Some example_masks)
     (Some example_keypoints) (Fin (7 / 10)) True (0, 0, 0) (1, 1, -1)
     (Fin 0, Fin 0, Fin (1 / 2), Fin (1 / 2))
   = Inr ([[[Fin 1]]], [(Fin 0, Fin 0, Fin (1 / 4), Fin (1 / 4))], [2], Some [Fin (1 / 2)],
          None, None, Some [[[Fin 1]]], Some [[(Fin 0, Fin (1 / 4))]])"
  unfolding crop_to_sample_def Let_def ex_slice_image ex_prune1
  apply (simp only: bind_error_def sum.case prod.case ex_prune2 ex_gather_masks
           ex_gather_keypoints option.case)
  apply (simp add: change_coordinate_frame_def ex_clip ex_slice_masks bind_error_def)
  apply (simp add: example_externals_def ex_clip)
  done


lemma example_strict_crop:
  "run (strict_random_crop_image example_externals example_image example_boxes [1, 2, 3, 4]
          (Some [Fin 1, Fin (1 / 2), Fin (1 / 4), NaN]) None None (Some example_masks)
          (Some example_keypoints) (Fin 1) (Fin (1 / 2), Fin 2) (Fin (1 / 10), Fin 1)
          (Fin (7 / 10)) True) (Some Map.empty) 0
   = (Inr ([[[Fin 1]]], [(Fin 0, Fin 0, Fin (1 / 4), Fin (1 / 4))], [2], Some [Fin (1 / 2)],
           None, None, Some [[[Fin 1]]], Some [[(Fin 0, Fin (1 / 4))]]),
      Some [(STRICT_CROP_IMAGE, Key_num (Fin 1)) \<mapsto>
             Rand_bbox (0, 0, 0) (1, 1, -1) (Fin 0, Fin 0, Fin (1 / 2), Fin (1 / 2))],
      Suc 0)"
proof -
  have "run (strict_random_crop_image example_externals example_image example_boxes
               [1, 2, 3, 4] (Some [Fin 1, Fin (1 / 2), Fin (1 / 4), NaN]) None None
               (Some example_masks) (Some example_keypoints) (Fin 1) (Fin (1 / 2), Fin 2)
               (Fin (1 / 10), Fin 1) (Fin (7 / 10)) True) (Some Map.empty) 0
        = (crop_to_sample example_externals example_image example_boxes [1, 2, 3, 4]
             (Some [Fin 1, Fin (1 / 2), Fin (1 / 4), NaN]) None None (Some example_masks)
             (Some example_keypoints) (Fin (7 / 10)) True (0, 0, 0) (1, 1, -1)
             (Fin 0, Fin 0, Fin (1 / 2), Fin (1 / 2)),
           Some [(STRICT_CROP_IMAGE, Key_num (Fin 1)) \<mapsto>
                  Rand_bbox (0, 0, 0) (1, 1, -1) (Fin 0, Fin 0, Fin (1 / 2), Fin (1 / 2))],
           Suc 0)"
    by (simp add: strict_random_crop_image_def Let_def get_or_create_preprocess_rand_vars_def
          cache_get_def cache_update_def example_externals_def)
  then show ?thesis
    by (simp only: example_crop_to_sample)
qed

theorem strict_random_crop_index_alignment_witness:
  "run (strict_random_crop_image example_externals example_image example_boxes [1, 2, 3, 4]
          (Some [Fin 1, Fin (1 / 2), Fin (1 / 4), NaN]) None None (Some example_masks)
          (Some example_keypoints) (Fin 1) (Fin (1 / 2), Fin 2) (Fin (1 / 10), Fin 1)
          (Fin (7 / 10)) True) (Some Map.empty) 0
   = (Inr ([[[Fin 1]]], [(Fin 0, Fin 0, Fin (1 / 4), Fin (1 / 4))], [2], Some [Fin (1 / 2)],
           None, None, Some [[[Fin 1]]], Some [[(Fin 0, Fin (1 / 4))]]),
      Some [(STRICT_CROP_IMAGE, Key_num (Fin 1)) \<mapsto>
             Rand_bbox (0, 0, 0) (1, 1, -1) (Fin 0, Fin 0, Fin (1 / 2), Fin (1 / 2))],
      Suc 0)
   \<and> surviving_indices example_externals example_boxes
        (Fin 0, Fin 0, Fin (1 / 2), Fin (1 / 2)) (Fin (7 / 10)) = [1]
   \<and> [2] = map (\<lambda>i. [1, 2, 3, 4 :: int] ! i)
              (surviving_indices example_externals example_boxes
                 (Fin 0, Fin 0, Fin (1 / 2), Fin (1 / 2)) (Fin (7 / 10)))"
proof -
  let ?w = "(Fin 0, Fin 0, Fin (1 / 2), Fin (1 / 2))"
  let ?c = "[(STRICT_CROP_IMAGE, Key_num (Fin 1)) \<mapsto> Rand_bbox (0, 0, 0) (1, 1, -1) ?w]"
  have g: "get_or_create_preprocess_rand_vars
             (sample_distorted_bounding_box example_externals (tf_shape example_image)
                (clip_boxes_by_value example_boxes (Fin 0) (Fin 1)) (Fin 1)
                (Fin (1 / 2), Fin 2) (Fin (1 / 10), Fin 1))
             STRICT_CROP_IMAGE (Some Map.empty) (Key_num (Fin 1)) (0::nat)
           = (Rand_bbox (0, 0, 0) (1, 1, -1) ?w, Some ?c, Suc 0)"
    by (simp add: get_or_create_preprocess_rand_vars_def cache_get_def cache_update_def
          example_externals_def)
  have s: "surviving_indices example_externals example_boxes ?w (Fin (7 / 10)) = [1]"
    by (simp add: surviving_indices_def Let_def example_externals_def example_boxes_def
          nth_Cons')
  note c = strict_random_crop_index_alignment
             [rule_format, OF conjI [OF g example_strict_crop], unfolded rand_var.case Let_def]
  from c have "[2] = map (\<lambda>i. [1, 2, 3, 4 :: int] ! i)
                       (surviving_indices example_externals example_boxes ?w (Fin (7 / 10)))"
    by (elim conjE)
  with example_strict_crop s show ?thesis
    by (simp only: simp_thms)
qed

section \<open>SSD random crop: the selected case\<close>

lemma well_typed_cache_update:
  "well_typed_cache c \<Longrightarrow>
     (f = CROP_IMAGE \<longrightarrow> (\<exists>u. v = Rand_float u)) \<Longrightarrow>
     (f = STRICT_CROP_IMAGE \<longrightarrow> (\<exists>b s w. v = Rand_bbox b s w)) \<Longrightarrow>
     well_typed_cache (cache_update c f k v)"
  unfolding well_typed_cache_def cache_get_def cache_update_def
  by (auto split: if_splits)

lemma get_or_create_strict_typed:
  assumes "well_typed_cache c" "well_typed_externals env"
    and "get_or_create_preprocess_rand_vars
           (sample_distorted_bounding_box env sh bx moc arr ar) STRICT_CROP_IMAGE (Some c)
           (Key_num moc) r = (var, co, r')"
  shows "\<exists>c' b s w. co = Some c' \<and> well_typed_cache c' \<and> var = Rand_bbox b s w"
proof (cases "cache_get c STRICT_CROP_IMAGE (Key_num moc)")
  case None
  from assms(2) obtain b s w where
    "fst (sample_distorted_bounding_box env sh bx moc arr ar r) = Rand_bbox b s w"
    unfolding well_typed_externals_def by blast
  with None assms(3) have
    "co = Some (cache_update c STRICT_CROP_IMAGE (Key_num moc) (Rand_bbox b s w))"
    "var = Rand_bbox b s w"
    by (auto simp: get_or_create_preprocess_rand_vars_def split: prod.splits)
  moreover have
    "well_typed_cache (cache_update c STRICT_CROP_IMAGE (Key_num moc) (Rand_bbox b s w))"
    using assms(1) by (rule well_typed_cache_update) blast+
  ultimately show ?thesis
    by blast
next
  case (Some v)
  with assms(1) obtain b s w where "v = Rand_bbox b s w"
    unfolding well_typed_cache_def by blast
  moreover from Some assms(3) have "co = Some c" "var = v"
    by (auto simp: get_or_create_preprocess_rand_vars_def)
  ultimately show ?thesis
    using assms(1) by blast
qed

lemma get_or_create_crop_typed:
  assumes "well_typed_cache c" "well_typed_externals env"
    and "get_or_create_preprocess_rand_vars (random_uniform env) CROP_IMAGE (Some c)
           (Key_str []) r = (var, co, r')"
  shows "\<exists>c' u. co = Some c' \<and> well_typed_cache c' \<and> var = Rand_float u"
proof (cases "cache_get c CROP_IMAGE (Key_str [])")
  case None
  from assms(2) obtain u where "fst (random_uniform env r) = Rand_float u"
    unfolding well_typed_externals_def by blast
  with None assms(3) have
    "co = Some (cache_update c CROP_IMAGE (Key_str []) (Rand_float u))" "var = Rand_float u"
    by (auto simp: get_or_create_preprocess_rand_vars_def split: prod.splits)
  moreover have "well_typed_cache (cache_update c CROP_IMAGE (Key_str []) (Rand_float u))"
    using assms(1) by (rule well_typed_cache_update) simp_all
  ultimately show ?thesis
    by blast
next
  case (Some v)
  with assms(1) obtain u where "v = Rand_float u"
    unfolding well_typed_cache_def by blast
  moreover from Some assms(3) have "co = Some c" "var = v"
    by (auto simp: get_or_create_preprocess_rand_vars_def)
  ultimately show ?thesis
    using assms(1) by blast
qed

lemma run_strict_typed:
  assumes "well_typed_cache c" "well_typed_externals env"
    and "run (strict_random_crop_image env img boxes labels lw lc ms masks kps moc arr ar ot
                clip) (Some c) r = (res, co, r')"
  shows "(\<exists>c'. co = Some c' \<and> well_typed_cache c') \<and> runtime_only res"
proof -
  let ?g = "sample_distorted_bounding_box env (tf_shape img)
              (clip_boxes_by_value boxes (Fin 0) (Fin 1)) moc arr ar"
  obtain var c1 r1 where
    g: "get_or_create_preprocess_rand_vars ?g STRICT_CROP_IMAGE (Some c) (Key_num moc) r
        = (var, c1, r1)"
    by (cases "get_or_create_preprocess_rand_vars ?g STRICT_CROP_IMAGE (Some c) (Key_num moc) r")
  from get_or_create_strict_typed [OF assms(1,2) g] obtain c' b s w where
    "c1 = Some c'" "well_typed_cache c'" "var = Rand_bbox b s w"
    by blast
  with assms(3) g show ?thesis
    by (auto simp: strict_random_crop_image_def Let_def runtime_only_crop_to_sample)
qed

lemma run_random_crop_image_typed:
  assumes "well_typed_cache c" "well_typed_externals env"
    and "run (random_crop_image env img boxes labels lw lc ms masks kps moc arr ar ot clip
                random_coef) (Some c) r = (res, co, r')"
  shows "(\<exists>c'. co = Some c' \<and> well_typed_cache c') \<and> runtime_only res"
proof (cases "flt random_coef float_info_min")
  case True
  with assms(3) have
    "run (strict_random_crop_image env img boxes labels lw lc ms masks kps moc arr ar ot clip)
       (Some c) r = (res, co, r')"
    by (simp add: random_crop_image_def Let_def)
  from run_strict_typed [OF assms(1,2) this] show ?thesis .
next
  case False
  let ?strict = "strict_random_crop_image env img boxes labels lw lc ms masks kps moc arr ar
                   ot clip"
  obtain var ca ra where
    g: "get_or_create_preprocess_rand_vars (random_uniform env) CROP_IMAGE (Some c)
          (Key_str []) r = (var, ca, ra)"
    by (cases "get_or_create_preprocess_rand_vars (random_uniform env) CROP_IMAGE (Some c)
                 (Key_str []) r")
  from get_or_create_crop_typed [OF assms(1,2) g] obtain c' u where
    ca: "ca = Some c'" and wt: "well_typed_cache c'" and v: "var = Rand_float u"
    by blast
  obtain cropped cb rb where s: "run ?strict (Some c') ra = (cropped, cb, rb)"
    by (cases "run ?strict (Some c') ra")
  from run_strict_typed [OF wt assms(2) s] obtain c'' where
    cb: "cb = Some c''" and wt': "well_typed_cache c''" and ro: "runtime_only cropped"
    by blast
  from assms(3) False g ca v s have
    "res = (if tf_greater u (to_float32 random_coef) then cropped
            else Inr (img, boxes, labels, lw, lc, ms, masks, kps))"
    and "co = cb"
    using ro by (simp_all add: random_crop_image_def Let_def run_tf_cond raised_iff
                   runtime_only_Inr)
  with cb wt' ro show ?thesis
    by (simp add: runtime_only_Inr)
qed

lemma random_crop_selector_index:
  assumes "index < length moc" "index < length arr" "index < length ar"
    "index < length ot" "index < length cb" "index < length rc"
  shows "random_crop_selector env moc arr ar ot cb rc
           (img, boxes, labels, lw, lc, ms, masks, kps) index
         = random_crop_image env img boxes labels lw lc ms masks kps (moc ! index) (arr ! index)
             (ar ! index) (ot ! index) (cb ! index) (rc ! index)"
  using assms by (simp add: random_crop_selector_def index_tuple_def)

lemma run_for_cases_typed:
  assumes "well_typed_externals env"
    and "\<forall>i\<in>set cases. i < length moc \<and> i < length arr \<and> i < length ar
            \<and> i < length ot \<and> i < length cb \<and> i < length rc"
  shows "well_typed_cache c \<Longrightarrow>
     \<exists>outs co r'. run (for_cases (random_crop_selector env moc arr ar ot cb rc x) cases)
                    (Some c) r = (Inr outs, co, r')"
  using assms(2)
proof (induction cases arbitrary: c r)
  case Nil
  then show ?case by simp
next
  case (Cons i cases)
  obtain img boxes labels lw lc ms masks kps where
    x: "x = (img, boxes, labels, lw, lc, ms, masks, kps)"
    by (cases x) auto
  let ?p = "random_crop_image env img boxes labels lw lc ms masks kps (moc ! i) (arr ! i)
              (ar ! i) (ot ! i) (cb ! i) (rc ! i)"
  have sel: "random_crop_selector env moc arr ar ot cb rc x i = ?p"
    unfolding x using Cons.prems(2) by (intro random_crop_selector_index) simp_all
  obtain o1 c1 r1 where r1: "run ?p (Some c) r = (o1, c1, r1)"
    by (cases "run ?p (Some c) r")
  from run_random_crop_image_typed [OF Cons.prems(1) assms(1) r1] obtain c' where
    c1: "c1 = Some c'" and wt: "well_typed_cache c'" and ro: "runtime_only o1"
    by blast
  from Cons.IH [OF wt, of r1] Cons.prems(2) obtain outs co r' where
    rest: "run (for_cases (random_crop_selector env moc arr ar ot cb rc x) cases) (Some c') r1
           = (Inr outs, co, r')"
    by auto
  from ro rest r1 c1 show ?case
    by (cases o1)
       (simp_all add: sel run_and_then runtime_only_def bind_error_def)
qed


lemma ssd_random_crop_selected_first:
  assumes sel: "cache_get c SELECTOR_TUPLES SSD_CROP_SELECTOR_ID = Some (Rand_int 0)"
    and wt: "well_typed_cache c" "well_typed_externals env"
    and len: "0 < length moc" "length moc \<le> length arr" "length moc \<le> length ar"
      "length moc \<le> length ot" "length moc \<le> length cb" "length moc \<le> length rc"
  shows "fst (run (ssd_random_crop env img boxes labels lw lc ms masks kps moc arr ar ot cb rc)
                (Some c) r)
         = fst (run (random_crop_image env img boxes labels lw lc ms masks kps (moc ! 0)
                       (arr ! 0) (ar ! 0) (ot ! 0) (cb ! 0) (rc ! 0)) (Some c) r)"
proof -
  let ?x = "(img, boxes, labels, lw, lc, ms, masks, kps)"
  let ?f = "random_crop_selector env moc arr ar ot cb rc ?x"
  let ?p = "random_crop_image env img boxes labels lw lc ms masks kps (moc ! 0) (arr ! 0)
              (ar ! 0) (ot ! 0) (cb ! 0) (rc ! 0)"
  let ?K = "length moc"
  have f0: "?f 0 = ?p"
    using len by (intro random_crop_selector_index; linarith)
  have cases: "[0..<?K] = 0 # [1..<?K]"
    using len(1) by (simp add: upt_conv_Cons)
  obtain o1 c1 r1 where r1: "run ?p (Some c) r = (o1, c1, r1)"
    by (cases "run ?p (Some c) r")
  from run_random_crop_image_typed [OF wt r1] obtain c' where
    c1: "c1 = Some c'" and wt': "well_typed_cache c'" and ro: "runtime_only o1"
    by blast
  have "\<forall>i\<in>set [1..<?K]. i < length moc \<and> i < length arr \<and> i < length ar
          \<and> i < length ot \<and> i < length cb \<and> i < length rc"
    using len by auto
  from run_for_cases_typed [OF wt(2) this wt', of ?x r1] obtain outs co r' where
    rest: "run (for_cases ?f [1..<?K]) (Some c') r1 = (Inr outs, co, r')"
    by blast
  have all: "run (for_cases ?f [0..<?K]) (Some c) r = (Inr (o1 # outs), co, r')"
    unfolding cases using ro rest r1 c1
    by (cases o1) (simp_all add: f0 run_and_then runtime_only_def bind_error_def)
  have "run (ssd_random_crop env img boxes labels lw lc ms masks kps moc arr ar ot cb rc)
          (Some c) r = (o1, co, r')"
    unfolding ssd_random_crop_def apply_with_random_selector_tuples_def
    by (simp add: get_or_create_hit [OF sel] run_and_then all bind_error_def merge_def)
  with r1 show ?thesis
    by simp
qed

text \<open>
  C9. \<open>ssd_random_crop\<close> is one draw, through the cache under \<open>SELECTOR_TUPLES\<close> and
  \<open>SSD_CROP_SELECTOR_ID\<close>, from the generator of a uniform selector below \<open>K\<close>, the length
  of \<open>min_object_covered\<close> (7 for the defaults). When the cache holds the selector \<open>0\<close>,
  the cache and the generators are well-typed and every preset tuple has an entry for each
  of the \<open>K\<close> cases, its output is the output of \<open>random_crop_image\<close> on the same inputs,
  cache and random source with the parameters at index 0 of the preset tuples.
\<close>

theorem ssd_random_crop_selector_zero:
  "(\<exists>k. ssd_random_crop env img boxes labels lw lc ms masks kps moc arr ar ot cb rc
         = Cached (random_uniform_int env (length moc)) SELECTOR_TUPLES SSD_CROP_SELECTOR_ID k)
   \<and> length ssd_min_object_covered = 7
   \<and> (cache_get c SELECTOR_TUPLES SSD_CROP_SELECTOR_ID = Some (Rand_int 0)
        \<and> well_typed_cache c \<and> well_typed_externals env
        \<and> 0 < length moc \<and> length moc \<le> length arr \<and> length moc \<le> length ar
        \<and> length moc \<le> length ot \<and> length moc \<le> length cb \<and> length moc \<le> length rc
      \<longrightarrow>
      fst (run (ssd_random_crop env img boxes labels lw lc ms masks kps moc arr ar ot cb rc)
             (Some c) r)
      = fst (run (random_crop_image env img boxes labels lw lc ms masks kps (moc ! 0)
                    (arr ! 0) (ar ! 0) (ot ! 0) (cb ! 0) (rc ! 0)) (Some c) r))"
  using ssd_random_crop_selected_first [of c env moc arr ar ot cb rc img boxes labels lw lc ms
          masks kps r]
  by (simp add: ssd_random_crop_def apply_with_random_selector_tuples_def
        ssd_min_object_covered_def)

theorem ssd_random_crop_selector_zero_witness:
  "cache_get [(SELECTOR_TUPLES, SSD_CROP_SELECTOR_ID) \<mapsto> Rand_int 0] SELECTOR_TUPLES
       SSD_CROP_SELECTOR_ID = Some (Rand_int 0)
   \<and> well_typed_cache [(SELECTOR_TUPLES, SSD_CROP_SELECTOR_ID) \<mapsto> Rand_int 0]
   \<and> well_typed_externals example_externals
   \<and> fst (run (ssd_random_crop example_externals example_image example_boxes [1, 2, 3, 4]
                  None None None (Some example_masks) (Some example_keypoints)
                  ssd_min_object_covered ssd_aspect_ratio_range ssd_area_range
                  ssd_overlap_thresh ssd_clip_boxes ssd_random_coef)
             (Some [(SELECTOR_TUPLES, SSD_CROP_SELECTOR_ID) \<mapsto> Rand_int 0]) 0)
     = fst (run (random_crop_image example_externals example_image example_boxes [1, 2, 3, 4]
                   None None None (Some example_masks) (Some example_keypoints)
                   (Fin 0) (Fin (1 / 2), Fin 2) (Fin (1 / 10), Fin 1) (Fin 0) True
                   (Fin (15 / 100)))
              (Some [(SELECTOR_TUPLES, SSD_CROP_SELECTOR_ID) \<mapsto> Rand_int 0]) 0)"
proof -
  let ?c = "[(SELECTOR_TUPLES, SSD_CROP_SELECTOR_ID) \<mapsto> Rand_int 0]"
  have h1: "cache_get ?c SELECTOR_TUPLES SSD_CROP_SELECTOR_ID = Some (Rand_int 0)"
    by (simp add: cache_get_def)
  have h2: "well_typed_cache ?c"
    by (simp add: well_typed_cache_def cache_get_def)
  have h3: "well_typed_externals example_externals"
    by (simp add: well_typed_externals_def example_externals_def)
  have h4: "0 < length ssd_min_object_covered"
    "length ssd_min_object_covered \<le> length ssd_aspect_ratio_range"
    "length ssd_min_object_covered \<le> length ssd_area_range"
    "length ssd_min_object_covered \<le> length ssd_overlap_thresh"
    "length ssd_min_object_covered \<le> length ssd_clip_boxes"
    "length ssd_min_object_covered \<le> length ssd_random_coef"
    by (simp_all add: ssd_min_object_covered_def ssd_aspect_ratio_range_def ssd_area_range_def
          ssd_overlap_thresh_def ssd_clip_boxes_def ssd_random_coef_def)
  have h5: "ssd_min_object_covered ! 0 = Fin 0"
    "ssd_aspect_ratio_range ! 0 = (Fin (1 / 2), Fin 2)"
    "ssd_area_range ! 0 = (Fin (1 / 10), Fin 1)" "ssd_overlap_thresh ! 0 = Fin 0"
    "ssd_clip_boxes ! 0 = True" "ssd_random_coef ! 0 = Fin (15 / 100)"
    by (simp_all add: ssd_min_object_covered_def ssd_aspect_ratio_range_def ssd_area_range_def
          ssd_overlap_thresh_def ssd_clip_boxes_def ssd_random_coef_def)
  note t = ssd_random_crop_selector_zero
    [where env = example_externals and img = example_image and boxes = example_boxes
       and labels = "[1, 2, 3, 4]" and lw = None and lc = None and ms = None
       and masks = "Some example_masks" and kps = "Some example_keypoints"
       and moc = ssd_min_object_covered and arr = ssd_aspect_ratio_range
       and ar = ssd_area_range and ot = ssd_overlap_thresh and cb = ssd_clip_boxes
       and rc = ssd_random_coef and c = ?c and r = 0,
     THEN conjunct2, THEN conjunct2, rule_format]
  from t h1 h2 h3 h4 have
    "fst (run (ssd_random_crop example_externals example_image example_boxes [1, 2, 3, 4]
                  None None None (Some example_masks) (Some example_keypoints)
                  ssd_min_object_covered ssd_aspect_ratio_range ssd_area_range
                  ssd_overlap_thresh ssd_clip_boxes ssd_random_coef) (Some ?c) 0)
     = fst (run (random_crop_image example_externals example_image example_boxes [1, 2, 3, 4]
                   None None None (Some example_masks) (Some example_keypoints)
                   (ssd_min_object_covered ! 0) (ssd_aspect_ratio_range ! 0)
                   (ssd_area_range ! 0) (ssd_overlap_thresh ! 0) (ssd_clip_boxes ! 0)
                   (ssd_random_coef ! 0)) (Some ?c) 0)"
    by blast
  with h1 h2 h3 show ?thesis
    unfolding h5 by blast
qed

section \<open>The preprocess function: properties\<close>

lemma get_or_create_mono:
  "get_or_create_preprocess_rand_vars g f (Some c) k r = (v, co, r') \<Longrightarrow>
     \<exists>c'. co = Some c' \<and> c \<subseteq>\<^sub>m c' \<and> cache_get c' f k = Some v"
  by (auto simp: get_or_create_preprocess_rand_vars_def cache_get_def cache_update_def
        map_le_def split: option.splits prod.splits)

lemma run_mono:
  "run p (Some c) r = (a, co, r') \<Longrightarrow> \<exists>c'. co = Some c' \<and> c \<subseteq>\<^sub>m c'"
proof (induction p arbitrary: c r)
  case (Return x)
  then show ?case by auto
next
  case (Cached g f k cont)
  obtain v ca ra where
    g: "get_or_create_preprocess_rand_vars g f (Some c) k r = (v, ca, ra)"
    by (cases "get_or_create_preprocess_rand_vars g f (Some c) k r")
  from get_or_create_mono [OF g] obtain c' where c': "ca = Some c'" "c \<subseteq>\<^sub>m c'"
    by blast
  from Cached.prems g c' have "run (cont v) (Some c') ra = (a, co, r')"
    by simp
  from Cached.IH [OF rangeI this] obtain c'' where "co = Some c''" "c' \<subseteq>\<^sub>m c''"
    by blast
  with c' show ?case
    using map_le_trans by blast
next
  case (Fresh g cont)
  obtain v ra where g: "g r = (v, ra)"
    by (cases "g r")
  with Fresh.prems have "run (cont v) (Some c) ra = (a, co, r')"
    by simp
  from Fresh.IH [OF rangeI this] show ?case .
qed

lemma run_replay:
  "cache_aware p \<Longrightarrow> run p (Some c) r = (a, Some c', r') \<Longrightarrow> c' \<subseteq>\<^sub>m d \<Longrightarrow>
     run p (Some d) s = (a, Some d, s)"
proof (induction p arbitrary: c r)
  case (Return x)
  then show ?case by auto
next
  case (Cached g f k cont)
  obtain v ca ra where
    g: "get_or_create_preprocess_rand_vars g f (Some c) k r = (v, ca, ra)"
    by (cases "get_or_create_preprocess_rand_vars g f (Some c) k r")
  from get_or_create_mono [OF g] obtain cb where
    cb: "ca = Some cb" "c \<subseteq>\<^sub>m cb" "cache_get cb f k = Some v"
    by blast
  from Cached.prems(2) g cb have rest: "run (cont v) (Some cb) ra = (a, Some c', r')"
    by simp
  from run_mono [OF rest] have "cb \<subseteq>\<^sub>m c'"
    by simp
  with Cached.prems(3) have "cb \<subseteq>\<^sub>m d"
    using map_le_trans by blast
  with cb(3) have hit: "cache_get d f k = Some v"
    by (auto simp: cache_get_def map_le_def dom_def)
  from Cached.prems(1) have "cache_aware (cont v)"
    by simp
  from Cached.IH [OF rangeI this rest Cached.prems(3)] show ?case
    by (simp add: get_or_create_hit [OF hit])
next
  case (Fresh g cont)
  then show ?case by simp
qed


lemma cache_aware_replayable: "cache_aware p \<Longrightarrow> replayable p"
  unfolding replayable_def
proof (intro allI impI)
  fix c r a c' r' d s
  assume p: "cache_aware p"
    and "run p (Some c) r = (a, Some c', r') \<and> c' \<subseteq>\<^sub>m d"
  then have "run p (Some d) s = (a, Some d, s)"
    using run_replay [of p c r a c' r' d s] by simp
  then show "fst (run p (Some d) s) = a \<and> fst (snd (run p (Some d) s)) = Some d"
    by simp
qed





lemma cache_aware_and_then:
  "cache_aware p \<Longrightarrow> (\<And>a. cache_aware (f a)) \<Longrightarrow> cache_aware (and_then p f)"
  by (induction p) auto

lemma cache_aware_random_horizontal_flip:
  "cache_aware (random_horizontal_flip g fh img boxes masks keypoints perm)"
  by (simp add: random_horizontal_flip_def Let_def split: rand_var.splits)









lemma cache_aware_fnI:
  "fn_accepts_cache func \<Longrightarrow> (\<And>args params. cache_aware (fn_call func args params))
     \<Longrightarrow> cache_aware_fn func"
  by (simp add: cache_aware_fn_def cache_aware_replayable)

lemma cache_aware_fn_random_horizontal_flip:
  "cache_aware_fn (random_horizontal_flip_fn g fh)"
proof (rule cache_aware_fnI)
  show "fn_accepts_cache (random_horizontal_flip_fn g fh)"
    by (simp add: random_horizontal_flip_fn_def)
next
  fix args params
  show "cache_aware (fn_call (random_horizontal_flip_fn g fh) args params)"
    unfolding random_horizontal_flip_fn_def
    by (auto simp: cache_aware_random_horizontal_flip intro!: cache_aware_and_then
          split: option.splits kwarg.splits sum.splits prod.splits)
qed

lemma cache_aware_fn_draws_nothing:
  "cache_aware_fn func \<Longrightarrow> \<not> fn_accepts_cache func
     \<Longrightarrow> draws_nothing (fn_call func args params)"
  by (simp add: cache_aware_fn_def)

lemma not_cache_aware_fn_random_jitter_boxes:
  "\<not> cache_aware_fn (random_jitter_boxes_fn g)"
proof
  assume "cache_aware_fn (random_jitter_boxes_fn g)"
  then have "draws_nothing
               (fn_call (random_jitter_boxes_fn g)
                  [Some \<lparr>t_shape = [1, 4], t_values = [Fin 0, Fin 0, Fin 0, Fin 0]\<rparr>] [])"
    by (rule cache_aware_fn_draws_nothing) (simp add: random_jitter_boxes_fn_def)
  then show False
    by (simp add: random_jitter_boxes_fn_def random_jitter_boxes_def kw_ratio_def kw_seed_def
          boxes_of_tensor_def bind_error_def eval_nat_numeral)
qed

lemma default_map_flip:
  "get_default_func_arg_map True False False False False ''random_horizontal_flip''
   = Some [Some F_image, Some F_groundtruth_boxes, None, None]"
  by (simp add: get_default_func_arg_map_def Let_def)

lemma default_map_jitter:
  "get_default_func_arg_map True False False False False ''random_jitter_boxes''
   = Some [Some F_groundtruth_boxes]"
  by (simp add: get_default_func_arg_map_def Let_def)

lemma flip_call:
  "fn_call example_flip_fn
     [Some \<lparr>t_shape = [1, 2, 1], t_values = [a, b]\<rparr>,
      Some \<lparr>t_shape = [1, 4], t_values = [Fin 0, Fin 0, Fin (1 / 2), Fin (1 / 2)]\<rparr>,
      None, None] []
   = Cached (random_uniform example_externals) HORIZONTAL_FLIP (Key_str '''')
       (\<lambda>var. case var of
          Rand_float u \<Rightarrow>
            Return (Inr
              (if fgt u (Fin (1 / 2))
               then [\<lparr>t_shape = [1, 2, 1], t_values = [b, a]\<rparr>,
                     \<lparr>t_shape = [1, 4], t_values = [Fin 0, Fin (1 / 2), Fin (1 / 2), Fin 1]\<rparr>]
               else [\<lparr>t_shape = [1, 2, 1], t_values = [a, b]\<rparr>,
                     \<lparr>t_shape = [1, 4],
                      t_values = [Fin 0, Fin 0, Fin (1 / 2), Fin (1 / 2)]\<rparr>]))
        | _ \<Rightarrow> Return (Inl (TypeError ''the cached variable is not a scalar float'')))"
  using round32_half round32_one
  by (auto simp: example_flip_fn_def random_horizontal_flip_fn_def nth_arg_def kw_seed_def
        rank3_of_tensor_def boxes_of_tensor_def bind_error_def random_horizontal_flip_def
        tensor_of_rank3_def tensor_of_boxes_def shape_of_def flip_left_right_def
        flip_boxes_left_right_def split_boxes_def concat_boxes_def Let_def numeral_2_eq_2
        numeral_3_eq_3 eval_nat_numeral fun_eq_iff
        split: rand_var.splits)

lemma flip_fn_name: "fn_name example_flip_fn = ''random_horizontal_flip''"
  by (simp add: example_flip_fn_def random_horizontal_flip_fn_def)

lemma flip_fn_accepts_cache: "fn_accepts_cache example_flip_fn"
  by (simp add: example_flip_fn_def random_horizontal_flip_fn_def)

lemma random_uniform_example:
  "random_uniform example_externals r = (Rand_float (Fin (3 / 4)), Suc r)"
  by (simp add: example_externals_def)

lemma call_flip:
  assumes "c (HORIZONTAL_FLIP, Key_str '''') \<in> {None, Some (Rand_float (Fin (3 / 4)))}"
  shows "call_func example_flip_fn
       [Some \<lparr>t_shape = [1, 2, 1], t_values = [a, b]\<rparr>,
        Some \<lparr>t_shape = [1, 4], t_values = [Fin 0, Fin 0, Fin (1 / 2), Fin (1 / 2)]\<rparr>,
        None, None] [] (Some c) r
     = (Inr [\<lparr>t_shape = [1, 2, 1], t_values = [b, a]\<rparr>,
             \<lparr>t_shape = [1, 4], t_values = [Fin 0, Fin (1 / 2), Fin (1 / 2), Fin 1]\<rparr>],
        Some (c((HORIZONTAL_FLIP, Key_str '''') \<mapsto> Rand_float (Fin (3 / 4)))),
        if c (HORIZONTAL_FLIP, Key_str '''') = None then Suc r else r)"
proof -
  have eq: "c (HORIZONTAL_FLIP, Key_str '''') = Some (Rand_float (Fin (3 / 4)))
            \<Longrightarrow> c((HORIZONTAL_FLIP, Key_str '''') \<mapsto> Rand_float (Fin (3 / 4))) = c"
    by (rule map_upd_triv)
  show ?thesis
    unfolding call_func_def flip_call
    using assms eq
    by (auto simp: flip_fn_accepts_cache
          get_or_create_preprocess_rand_vars_def cache_get_def cache_update_def
          random_uniform_example fgt_def)
qed

lemma loop_flip:
  assumes "td F_image = Some \<lparr>t_shape = [1, 2, 1], t_values = [a, b]\<rparr>"
    and "td F_groundtruth_boxes
         = Some \<lparr>t_shape = [1, 4], t_values = [Fin 0, Fin 0, Fin (1 / 2), Fin (1 / 2)]\<rparr>"
    and "c (HORIZONTAL_FLIP, Key_str '''') \<in> {None, Some (Rand_float (Fin (3 / 4)))}"
  shows "preprocess_loop td ((example_flip_fn, []) # options)
           (get_default_func_arg_map True False False False False) (Some c) r
         = preprocess_loop
             (td(F_image \<mapsto> \<lparr>t_shape = [1, 2, 1], t_values = [b, a]\<rparr>,
                 F_groundtruth_boxes \<mapsto>
                   \<lparr>t_shape = [1, 4],
                    t_values = [Fin 0, Fin (1 / 2), Fin (1 / 2), Fin 1]\<rparr>))
             options (get_default_func_arg_map True False False False False)
             (Some (c((HORIZONTAL_FLIP, Key_str '''') \<mapsto> Rand_float (Fin (3 / 4)))))
             (if c (HORIZONTAL_FLIP, Key_str '''') = None then Suc r else r)"
  unfolding preprocess_loop.simps flip_fn_name default_map_flip
  using assms(1,2)
  by (simp add: get_arg_def call_flip [where c = c, OF assms(3), simplified] Let_def
        del: fun_upd_apply)

lemma jitter_fn_name: "fn_name example_jitter_fn = ''random_jitter_boxes''"
  by (simp add: example_jitter_fn_def random_jitter_boxes_fn_def)

lemma jitter_fn_accepts_cache: "\<not> fn_accepts_cache example_jitter_fn"
  by (simp add: example_jitter_fn_def random_jitter_boxes_fn_def)

lemma jitter_call:
  "fn_call example_jitter_fn
     [Some \<lparr>t_shape = [1, 4], t_values = [Fin 0, Fin (1 / 2), Fin (1 / 2), Fin 1]\<rparr>]
     example_jitter_params
   = and_then
       (random_jitter_boxes example_uniform_box [(Fin 0, Fin (1 / 2), Fin (1 / 2), Fin 1)]
          (Fin (1 / 4)) None)
       (\<lambda>result. Return (bind_error result (\<lambda>distorted_boxes.
          Inr [tensor_of_boxes [1, 4] distorted_boxes])))"
  by (simp add: example_jitter_fn_def example_jitter_params_def random_jitter_boxes_fn_def
        boxes_of_tensor_def kw_ratio_def kw_seed_def bind_error_def eval_nat_numeral)

lemma example_jitter_rows:
  "jitter_rows [(Fin 0, Fin (1 / 2), Fin (1 / 2), Fin 1)]
     [Fin (1 / 8), Fin (1 / 8), Fin (1 / 8), Fin (1 / 8)]
   = Inr [(Fin (1 / 16), Fin (9 / 16), Fin (9 / 16), Fin 1)]"
  "jitter_rows [(Fin 0, Fin (1 / 2), Fin (1 / 2), Fin 1)] [Fin 0, Fin 0, Fin 0, Fin 0]
   = Inr [(Fin 0, Fin (1 / 2), Fin (1 / 2), Fin 1)]"
  using round32_zero round32_half round32_one round32_sixteenth round32_nine_sixteenths
    round32_seventeen_sixteenths
  by (simp_all add: random_jitter_box_def bind_error_def clip_by_value_def tf_subtract_def
        tf_add_def tf_multiply_def flush_denormal_def pow2_def Let_def)

lemma example_uniform_box_draw:
  "example_uniform_box (Fin (1 / 4)) seed (length [b]) s
   = (Rand_floats (if even s then [Fin 0, Fin 0, Fin 0, Fin 0]
                   else [Fin (1 / 8), Fin (1 / 8), Fin (1 / 8), Fin (1 / 8)]), Suc s)"
  by (simp add: example_uniform_box_def eval_nat_numeral)

lemma run_example_jitter:
  "run (random_jitter_boxes example_uniform_box [(Fin 0, Fin (1 / 2), Fin (1 / 2), Fin 1)]
          (Fin (1 / 4)) seed) cache r
   = (Inr [if even r then (Fin 0, Fin (1 / 2), Fin (1 / 2), Fin 1)
           else (Fin (1 / 16), Fin (9 / 16), Fin (9 / 16), Fin 1)], cache, Suc r)"
proof (cases "even r")
  case True
  then show ?thesis
    unfolding random_jitter_boxes_def run.simps example_uniform_box_draw
    by (simp add: example_jitter_rows del: jitter_rows.simps)
next
  case False
  then show ?thesis
    unfolding random_jitter_boxes_def run.simps example_uniform_box_draw
    by (simp add: example_jitter_rows del: jitter_rows.simps)
qed

lemma call_jitter:
  "call_func example_jitter_fn
     [Some \<lparr>t_shape = [1, 4], t_values = [Fin 0, Fin (1 / 2), Fin (1 / 2), Fin 1]\<rparr>]
     example_jitter_params cache r
   = (Inr [\<lparr>t_shape = [1, 4],
            t_values = (if even r then [Fin 0, Fin (1 / 2), Fin (1 / 2), Fin 1]
                        else [Fin (1 / 16), Fin (9 / 16), Fin (9 / 16), Fin 1])\<rparr>],
      cache, Suc r)"
  unfolding call_func_def jitter_call run_and_then run_example_jitter
  by (simp add: jitter_fn_accepts_cache bind_error_def tensor_of_boxes_def)

lemma loop_jitter:
  assumes "td F_groundtruth_boxes
           = Some \<lparr>t_shape = [1, 4], t_values = [Fin 0, Fin (1 / 2), Fin (1 / 2), Fin 1]\<rparr>"
  shows "preprocess_loop td ((example_jitter_fn, example_jitter_params) # options)
           (get_default_func_arg_map True False False False False) cache r
         = preprocess_loop
             (td(F_groundtruth_boxes \<mapsto>
                   \<lparr>t_shape = [1, 4],
                    t_values = (if even r then [Fin 0, Fin (1 / 2), Fin (1 / 2), Fin 1]
                                else [Fin (1 / 16), Fin (9 / 16), Fin (9 / 16), Fin 1])\<rparr>))
             options (get_default_func_arg_map True False False False False) cache (Suc r)"
  unfolding preprocess_loop.simps jitter_fn_name default_map_jitter
  using assms
  by (simp add: get_arg_def call_jitter [simplified] Let_def del: fun_upd_apply)

lemma preprocess_squeezed:
  assumes "tensor_dict F_image = Some \<lparr>t_shape = [1, h, w, ch], t_values = vs\<rparr>"
  shows "preprocess tensor_dict preprocess_options None cache r
         = (case preprocess_loop
                   (tensor_dict(F_image \<mapsto> \<lparr>t_shape = [h, w, ch], t_values = vs\<rparr>))
                   preprocess_options (get_default_func_arg_map True False False False False)
                   cache r of
              ((Some e, td), ca, ra) \<Rightarrow> ((Some e, td), ca, ra)
            | ((None, td), ca, ra) \<Rightarrow>
                (case td F_image of
                   None \<Rightarrow> ((None, td), ca, ra)
                 | Some img \<Rightarrow> ((None, td(F_image \<mapsto> expand_dims_0 img)), ca, ra)))"
  using assms
  by (simp add: preprocess_def squeeze_axis_0_def bind_error_def Let_def
        split: prod.splits sum.splits option.splits)


lemma preprocess_flip_jitter:
  assumes "c (HORIZONTAL_FLIP, Key_str '''') \<in> {None, Some (Rand_float (Fin (3 / 4)))}"
  shows "preprocess (image_and_boxes [a, b] [Fin 0, Fin 0, Fin (1 / 2), Fin (1 / 2)])
           [(example_flip_fn, []), (example_jitter_fn, example_jitter_params)] None (Some c) r
         = ((None, image_and_boxes [b, a]
                   (if even (if c (HORIZONTAL_FLIP, Key_str '''') = None then Suc r else r)
                    then [Fin 0, Fin (1 / 2), Fin (1 / 2), Fin 1]
                    else [Fin (1 / 16), Fin (9 / 16), Fin (9 / 16), Fin 1])),
            Some (c((HORIZONTAL_FLIP, Key_str '''') \<mapsto> Rand_float (Fin (3 / 4)))),
            Suc (if c (HORIZONTAL_FLIP, Key_str '''') = None then Suc r else r))"
proof -
  let ?td = "image_and_boxes [a, b] [Fin 0, Fin 0, Fin (1 / 2), Fin (1 / 2)]"
  let ?s = "if c (HORIZONTAL_FLIP, Key_str '''') = None then Suc r else r"
  let ?j = "if even ?s then [Fin 0, Fin (1 / 2), Fin (1 / 2), Fin 1]
            else [Fin (1 / 16), Fin (9 / 16), Fin (9 / 16), Fin 1]"
  let ?flipped = "(?td(F_image \<mapsto> \<lparr>t_shape = [1, 2, 1], t_values = [a, b]\<rparr>))
                  (F_image \<mapsto> \<lparr>t_shape = [1, 2, 1], t_values = [b, a]\<rparr>,
                   F_groundtruth_boxes \<mapsto>
                     \<lparr>t_shape = [1, 4],
                      t_values = [Fin 0, Fin (1 / 2), Fin (1 / 2), Fin 1]\<rparr>)"
  have sq: "?td F_image = Some \<lparr>t_shape = [1, 1, 2, 1], t_values = [a, b]\<rparr>"
    by (simp add: image_and_boxes_def)
  have l: "preprocess_loop (?td(F_image \<mapsto> \<lparr>t_shape = [1, 2, 1], t_values = [a, b]\<rparr>))
             ((example_flip_fn, []) # [(example_jitter_fn, example_jitter_params)])
             (get_default_func_arg_map True False False False False) (Some c) r
           = preprocess_loop ?flipped
               [(example_jitter_fn, example_jitter_params)]
               (get_default_func_arg_map True False False False False)
               (Some (c((HORIZONTAL_FLIP, Key_str '''') \<mapsto> Rand_float (Fin (3 / 4))))) ?s"
    by (rule loop_flip) (use assms in \<open>simp_all add: image_and_boxes_def\<close>)
  have j: "preprocess_loop ?flipped
             ((example_jitter_fn, example_jitter_params) # [])
             (get_default_func_arg_map True False False False False)
             (Some (c((HORIZONTAL_FLIP, Key_str '''') \<mapsto> Rand_float (Fin (3 / 4))))) ?s
           = preprocess_loop
               (?flipped(F_groundtruth_boxes \<mapsto> \<lparr>t_shape = [1, 4], t_values = ?j\<rparr>))
               [] (get_default_func_arg_map True False False False False)
               (Some (c((HORIZONTAL_FLIP, Key_str '''') \<mapsto> Rand_float (Fin (3 / 4)))))
               (Suc ?s)"
    by (rule loop_jitter) simp
  have m: "(?flipped(F_groundtruth_boxes \<mapsto> \<lparr>t_shape = [1, 4], t_values = ?j\<rparr>,
                     F_image \<mapsto> \<lparr>t_shape = [1, 1, 2, 1], t_values = [b, a]\<rparr>))
           = image_and_boxes [b, a] ?j"
    by (rule ext) (simp add: image_and_boxes_def)
  show ?thesis
    unfolding preprocess_squeezed [where tensor_dict = ?td, OF sq] l j
    using m by (simp add: expand_dims_0_def)
qed



lemma cache_aware_example_flip_fn: "cache_aware_fn example_flip_fn"
  unfolding example_flip_fn_def by (rule cache_aware_fn_random_horizontal_flip)




section \<open>The interface of preprocess: batched images\<close>

text \<open>
  C10. When the input record holds an image whose rank is not 4, \<open>preprocess\<close> raises the
  \<open>ValueError\<close> whatever the operation list and the argument map are: no operation is
  applied, so the record, the cache and the random source are as they were. This holds
  of the rank-3 image that the operations themselves take.
\<close>

theorem preprocess_rejects_unbatched_image:
  "tensor_dict F_image = Some images \<and> length (t_shape images) \<noteq> 4 \<longrightarrow>
     preprocess tensor_dict preprocess_options func_arg_map preprocess_vars_cache r
     = ((Some (ValueError ''images in tensor_dict should be rank 4''), tensor_dict),
        preprocess_vars_cache, r)"
  by (simp add: preprocess_def Let_def)

theorem preprocess_rejects_unbatched_image_witness:
  "unbatched_tensor_dict F_image = Some \<lparr>t_shape = [1, 2, 1], t_values = [Fin 100, Fin 50]\<rparr>
   \<and> length (t_shape \<lparr>t_shape = [1, 2, 1], t_values = [Fin 100, Fin 50 :: ieee]\<rparr>) \<noteq> 4
   \<and> preprocess unbatched_tensor_dict [(example_flip_fn, [])] None (Some Map.empty) 0
      = ((Some (ValueError ''images in tensor_dict should be rank 4''), unbatched_tensor_dict),
         Some Map.empty, 0)
   \<and> call_func example_flip_fn
        [Some \<lparr>t_shape = [1, 2, 1], t_values = [Fin 100, Fin 50]\<rparr>,
         Some \<lparr>t_shape = [1, 4], t_values = [Fin 0, Fin 0, Fin (1 / 2), Fin (1 / 2)]\<rparr>,
         None, None] [] (Some Map.empty) 0
      = (Inr [\<lparr>t_shape = [1, 2, 1], t_values = [Fin 50, Fin 100]\<rparr>,
              \<lparr>t_shape = [1, 4], t_values = [Fin 0, Fin (1 / 2), Fin (1 / 2), Fin 1]\<rparr>],
         Some flip_cache, Suc 0)"
proof -
  have accepted:
    "call_func example_flip_fn
        [Some \<lparr>t_shape = [1, 2, 1], t_values = [Fin 100, Fin 50]\<rparr>,
         Some \<lparr>t_shape = [1, 4], t_values = [Fin 0, Fin 0, Fin (1 / 2), Fin (1 / 2)]\<rparr>,
         None, None] [] (Some Map.empty) 0
      = (Inr [\<lparr>t_shape = [1, 2, 1], t_values = [Fin 50, Fin 100]\<rparr>,
              \<lparr>t_shape = [1, 4], t_values = [Fin 0, Fin (1 / 2), Fin (1 / 2), Fin 1]\<rparr>],
         Some flip_cache, Suc 0)"
    by (subst call_flip) (simp_all add: flip_cache_def)
  have img: "unbatched_tensor_dict F_image
             = Some \<lparr>t_shape = [1, 2, 1], t_values = [Fin 100, Fin 50]\<rparr>"
    by (simp add: unbatched_tensor_dict_def)
  from preprocess_rejects_unbatched_image
    [where tensor_dict = unbatched_tensor_dict
       and images = "\<lparr>t_shape = [1, 2, 1], t_values = [Fin 100, Fin 50]\<rparr>"
       and preprocess_options = "[(example_flip_fn, [])]" and func_arg_map = None
       and preprocess_vars_cache = "Some Map.empty" and r = 0]
    accepted img
  show ?thesis
    by simp
qed

section \<open>Jittering boxes: no caching\<close>

lemma example_preprocess_flip_jitter_first:
  "preprocess example_tensor_dict [(example_flip_fn, []), (example_jitter_fn, example_jitter_params)] None
     (Some Map.empty) 0
   = ((None, image_and_boxes [Fin 50, Fin 100]
               [Fin (1 / 16), Fin (9 / 16), Fin (9 / 16), Fin 1]),
      Some flip_cache, Suc (Suc 0))"
  unfolding example_tensor_dict_def
  by (subst preprocess_flip_jitter) (simp_all add: flip_cache_def)

lemma example_preprocess_flip_jitter_second:
  "preprocess example_tensor_dict [(example_flip_fn, []), (example_jitter_fn, example_jitter_params)] None
     (Some flip_cache) (Suc (Suc 0))
   = ((None, image_and_boxes [Fin 50, Fin 100]
               [Fin 0, Fin (1 / 2), Fin (1 / 2), Fin 1]),
      Some flip_cache, Suc (Suc (Suc 0)))"
  unfolding example_tensor_dict_def
  by (subst preprocess_flip_jitter) (simp_all add: flip_cache_def)

text \<open>
  C3. \<open>random_jitter_boxes\<close> has no cache among its arguments, and \<open>preprocess\<close> calls it as
  with no cache, the shared cache staying as it is. Its program is a draw taken directly
  from the generator, so it is not cache-aware, and its run is the draw of the generator
  at the current state of the random source, whatever the cache holds. In the setting of
  the examples two calls of \<open>preprocess\<close> with a flip and a jitter share a cache: the second
  call flips as the first one did, and jitters the boxes differently.
\<close>

theorem random_jitter_boxes_not_cached:
  "\<not> fn_accepts_cache (random_jitter_boxes_fn g)
   \<and> call_func (random_jitter_boxes_fn g) args params cache r
     = (case run (fn_call (random_jitter_boxes_fn g) args params) None r of
          (results, unused, r') \<Rightarrow> (results, cache, r'))
   \<and> \<not> cache_aware (random_jitter_boxes g bs ratio seed)
   \<and> \<not> cache_aware_fn (random_jitter_boxes_fn g)
   \<and> (g ratio seed (length bs) r = (Rand_floats rand_numbers, r') \<longrightarrow>
        run (random_jitter_boxes g bs ratio seed) cache r
        = (jitter_rows bs rand_numbers, cache, r'))
   \<and> cache_aware_fn example_flip_fn
   \<and> preprocess example_tensor_dict [(example_flip_fn, []), (example_jitter_fn, example_jitter_params)] None
        (Some Map.empty) 0
      = ((None, image_and_boxes [Fin 50, Fin 100]
                  [Fin (1 / 16), Fin (9 / 16), Fin (9 / 16), Fin 1]),
         Some flip_cache, Suc (Suc 0))
   \<and> preprocess example_tensor_dict [(example_flip_fn, []), (example_jitter_fn, example_jitter_params)] None
        (Some flip_cache) (Suc (Suc 0))
      = ((None, image_and_boxes [Fin 50, Fin 100]
                  [Fin 0, Fin (1 / 2), Fin (1 / 2), Fin 1]),
         Some flip_cache, Suc (Suc (Suc 0)))"
proof -
  have "\<not> fn_accepts_cache (random_jitter_boxes_fn g)"
    by (simp add: random_jitter_boxes_fn_def)
  moreover from this have
    "call_func (random_jitter_boxes_fn g) args params cache r
     = (case run (fn_call (random_jitter_boxes_fn g) args params) None r of
          (results, unused, r') \<Rightarrow> (results, cache, r'))"
    by (simp add: call_func_def)
  moreover have "\<not> cache_aware (random_jitter_boxes g bs ratio seed)"
    by (simp add: random_jitter_boxes_def)
  moreover have "g ratio seed (length bs) r = (Rand_floats rand_numbers, r') \<longrightarrow>
        run (random_jitter_boxes g bs ratio seed) cache r
        = (jitter_rows bs rand_numbers, cache, r')"
    by (simp add: random_jitter_boxes_def)
  ultimately show ?thesis
    using not_cache_aware_fn_random_jitter_boxes [of g]
      cache_aware_example_flip_fn example_preprocess_flip_jitter_first
      example_preprocess_flip_jitter_second
    by blast
qed

theorem random_jitter_boxes_not_cached_witness:
  "example_uniform_box (Fin (1 / 4)) None (length [(Fin 0, Fin (1 / 2), Fin (1 / 2), Fin 1)])
       (Suc 0)
     = (Rand_floats [Fin (1 / 8), Fin (1 / 8), Fin (1 / 8), Fin (1 / 8)], Suc (Suc 0))
   \<and> run (random_jitter_boxes example_uniform_box [(Fin 0, Fin (1 / 2), Fin (1 / 2), Fin 1)]
            (Fin (1 / 4)) None) (Some flip_cache) (Suc 0)
      = (Inr [(Fin (1 / 16), Fin (9 / 16), Fin (9 / 16), Fin 1)], Some flip_cache,
         Suc (Suc 0))
   \<and> example_uniform_box (Fin (1 / 4)) None (length [(Fin 0, Fin (1 / 2), Fin (1 / 2), Fin 1)])
       (Suc (Suc 0))
     = (Rand_floats [Fin 0, Fin 0, Fin 0, Fin 0], Suc (Suc (Suc 0)))
   \<and> run (random_jitter_boxes example_uniform_box [(Fin 0, Fin (1 / 2), Fin (1 / 2), Fin 1)]
            (Fin (1 / 4)) None) (Some flip_cache) (Suc (Suc 0))
      = (Inr [(Fin 0, Fin (1 / 2), Fin (1 / 2), Fin 1)], Some flip_cache, Suc (Suc (Suc 0)))"
proof -
  let ?b = "[(Fin 0, Fin (1 / 2), Fin (1 / 2), Fin 1)]"
  have g1: "example_uniform_box (Fin (1 / 4)) None (length ?b) (Suc 0)
            = (Rand_floats [Fin (1 / 8), Fin (1 / 8), Fin (1 / 8), Fin (1 / 8)], Suc (Suc 0))"
    unfolding example_uniform_box_draw by simp
  have g2: "example_uniform_box (Fin (1 / 4)) None (length ?b) (Suc (Suc 0))
            = (Rand_floats [Fin 0, Fin 0, Fin 0, Fin 0], Suc (Suc (Suc 0)))"
    unfolding example_uniform_box_draw by simp
  note t = random_jitter_boxes_not_cached
    [where g = example_uniform_box and bs = ?b and ratio = "Fin (1 / 4)" and seed = None
       and cache = "Some flip_cache",
     THEN conjunct2, THEN conjunct2, THEN conjunct2, THEN conjunct2, THEN conjunct1,
     rule_format]
  from t [OF g1] t [OF g2] g1 g2 show ?thesis
    unfolding example_jitter_rows by simp
qed

end
